theory Spec2Isabelle
  imports Complex_Main "HOL-Library.Monad_Syntax" "HOL-Library.Multiset"
begin

section \<open>JavaScript strings\<close>

text \<open>
  A JavaScript string is a sequence of UTF-16 code units. The model keeps the code units
  U+0000 to U+00FF, one \<^typ>\<open>char\<close> each (the Latin-1 block), which covers every
  literal of the source. \<open>toLowerCase\<close>, \<open>trim\<close> and the regular-expression class
  \<open>\s\<close> are written out for that range as ECMAScript defines them.
\<close>

definition toLowerChar :: "char \<Rightarrow> char" where
  "toLowerChar c =
     (let n = (of_char c :: nat)
      in if (65 \<le> n \<and> n \<le> 90) \<or> (192 \<le> n \<and> n \<le> 222 \<and> n \<noteq> 215)
         then char_of (n + 32) else c)"

definition toLowerCase :: "string \<Rightarrow> string" where
  "toLowerCase s = map toLowerChar s"

text \<open>White space and line terminators of ECMAScript below U+0100:
  TAB, LF, VT, FF, CR, SP and NBSP.\<close>

definition isWhiteSpace :: "char \<Rightarrow> bool" where
  "isWhiteSpace c = ((of_char c :: nat) \<in> {9, 10, 11, 12, 13, 32, 160})"

definition trim :: "string \<Rightarrow> string" where
  "trim s = rev (dropWhile isWhiteSpace (rev (dropWhile isWhiteSpace s)))"

definition startsWith :: "string \<Rightarrow> string \<Rightarrow> bool" where
  "startsWith s t = (take (length t) s = t)"

text \<open>\<open>s.includes(t)\<close>: \<open>t\<close> occurs in \<open>s\<close> as a contiguous substring.\<close>

fun js_includes :: "string \<Rightarrow> string \<Rightarrow> bool" where
  "js_includes [] t = (t = [])"
| "js_includes (c # cs) t = (startsWith (c # cs) t \<or> js_includes cs t)"

text \<open>\<open>s.split(",")\<close> with a one-character separator: \<open>k\<close> separators give \<open>k + 1\<close>
  pieces, and the empty string gives one empty piece.\<close>

fun js_split :: "char \<Rightarrow> string \<Rightarrow> string list" where
  "js_split sep [] = [[]]"
| "js_split sep (c # cs) =
     (if c = sep then [] # js_split sep cs
      else (case js_split sep cs of
              [] \<Rightarrow> [[c]]
            | p # ps \<Rightarrow> (c # p) # ps))"

text \<open>Decimal rendering of a number inside a template literal.\<close>

fun string_of_nat :: "nat \<Rightarrow> string" where
  "string_of_nat n =
     (if n < 10 then [char_of (48 + n)]
      else string_of_nat (n div 10) @ [char_of (48 + n mod 10)])"

definition string_of_int :: "int \<Rightarrow> string" where
  "string_of_int i = (if i < 0 then CHR ''-'' # string_of_nat (nat (- i)) else string_of_nat (nat i))"

text \<open>\<open>xs.join(', ')\<close>.\<close>

fun join :: "string \<Rightarrow> string list \<Rightarrow> string" where
  "join sep [] = []"
| "join sep [x] = x"
| "join sep (x # y # ys) = x @ sep @ join sep (y # ys)"

section \<open>Configuration (config.js)\<close>

text \<open>
  \<^verbatim>\<open>allowedDatabases: (process.env.SQL_ALLOWED_DATABASES || "").split(",").filter(Boolean)\<close>
  The environment variable is absent (\<open>None\<close>) or a string; \<open>Boolean\<close> keeps the
  non-empty pieces.
\<close>

definition allowedDatabases_of_env :: "string option \<Rightarrow> string list" where
  "allowedDatabases_of_env env =
     filter (\<lambda>p. p \<noteq> [])
       (js_split CHR '','' (case env of None \<Rightarrow> [] | Some v \<Rightarrow> (if v = [] then [] else v)))"

text \<open>An entry is trimmed when \<open>trim\<close> leaves it as it is.\<close>

definition trimmed :: "string \<Rightarrow> bool" where
  "trimmed s = (trim s = s)"

section \<open>Stored-procedure parameter types (DatabaseService.sqlDataTypeMap)\<close>

datatype SqlType =
    sql_BigInt | sql_Binary | sql_Bit | sql_Char | sql_Date | sql_DateTime | sql_DateTime2 | sql_DateTimeOffset
  | sql_Decimal | sql_Float | sql_Geography | sql_Geometry | sql_Image | sql_Int | sql_Money | sql_NChar | sql_NText
  | sql_Numeric | sql_NVarChar | sql_Real | sql_SmallDateTime | sql_SmallInt | sql_SmallMoney | sql_Text | sql_Time
  | sql_TinyInt | sql_TVP | sql_UniqueIdentifier | sql_VarBinary | sql_VarChar | sql_Variant | sql_Xml

definition sqlDataTypeMap :: "(string \<times> SqlType) list" where
  "sqlDataTypeMap =
    [(''bigint'', sql_BigInt), (''binary'', sql_Binary), (''bit'', sql_Bit), (''char'', sql_Char),
     (''date'', sql_Date), (''datetime'', sql_DateTime), (''datetime2'', sql_DateTime2),
     (''datetimeoffset'', sql_DateTimeOffset), (''decimal'', sql_Decimal), (''float'', sql_Float),
     (''geography'', sql_Geography), (''geometry'', sql_Geometry), (''image'', sql_Image),
     (''int'', sql_Int), (''money'', sql_Money), (''nchar'', sql_NChar), (''ntext'', sql_NText),
     (''numeric'', sql_Numeric), (''nvarchar'', sql_NVarChar), (''real'', sql_Real),
     (''smalldatetime'', sql_SmallDateTime), (''smallint'', sql_SmallInt),
     (''smallmoney'', sql_SmallMoney), (''text'', sql_Text), (''time'', sql_Time),
     (''tinyint'', sql_TinyInt), (''tvp'', sql_TVP), (''uniqueidentifier'', sql_UniqueIdentifier),
     (''varbinary'', sql_VarBinary), (''varchar'', sql_VarChar), (''variant'', sql_Variant),
     (''xml'', sql_Xml),
     (''string'', sql_NVarChar), (''number'', sql_Int), (''boolean'', sql_Bit)]"

text \<open>
  \<open>mapStringToSqlType\<close>: the lookup of the lowercased, trimmed name; a miss logs a
  warning and returns \<open>sql.NVarChar\<close>. The function has no throwing path.
\<close>

definition mapStringToSqlType :: "string \<Rightarrow> SqlType" where
  "mapStringToSqlType typeName =
     (let normalizedTypeName = trim (toLowerCase typeName)
      in case map_of sqlDataTypeMap normalizedTypeName of
           None \<Rightarrow> sql_NVarChar
         | Some sqlTypeFactory \<Rightarrow> sqlTypeFactory)"


section \<open>Structured errors (errors.ts)\<close>

datatype ErrorType =
    UNKNOWN_ERROR | CONNECTION_ERROR | CONNECTION_TIMEOUT | QUERY_ERROR
  | STORED_PROCEDURE_ERROR | SCHEMA_ERROR | VALIDATION_ERROR | PERMISSION_ERROR
  | DATABASE_ERROR | SQL_PARSER_ERROR

text \<open>
  \<open>ErrorDetails\<close> is \<open>Record<string, any>\<close>: an object whose keys keep their insertion
  order. The values the service stores are strings, numbers and string arrays, and
  \<open>undefined\<close> where it copies a property that is absent; any other value (a parameter
  object, a thrown non-Error object) is \<open>DOpaque\<close>.
\<close>

datatype dval = DStr string | DNum int | DStrs "string list" | DUndefined | DOpaque

type_synonym ErrorDetails = "(string \<times> dval) list"

text \<open>Property assignment \<open>o[k] = v\<close> and object spread \<open>{...a, ...b}\<close>.\<close>

fun obj_set :: "string \<Rightarrow> dval \<Rightarrow> ErrorDetails \<Rightarrow> ErrorDetails" where
  "obj_set k v [] = [(k, v)]"
| "obj_set k v ((k', v') # kvs) =
     (if k' = k then (k, v) # kvs else (k', v') # obj_set k v kvs)"

definition spread :: "ErrorDetails \<Rightarrow> ErrorDetails \<Rightarrow> ErrorDetails" where
  "spread a b = fold (\<lambda>(k, v) acc. obj_set k v acc) b a"

text \<open>A native \<open>Error\<close> as the driver or the parser throws it: its message, the
  \<open>code\<close> property some driver errors carry, and the stack trace if present.\<close>

record JsError =
  js_message :: string
  js_code :: "string option"
  js_stack :: "string option"

record MssqlMcpError =
  message :: string
  errorType :: ErrorType
  originalError :: "JsError option"
  details :: "ErrorDetails option"

text \<open>
  A caught value (\<open>unknown\<close>): an \<open>MssqlMcpError\<close> of the service, or a foreign value.
  Foreign values are what the driver and the parser can throw; neither can construct
  the service's own error class. A thrown object that is not an \<open>Error\<close> may
  carry a string \<open>message\<close> property; a number, boolean or \<open>undefined\<close> is kept by
  its \<open>String(...)\<close> rendering; \<open>null\<close> is apart because \<open>typeof null\<close> is
  \<open>'object'\<close>.
\<close>

datatype foreign =
    JsErr JsError
  | JsStr string
  | JsObj "string option"
  | JsPrim string
  | JsNull

datatype thrown = Mcp MssqlMcpError | Foreign foreign

text \<open>An \<open>MssqlMcpError\<close> where an \<open>Error\<close> is expected (it extends \<open>Error\<close>).\<close>

definition asError :: "MssqlMcpError \<Rightarrow> JsError" where
  "asError e = \<lparr>js_message = message e, js_code = None, js_stack = None\<rparr>"

text \<open>\<open>String(x)\<close> of a foreign value.\<close>

fun String_of :: "foreign \<Rightarrow> string" where
  "String_of (JsErr e) = ''Error: '' @ js_message e"
| "String_of (JsStr s) = s"
| "String_of (JsObj m) = ''[object Object]''"
| "String_of (JsPrim s) = s"
| "String_of JsNull = ''null''"

text \<open>\<open>new MssqlMcpError(message, errorType, originalError, details)\<close>.\<close>

definition new_MssqlMcpError ::
  "string \<Rightarrow> ErrorType \<Rightarrow> JsError option \<Rightarrow> ErrorDetails option \<Rightarrow> MssqlMcpError" where
  "new_MssqlMcpError m t orig d =
     \<lparr>message = m, errorType = t, originalError = orig, details = d\<rparr>"

text \<open>
  \<open>MssqlMcpError.fromError(error, defaultErrorType, additionalDetails)\<close>. An
  \<open>MssqlMcpError\<close> keeps its kind and only gains the additional details; any other
  value is wrapped under the default kind.
\<close>

definition orEmpty :: "ErrorDetails option \<Rightarrow> ErrorDetails" where
  "orEmpty d = (case d of None \<Rightarrow> [] | Some kvs \<Rightarrow> kvs)"

fun fromError :: "thrown \<Rightarrow> ErrorType \<Rightarrow> ErrorDetails option \<Rightarrow> MssqlMcpError" where
  "fromError (Mcp error) defaultErrorType additionalDetails =
     (case additionalDetails of
        None \<Rightarrow> error
      | Some ad \<Rightarrow> error\<lparr>details := Some (spread (orEmpty (details error)) ad)\<rparr>)"
| "fromError (Foreign (JsErr e)) defaultErrorType additionalDetails =
     new_MssqlMcpError (js_message e) defaultErrorType (Some e)
       (Some (spread (case js_stack e of None \<Rightarrow> [] | Some st \<Rightarrow> (if st = [] then [] else [(''stack'', DStr st)]))
                     (orEmpty additionalDetails)))"
| "fromError (Foreign (JsStr s)) defaultErrorType additionalDetails =
     new_MssqlMcpError s defaultErrorType None
       (Some (spread [(''originalValue'', DStr s)] (orEmpty additionalDetails)))"
| "fromError (Foreign (JsObj m)) defaultErrorType additionalDetails =
     new_MssqlMcpError (case m of None \<Rightarrow> ''An unknown error occurred'' | Some msg \<Rightarrow> msg)
       defaultErrorType None
       (Some (spread [(''originalValue'', DOpaque)] (orEmpty additionalDetails)))"
| "fromError (Foreign (JsPrim p)) defaultErrorType additionalDetails =
     new_MssqlMcpError ''An unknown error occurred'' defaultErrorType None
       (Some (spread [(''originalValue'', DOpaque)] (orEmpty additionalDetails)))"
| "fromError (Foreign JsNull) defaultErrorType additionalDetails =
     new_MssqlMcpError ''An unknown error occurred'' defaultErrorType None
       (Some (orEmpty additionalDetails))"

text \<open>Reading a detail: \<open>error.details?.[k]\<close>.\<close>

definition detail :: "MssqlMcpError \<Rightarrow> string \<Rightarrow> dval option" where
  "detail e k = map_of (orEmpty (details e)) k"


section \<open>The service: configuration, state and the outside world\<close>

text \<open>\<open>SqlConfig\<close>, with the fields the service reads. \<open>password\<close>, the two timeouts
  and \<open>allowedDatabases\<close> are optional in the interface.\<close>

record SqlConfig =
  server :: string
  port :: int
  user :: string
  password :: "string option"
  database :: string
  requestTimeout :: "int option"
  connectionTimeout :: "int option"
  maxRetries :: int
  initialRetryDelay :: int
  maxRetryDelay :: int
  schemaCacheTTL :: int
  allowedDatabases :: "string list option"

text \<open>A \<open>sql.ConnectionPool\<close> object: its identity and its \<open>connected\<close> flag.\<close>

record ConnectionPool =
  pool_id :: nat
  connected :: bool

text \<open>
  \<open>connectionPromise\<close> as one task sees it. The model runs one task at a time, so a
  promise the task reads has settled: it resolved to the pool with the given identity, or
  it was rejected.
\<close>

datatype Promise = Resolved nat | Rejected thrown

record Column =
  col_name :: string
  col_type :: string
  nullable :: bool
  primary :: bool

record TableSchema =
  schema :: string
  name :: string
  fullName :: string
  columns :: "Column list"

text \<open>
  Every call that leaves the process is recorded in \<open>trace\<close>, oldest first: the service
  does not read it, the theorems do.
\<close>

datatype event =
    EvConnect nat
  | EvPoolClose nat
  | EvSleep real
  | EvProbe
  | EvBatch string
  | EvQuery string
  | EvSchemaQuery
  | EvInput string SqlType
  | EvExecute string

record DatabaseService =
  pool :: "ConnectionPool option"
  connectionPromise :: "Promise option"
  isConnecting :: bool
  abortController :: "bool option"
  schemaCache :: "string \<rightharpoonup> (int \<times> TableSchema list)"
  connectionRetries :: int
  trace :: "event list"

text \<open>
  \<open>abortController\<close> is \<open>None\<close> for \<open>null\<close> and \<open>Some aborted\<close> otherwise.
  \<open>schemaCache\<close> maps a database identifier to \<open>(timestamp, data)\<close>.
\<close>

subsection \<open>What the driver, the parser and the runtime answer\<close>

datatype sqlvalue = SqlNull | SqlNum int | SqlText string | SqlBool bool

type_synonym row = "(string \<times> sqlvalue) list"

record ColumnMeta =
  cm_index :: int
  cm_name :: string

text \<open>\<open>sql.IRecordSet\<close>: the rows, and \<open>recordset.columns\<close> as \<open>Object.values\<close> lists
  it when present.\<close>

record IRecordSet =
  rs_rows :: "row list"
  rs_columns :: "ColumnMeta list option"

record IProcedureResult =
  pr_recordset :: "IRecordSet option"
  pr_output :: "(string \<times> sqlvalue) list"
  pr_returnValue :: sqlvalue
  pr_rowsAffected :: "int list"

record SchemaQueryRow =
  TABLE_SCHEMA :: string
  TABLE_NAME :: string
  COLUMN_NAME :: string
  DATA_TYPE :: string
  CHARACTER_MAXIMUM_LENGTH :: "int option"
  NUMERIC_PRECISION :: "int option"
  NUMERIC_SCALE :: "int option"
  IS_NULLABLE :: string
  IS_PRIMARY_KEY :: int
  ORDINAL_POSITION :: int

text \<open>
  The parser's result: one statement or an array of statements. The service reads one
  property of a statement, \<open>type\<close>, and the variable that holds the result is untyped:
  a statement is kept as the value of \<open>q.type\<close>, \<open>None\<close> when the parser built the
  statement without that property (\<open>undefined\<close>).
\<close>

type_synonym statement = "string option"

datatype ast = Single statement | Many "statement list"

text \<open>\<open>poolInstance.connect()\<close> raced against the connection timer.\<close>

datatype connect_outcome = Connected | ConnectFailed foreign | ConnectTimedOut

text \<open>
  The answers of the outside world. An answer is indexed by the number of calls recorded
  so far (\<open>length (trace s)\<close>), so that the same call made later may be answered
  differently. \<open>astify\<close> is the parser and depends on the text alone.
\<close>

record Driver =
  drv_connect :: "nat \<Rightarrow> connect_outcome"
  Math_random :: "nat \<Rightarrow> real"
  Date_now :: "nat \<Rightarrow> int"
  drv_probe :: "nat \<Rightarrow> foreign option"
  drv_batch :: "nat \<Rightarrow> string \<Rightarrow> foreign option"
  drv_query :: "nat \<Rightarrow> string \<Rightarrow> foreign + IRecordSet option"
  drv_schemaQuery :: "nat \<Rightarrow> foreign + SchemaQueryRow list"
  drv_input :: "nat \<Rightarrow> string \<Rightarrow> SqlType \<Rightarrow> sqlvalue \<Rightarrow> foreign option"
  drv_execute :: "nat \<Rightarrow> string \<Rightarrow> foreign + IProcedureResult"
  astify :: "string \<Rightarrow> foreign + ast"

definition emit :: "event \<Rightarrow> DatabaseService \<Rightarrow> DatabaseService" where
  "emit e s = s\<lparr>trace := trace s @ [e]\<rparr>"

definition step :: "DatabaseService \<Rightarrow> nat" where
  "step s = length (trace s)"


section \<open>Connection pool manager\<close>

text \<open>\<open>this.pool && this.pool.connected\<close>: the pool when that holds.\<close>

definition livePool :: "DatabaseService \<Rightarrow> ConnectionPool option" where
  "livePool s = (case pool s of None \<Rightarrow> None | Some p \<Rightarrow> (if connected p then Some p else None))"

text \<open>
  \<open>closePool\<close>: abort and drop the controller; close the pool if there is one (an error
  of \<open>close\<close> is logged and swallowed) and, in the \<open>finally\<close>, clear \<open>pool\<close> and
  \<open>connectionPromise\<close>.
\<close>

definition closePool :: "DatabaseService \<Rightarrow> DatabaseService" where
  "closePool s =
     (let s1 = (case abortController s of None \<Rightarrow> s | Some a \<Rightarrow> s\<lparr>abortController := None\<rparr>)
      in case pool s1 of
           None \<Rightarrow> s1
         | Some p \<Rightarrow> (emit (EvPoolClose (pool_id p)) s1)\<lparr>pool := None, connectionPromise := None\<rparr>)"

text \<open>\<open>!this.sqlConfig.password\<close>: absent or empty.\<close>

definition passwordMissing :: "SqlConfig \<Rightarrow> bool" where
  "passwordMissing cfg = (case password cfg of None \<Rightarrow> True | Some pw \<Rightarrow> pw = [])"

text \<open>\<open>this.sqlConfig.connectionTimeout || 30000\<close>.\<close>

definition connectTimeout :: "SqlConfig \<Rightarrow> int" where
  "connectTimeout cfg = (case connectionTimeout cfg of None \<Rightarrow> 30000 | Some t \<Rightarrow> (if t = 0 then 30000 else t))"

text \<open>
  The error a failed \<open>connectWithTimeout\<close> throws: the timer's \<open>ConnectionTimeout\<close>
  error, or the driver's rejection wrapped by \<open>fromError\<close> as a \<open>ConnectionError\<close>.
\<close>

definition connectFailure :: "SqlConfig \<Rightarrow> connect_outcome \<Rightarrow> MssqlMcpError" where
  "connectFailure cfg outcome =
     (case outcome of
        ConnectFailed x \<Rightarrow>
          fromError (Foreign x) CONNECTION_ERROR
            (Some [(''customMessage'', DStr ''DatabaseService: Failed to connect to SQL Server.'')])
      | _ \<Rightarrow>
          new_MssqlMcpError
            (''DatabaseService: Connection attempt timed out after '' @ string_of_int (connectTimeout cfg) @ ''ms'')
            CONNECTION_TIMEOUT None None)"

text \<open>
  \<open>initPool\<close>, for one task running alone (no abort arrives during the attempt, so every
  \<open>signal.aborted\<close> test is false). In source order:
  \<^item> a pending promise with a live controller is returned as it is (awaited by the caller);
  \<^item> a connected pool that answers the probe is reused; one that fails it is closed;
  \<^item> a missing password is a \<open>ValidationError\<close>;
  \<^item> a new controller is installed and one connect is attempted on a new pool object,
    whose identity is the index of its \<open>EvConnect\<close> in the trace;
  \<^item> on success the pool is assigned and the retry counter reset; the promise stays in
    \<open>connectionPromise\<close>;
  \<^item> on failure the new pool object is closed in the inner and again in the outer
    \<open>catch\<close>, an older pool object is closed by \<open>closePool\<close>, \<open>connectionPromise\<close>
    and the controller are cleared, and the error is rethrown. The \<open>finally\<close> block
    finds \<open>connectionPromise\<close> cleared (failure) or \<open>this.pool === poolInstance\<close> (success)
    and does nothing.
\<close>

definition initPool ::
  "SqlConfig \<Rightarrow> Driver \<Rightarrow> DatabaseService \<Rightarrow> (thrown + nat) \<times> DatabaseService" where
  "initPool cfg drv s =
     (case (connectionPromise s, abortController s) of
        (Some (Resolved i), Some False) \<Rightarrow> (Inr i, s)
      | (Some (Rejected x), Some False) \<Rightarrow> (Inl x, s)
      | _ \<Rightarrow>
        (let (reused, s1) =
               (case livePool s of
                  None \<Rightarrow> (None, s)
                | Some p \<Rightarrow>
                    (case drv_probe drv (step s) of
                       None \<Rightarrow> (Some p, emit EvProbe s)
                     | Some e \<Rightarrow> (None, closePool (emit EvProbe s))))
         in case reused of
              Some p \<Rightarrow> (Inr (pool_id p), s1)
            | None \<Rightarrow>
                if passwordMissing cfg then
                  (Inl (Mcp (new_MssqlMcpError ''SQL Server password not provided.'' VALIDATION_ERROR None
                               (Some [(''missingVariable'', DStr ''SQL_PASSWORD'')]))), s1)
                else
                  (let s2 = s1\<lparr>abortController := Some False\<rparr>;
                       i = step s2;
                       outcome = drv_connect drv i;
                       s3 = emit (EvConnect i) s2
                   in case outcome of
                        Connected \<Rightarrow>
                          (Inr i, s3\<lparr>pool := Some \<lparr>pool_id = i, connected = True\<rparr>,
                                     connectionPromise := Some (Resolved i),
                                     connectionRetries := 0\<rparr>)
                      | _ \<Rightarrow>
                          (let s4 = emit (EvPoolClose i) (emit (EvPoolClose i) s3);
                               s5 = (case pool s4 of
                                       Some old \<Rightarrow> closePool s4
                                     | None \<Rightarrow> s4\<lparr>connectionPromise := None\<rparr>);
                               s6 = s5\<lparr>abortController := None\<rparr>
                           in (Inl (Mcp (connectFailure cfg outcome)), s6)))))"

text \<open>The awaited delay of a retry, lines 1559 to 1562:
  \<open>Math.min(initialRetryDelay * Math.pow(2, currentAttempt) + Math.random() * 1000, maxRetryDelay)\<close>.\<close>

definition retryDelay :: "SqlConfig \<Rightarrow> nat \<Rightarrow> real \<Rightarrow> real" where
  "retryDelay cfg currentAttempt rnd =
     min (real_of_int (initialRetryDelay cfg) * 2 ^ currentAttempt + rnd * 1000)
         (real_of_int (maxRetryDelay cfg))"

text \<open>\<open>this.sqlConfig.initialRetryDelay / 2 || 500\<close>.\<close>

definition briefWait :: "SqlConfig \<Rightarrow> real" where
  "briefWait cfg = (if initialRetryDelay cfg = 0 then 500 else real_of_int (initialRetryDelay cfg) / 2)"

text \<open>
  Lines 1489 to 1510 of \<open>getPool\<close>: with \<open>isConnecting\<close> set and a promise present, the
  promise is awaited. A pool is returned when the promise resolved to the current,
  connected pool; a rejection clears \<open>isConnecting\<close>; otherwise control falls through.
\<close>

definition awaitWatched :: "DatabaseService \<Rightarrow> ConnectionPool option \<times> DatabaseService" where
  "awaitWatched s =
     (if isConnecting s then
        (case connectionPromise s of
           None \<Rightarrow> (None, s)
         | Some (Resolved i) \<Rightarrow>
             (case livePool s of
                Some p \<Rightarrow> (if pool_id p = i then (Some p, s) else (None, s))
              | None \<Rightarrow> (None, s))
         | Some (Rejected x) \<Rightarrow> (None, s\<lparr>isConnecting := False\<rparr>))
      else (None, s))"

text \<open>The \<open>try\<close> block of \<open>getPool\<close>, lines 1529 to 1545, up to the release of the lock:
  \<open>initPool\<close> is awaited and the pool must be connected afterwards.\<close>

definition tryInitPool ::
  "SqlConfig \<Rightarrow> Driver \<Rightarrow> DatabaseService \<Rightarrow> (thrown + ConnectionPool) \<times> DatabaseService" where
  "tryInitPool cfg drv s =
     (case initPool cfg drv s of
        (Inl x, s1) \<Rightarrow> (Inl x, s1)
      | (Inr i, s1) \<Rightarrow>
          (case livePool s1 of
             None \<Rightarrow>
               (Inl (Mcp (fromError
                  (Foreign (JsStr ''DatabaseService: Pool not connected after initPool resolved without error.''))
                  CONNECTION_ERROR None)), s1)
           | Some p \<Rightarrow> (Inr p, s1\<lparr>isConnecting := False, connectionRetries := 0\<rparr>)))"

text \<open>The error thrown once the attempts are used up, lines 1568 to 1573.\<close>

definition retriesExhausted :: "SqlConfig \<Rightarrow> MssqlMcpError \<Rightarrow> MssqlMcpError" where
  "retriesExhausted cfg mssqlError =
     new_MssqlMcpError
       (''DatabaseService: Failed to connect to database after '' @ string_of_int (maxRetries cfg)
          @ '' attempts. Last error: '' @ message mssqlError)
       CONNECTION_ERROR
       (originalError mssqlError)
       (Some (spread [(''attempts'', DNum (maxRetries cfg))] (orEmpty (details mssqlError))))"

text \<open>
  \<open>getPool(currentAttempt)\<close>. The result is \<open>None\<close> when the call never returns: with
  \<open>isConnecting\<close> set and nothing to await, the call waits and re-enters, and in a run
  of one task nothing clears the flag.
\<close>

partial_function (option) getPool ::
  "SqlConfig \<Rightarrow> Driver \<Rightarrow> nat \<Rightarrow> DatabaseService
     \<Rightarrow> ((MssqlMcpError + ConnectionPool) \<times> DatabaseService) option" where
  "getPool cfg drv currentAttempt s =
     (case livePool s of
        Some p \<Rightarrow> Some (Inr p, s)
      | None \<Rightarrow>
          (case awaitWatched s of
             (Some p, s1) \<Rightarrow> Some (Inr p, s1)
           | (None, s1) \<Rightarrow>
               if isConnecting s1 then
                 getPool cfg drv currentAttempt (emit (EvSleep (briefWait cfg)) s1)
               else
                 (case tryInitPool cfg drv (s1\<lparr>isConnecting := True\<rparr>) of
                    (Inr p, s2) \<Rightarrow> Some (Inr p, s2)
                  | (Inl x, s2) \<Rightarrow>
                      (let s3 = s2\<lparr>isConnecting := False\<rparr>;
                           mssqlError = fromError x CONNECTION_ERROR None
                       in if int currentAttempt < maxRetries cfg - 1 then
                            getPool cfg drv (currentAttempt + 1)
                              (emit (EvSleep (retryDelay cfg currentAttempt (Math_random drv (step s3)))) s3)
                          else Some (Inl (retriesExhausted cfg mssqlError), s3)))))"


section \<open>Whitelist and database context\<close>

text \<open>The apostrophe of the message templates.\<close>

definition apos :: string where
  "apos = [CHR 0x27]"

text \<open>
  The condition of the whitelist check, the same in the three operations:
  \<^verbatim>\<open>allowedDatabases && allowedDatabases.length > 0 && !allowedDatabases.includes(db)\<close>
\<close>

definition whitelistDenies :: "SqlConfig \<Rightarrow> string \<Rightarrow> bool" where
  "whitelistDenies cfg db =
     (case allowedDatabases cfg of
        None \<Rightarrow> False
      | Some allowed \<Rightarrow> allowed \<noteq> [] \<and> db \<notin> set allowed)"

text \<open>The value of \<open>this.sqlConfig.allowedDatabases\<close> inside the guarded branch.\<close>

definition allowedList :: "SqlConfig \<Rightarrow> string list" where
  "allowedList cfg = (case allowedDatabases cfg of None \<Rightarrow> [] | Some allowed \<Rightarrow> allowed)"

text \<open>\<open>rawDatabaseArg || this.sqlConfig.database\<close>: an absent or empty argument gives
  the default.\<close>

definition orDefault :: "string option \<Rightarrow> string \<Rightarrow> string" where
  "orDefault rawDatabaseArg dflt =
     (case rawDatabaseArg of None \<Rightarrow> dflt | Some d \<Rightarrow> (if d = [] then dflt else d))"

text \<open>\<^verbatim>\<open>/^[a-zA-Z0-9_\-\s\[\]]+$/.test(dbName)\<close>\<close>

definition isWordChar :: "char \<Rightarrow> bool" where
  "isWordChar c =
     (let n = (of_char c :: nat)
      in (97 \<le> n \<and> n \<le> 122) \<or> (65 \<le> n \<and> n \<le> 90) \<or> (48 \<le> n \<and> n \<le> 57) \<or> n = 95)"

definition isDbNameChar :: "char \<Rightarrow> bool" where
  "isDbNameChar c =
     (isWordChar c \<or> c = CHR ''-'' \<or> isWhiteSpace c \<or> c = CHR ''['' \<or> c = CHR '']'')"

definition dbNameFormat_ok :: "string \<Rightarrow> bool" where
  "dbNameFormat_ok dbName = (dbName \<noteq> [] \<and> list_all isDbNameChar dbName)"

text \<open>\<^verbatim>\<open>'USE [' + dbName.replace(/\]/g, '').replace(/\[/g, '') + ']'\<close>\<close>

definition useStatement :: "string \<Rightarrow> string" where
  "useStatement dbName =
     ''USE ['' @ filter (\<lambda>c. c \<noteq> CHR ''['') (filter (\<lambda>c. c \<noteq> CHR '']'') dbName) @ '']''"

text \<open>
  The context switch that opens the \<open>try\<close> blocks of \<open>executeQuery\<close> (lines 1755 to
  1768) and \<open>getSchema\<close> (lines 1608 to 1621): nothing when the target is the
  configured database; otherwise the name is tested and the \<open>USE\<close> batch is sent. The
  outcome is the value thrown, if any. \<open>invalidMsg\<close> is the operation's message prefix.
\<close>

definition switchContext ::
  "SqlConfig \<Rightarrow> Driver \<Rightarrow> string \<Rightarrow> string \<Rightarrow> DatabaseService \<Rightarrow> thrown option \<times> DatabaseService" where
  "switchContext cfg drv invalidMsg dbName s =
     (if dbName \<noteq> database cfg then
        (if \<not> dbNameFormat_ok dbName then
           (Some (Mcp (new_MssqlMcpError (invalidMsg @ dbName) VALIDATION_ERROR None
                         (Some [(''database'', DStr dbName)]))), s)
         else
           (case drv_batch drv (step s) (useStatement dbName) of
              None \<Rightarrow> (None, emit (EvBatch (useStatement dbName)) s)
            | Some x \<Rightarrow> (Some (Foreign x), emit (EvBatch (useStatement dbName)) s)))
      else (None, s))"

text \<open>
  \<open>errorMessage.includes('connect') || errorMessage.includes('failed to connect') ||
  error.code === 'ESOCKET'\<close>, on the lowercased message.
\<close>

definition connectionIndicative :: "JsError \<Rightarrow> bool" where
  "connectionIndicative error =
     (let errorMessage = toLowerCase (js_message error)
      in js_includes errorMessage ''connect'' \<or> js_includes errorMessage ''failed to connect''
         \<or> js_code error = Some ''ESOCKET'')"

text \<open>
  The self-heal step shared by the three \<open>catch\<close> blocks: close the pool, call
  \<open>getPool()\<close>; when that fails too, the combined \<open>ConnectionError\<close> built by
  \<open>combined\<close> from the reconnect error is thrown, and otherwise \<open>surfaced\<close>, the
  original failure, is. \<open>None\<close> when \<open>getPool\<close> does not return.
\<close>

definition selfHeal ::
  "SqlConfig \<Rightarrow> Driver \<Rightarrow> (MssqlMcpError \<Rightarrow> MssqlMcpError) \<Rightarrow> MssqlMcpError \<Rightarrow> DatabaseService
     \<Rightarrow> (MssqlMcpError \<times> DatabaseService) option" where
  "selfHeal cfg drv combined surfaced s =
     (case getPool cfg drv 0 (closePool s) of
        None \<Rightarrow> None
      | Some (Inr p, s1) \<Rightarrow> Some (surfaced, s1)
      | Some (Inl reconnectError, s1) \<Rightarrow> Some (combined reconnectError, s1))"

text \<open>\<^verbatim>\<open>query.length > 100 ? query.substring(0, 100) + '...' : query\<close>\<close>

definition truncated :: "string \<Rightarrow> string" where
  "truncated q = (if length q > 100 then take 100 q @ ''...'' else q)"


section \<open>executeQuery\<close>

record QueryResultSuccess =
  qr_columns :: "string list"
  qr_rows :: "sqlvalue list list"
  qr_recordCount :: nat

text \<open>The blocked substrings of lines 1797 to 1803, searched in the lowercased text.\<close>

definition blockedKeyword :: "string \<Rightarrow> bool" where
  "blockedKeyword q =
     (let lowercaseQuery = toLowerCase q
      in js_includes lowercaseQuery ''exec '' \<or>
         js_includes lowercaseQuery ''execute '' \<or>
         js_includes lowercaseQuery ''sp_'' \<or>
         js_includes lowercaseQuery ''xp_'' \<or>
         js_includes lowercaseQuery ''reconfigure'' \<or>
         js_includes lowercaseQuery ''waitfor delay'')"

text \<open>\<open>Array.isArray(ast) ? ast : [ast]\<close>, as the list of statement types.\<close>

fun queries_of :: "ast \<Rightarrow> statement list" where
  "queries_of (Single t) = [t]"
| "queries_of (Many ts) = ts"

text \<open>\<open>queryType: q.type\<close>: the property is copied as it is, \<open>undefined\<close> included.\<close>

definition queryType_of :: "statement \<Rightarrow> dval" where
  "queryType_of q = (case q of None \<Rightarrow> DUndefined | Some t \<Rightarrow> DStr t)"

text \<open>
  Lines 1770 to 1810: the checks on the text between the context switch and the execution,
  in source order. The loop over the statements stops at the first one with
  \<open>q.type !== 'select'\<close>, which an absent type satisfies. The result is the error thrown,
  if any.
\<close>

definition validateQuery :: "Driver \<Rightarrow> string \<Rightarrow> MssqlMcpError option" where
  "validateQuery drv q =
     (if q = [] \<or> trim q = [] then
        Some (new_MssqlMcpError ''DatabaseService: Query cannot be empty'' VALIDATION_ERROR None
                (Some [(''query'', DStr q)]))
      else
        (case astify drv q of
           Inl parseError \<Rightarrow>
             Some (new_MssqlMcpError
                     (''DatabaseService: Invalid SQL syntax: '' @
                        (case parseError of JsErr e \<Rightarrow> js_message e | _ \<Rightarrow> String_of parseError))
                     SQL_PARSER_ERROR
                     (case parseError of JsErr e \<Rightarrow> Some e | _ \<Rightarrow> None)
                     (Some [(''query'', DStr q)]))
         | Inr parsed \<Rightarrow>
             (case find (\<lambda>q. q \<noteq> Some ''select'') (queries_of parsed) of
                Some q' \<Rightarrow>
                  Some (new_MssqlMcpError
                          ''DatabaseService: Only SELECT queries are allowed. DELETE, INSERT, UPDATE, and other DML/DDL operations are not permitted.''
                          VALIDATION_ERROR None
                          (Some [(''query'', DStr q), (''queryType'', queryType_of q')]))
              | None \<Rightarrow>
                  if blockedKeyword q then
                    Some (new_MssqlMcpError
                            ''DatabaseService: Potentially unsafe query detected. Stored procedures, system procedures, and waitfor delay are not allowed in direct queries. Use the execute_StoredProcedure tool for stored procedures.''
                            VALIDATION_ERROR None
                            (Some [(''query'', DStr q)]))
                  else None)))"

text \<open>
  Lines 1817 to 1852: the result built from \<open>result.recordset\<close>. With rows, the columns
  are the keys of the first row. Without rows, they are the names of \<open>recordset.columns\<close>
  sorted by \<open>index\<close> (\<open>Array.prototype.sort\<close> is stable, as \<open>sort_key\<close> is). Without a
  recordset, the result is empty.
\<close>

definition shapeRecordset :: "IRecordSet option \<Rightarrow> QueryResultSuccess" where
  "shapeRecordset recordset =
     (case recordset of
        None \<Rightarrow> \<lparr>qr_columns = [], qr_rows = [], qr_recordCount = 0\<rparr>
      | Some rs \<Rightarrow>
          (case rs_rows rs of
             first # rest \<Rightarrow>
               \<lparr>qr_columns = map fst first,
                qr_rows = map (map snd) (rs_rows rs),
                qr_recordCount = length (rs_rows rs)\<rparr>
           | [] \<Rightarrow>
               \<lparr>qr_columns = (case rs_columns rs of
                                None \<Rightarrow> []
                              | Some colArray \<Rightarrow> map cm_name (sort_key cm_index colArray)),
                qr_rows = [],
                qr_recordCount = 0\<rparr>))"

text \<open>The \<open>try\<close> block of \<open>executeQuery\<close>, lines 1754 to 1852.\<close>

definition executeQuery_try ::
  "SqlConfig \<Rightarrow> Driver \<Rightarrow> string \<Rightarrow> string \<Rightarrow> DatabaseService
     \<Rightarrow> (thrown + QueryResultSuccess) \<times> DatabaseService" where
  "executeQuery_try cfg drv q targetDatabase s =
     (case switchContext cfg drv ''DatabaseService: Invalid database name format: '' targetDatabase s of
        (Some x, s1) \<Rightarrow> (Inl x, s1)
      | (None, s1) \<Rightarrow>
          (case validateQuery drv q of
             Some e \<Rightarrow> (Inl (Mcp e), s1)
           | None \<Rightarrow>
               (case drv_query drv (step s1) q of
                  Inl x \<Rightarrow> (Inl (Foreign x), emit (EvQuery q) s1)
                | Inr recordset \<Rightarrow> (Inr (shapeRecordset recordset), emit (EvQuery q) s1))))"

text \<open>The error kind of a native \<open>Error\<close> in \<open>executeQuery\<close>, lines 1860 to 1872: the
  first matching test of the chain decides.\<close>

definition queryErrorType :: "JsError \<Rightarrow> ErrorType" where
  "queryErrorType error =
     (let errorMessage = toLowerCase (js_message error)
      in if js_includes errorMessage ''invalid sql syntax'' then SQL_PARSER_ERROR
         else if js_includes errorMessage ''permission'' then PERMISSION_ERROR
         else if js_includes errorMessage ''constraint'' then VALIDATION_ERROR
         else if js_includes errorMessage ''timeout'' then CONNECTION_TIMEOUT
         else if js_includes errorMessage ''only select queries are allowed'' then VALIDATION_ERROR
         else if js_includes errorMessage ''invalid database name format'' then VALIDATION_ERROR
         else if js_includes errorMessage ''query cannot be empty'' then VALIDATION_ERROR
         else if js_includes errorMessage ''potentially unsafe query detected'' then VALIDATION_ERROR
         else if connectionIndicative error then CONNECTION_ERROR
         else QUERY_ERROR)"

text \<open>The combined error of lines 1881 to 1892.\<close>

definition queryReconnectFailed ::
  "SqlConfig \<Rightarrow> string \<Rightarrow> string option \<Rightarrow> JsError \<Rightarrow> MssqlMcpError \<Rightarrow> MssqlMcpError" where
  "queryReconnectFailed cfg q rawDatabaseArg error reconnectError =
     new_MssqlMcpError
       (''Operation '' @ apos @ ''executeQuery'' @ apos @ '' for database '' @ apos
          @ orDefault rawDatabaseArg (database cfg) @ apos
          @ '' failed due to an initial connection error, and the subsequent attempt to re-establish the connection also failed.'')
       CONNECTION_ERROR
       (Some (asError reconnectError))
       (Some [(''database'', DStr (orDefault rawDatabaseArg (database cfg))),
              (''operation'', DStr ''executeQuery''),
              (''query'', DStr (truncated q)),
              (''originalErrorMsg'', DStr (js_message error)),
              (''details'', DStr (''Reconnect attempt failed after initial failure of executeQuery. Original error: ''
                   @ js_message error @ ''. Reconnect error: '' @ message reconnectError))])"

text \<open>
  The \<open>catch\<close> block of \<open>executeQuery\<close>, lines 1853 to 1900. An \<open>MssqlMcpError\<close> is
  rethrown as it is. A native \<open>Error\<close> is classified; the connection branch is the only
  one that gives \<open>CONNECTION_ERROR\<close>, and it runs the self-heal step before the error
  is wrapped. Any other value is an \<open>UNKNOWN_ERROR\<close>.
\<close>

definition executeQuery_catch ::
  "SqlConfig \<Rightarrow> Driver \<Rightarrow> string \<Rightarrow> string option \<Rightarrow> thrown \<Rightarrow> DatabaseService
     \<Rightarrow> (MssqlMcpError \<times> DatabaseService) option" where
  "executeQuery_catch cfg drv q rawDatabaseArg x s =
     (case x of
        Mcp e \<Rightarrow> Some (e, s)
      | Foreign (JsErr error) \<Rightarrow>
          (let errorType = queryErrorType error;
               mcpError = fromError x errorType (Some [(''query'', DStr (truncated q))])
           in if errorType = CONNECTION_ERROR then
                selfHeal cfg drv (queryReconnectFailed cfg q rawDatabaseArg error) mcpError s
              else Some (mcpError, s))
      | Foreign other \<Rightarrow>
          Some (fromError x UNKNOWN_ERROR (Some [(''query'', DStr (truncated q))]), s))"

text \<open>The \<open>PermissionError\<close> of the whitelist check, lines 1742 to 1747.\<close>

definition queryNotAllowed :: "SqlConfig \<Rightarrow> string \<Rightarrow> MssqlMcpError" where
  "queryNotAllowed cfg targetDatabase =
     new_MssqlMcpError
       (''Access to database '' @ apos @ targetDatabase @ apos @ '' is not allowed. Allowed databases: ''
          @ join '', '' (allowedList cfg))
       PERMISSION_ERROR None
       (Some [(''database'', DStr targetDatabase), (''allowed'', DStrs (allowedList cfg))])"

text \<open>\<open>executeQuery(query, rawDatabaseArg)\<close>. The whitelist check and \<open>getPool\<close> are
  outside the \<open>try\<close> block: what they throw reaches the caller unchanged.\<close>

definition executeQuery ::
  "SqlConfig \<Rightarrow> Driver \<Rightarrow> string \<Rightarrow> string option \<Rightarrow> DatabaseService
     \<Rightarrow> ((MssqlMcpError + QueryResultSuccess) \<times> DatabaseService) option" where
  "executeQuery cfg drv q rawDatabaseArg s =
     (let targetDatabase = orDefault rawDatabaseArg (database cfg)
      in if whitelistDenies cfg targetDatabase then
           Some (Inl (queryNotAllowed cfg targetDatabase), s)
         else
           (case getPool cfg drv 0 s of
              None \<Rightarrow> None
            | Some (Inl e, s1) \<Rightarrow> Some (Inl e, s1)
            | Some (Inr currentPool, s1) \<Rightarrow>
                (case executeQuery_try cfg drv q targetDatabase s1 of
                   (Inr result, s2) \<Rightarrow> Some (Inr result, s2)
                 | (Inl x, s2) \<Rightarrow>
                     (case executeQuery_catch cfg drv q rawDatabaseArg x s2 of
                        None \<Rightarrow> None
                      | Some (e, s3) \<Rightarrow> Some (Inl e, s3)))))"


section \<open>getSchema\<close>

text \<open>Lines 1670 to 1675: the rendered column type. A length that is \<open>null\<close> or \<open>0\<close> is
  falsy; precision and scale are used when both are not \<open>null\<close>.\<close>

definition columnType :: "SchemaQueryRow \<Rightarrow> string" where
  "columnType r =
     (let precisionScale =
            (case (NUMERIC_PRECISION r, NUMERIC_SCALE r) of
               (Some pr, Some sc) \<Rightarrow> ''('' @ string_of_int pr @ '','' @ string_of_int sc @ '')''
             | _ \<Rightarrow> [])
      in DATA_TYPE r @
         (case CHARACTER_MAXIMUM_LENGTH r of
            None \<Rightarrow> precisionScale
          | Some len \<Rightarrow> (if len \<noteq> 0 then ''('' @ string_of_int len @ '')'' else precisionScale)))"

definition column_of :: "SchemaQueryRow \<Rightarrow> Column" where
  "column_of r =
     \<lparr>col_name = COLUMN_NAME r, col_type = columnType r,
      nullable = (IS_NULLABLE r = ''YES''), primary = (IS_PRIMARY_KEY r = 1)\<rparr>"

text \<open>
  Lines 1657 to 1685. \<open>tablesMap\<close> is a \<open>Map\<close> keyed by \<open>schema.table\<close>, which is the
  table's \<open>fullName\<close>; its values, in insertion order, are the list below. A row creates
  its table when the key is new and appends its column to the table.
\<close>

fun pushColumn :: "string \<Rightarrow> Column \<Rightarrow> TableSchema list \<Rightarrow> TableSchema list" where
  "pushColumn tableName c [] = []"
| "pushColumn tableName c (t # ts) =
     (if fullName t = tableName then t\<lparr>columns := columns t @ [c]\<rparr> # ts
      else t # pushColumn tableName c ts)"

definition addRow :: "TableSchema list \<Rightarrow> SchemaQueryRow \<Rightarrow> TableSchema list" where
  "addRow tablesMap r =
     (let tableName = TABLE_SCHEMA r @ ''.'' @ TABLE_NAME r;
          tablesMap' =
            (if list_ex (\<lambda>t. fullName t = tableName) tablesMap then tablesMap
             else tablesMap @ [\<lparr>schema = TABLE_SCHEMA r, name = TABLE_NAME r,
                                 fullName = tableName, columns = []\<rparr>])
      in pushColumn tableName (column_of r) tablesMap')"

definition assembleTables :: "SchemaQueryRow list \<Rightarrow> TableSchema list" where
  "assembleTables recordset = foldl addRow [] recordset"

text \<open>
  The \<open>try\<close> block of \<open>getSchema\<close>, lines 1607 to 1690: context switch, metadata query,
  assembly, and the cache entry written with the time read after the query.
\<close>

definition getSchema_try ::
  "SqlConfig \<Rightarrow> Driver \<Rightarrow> string \<Rightarrow> DatabaseService
     \<Rightarrow> (thrown + TableSchema list) \<times> DatabaseService" where
  "getSchema_try cfg drv dbIdentifier s =
     (case switchContext cfg drv ''DatabaseService: Invalid database name format for schema: '' dbIdentifier s of
        (Some x, s1) \<Rightarrow> (Inl x, s1)
      | (None, s1) \<Rightarrow>
          (case drv_schemaQuery drv (step s1) of
             Inl x \<Rightarrow> (Inl (Foreign x), emit EvSchemaQuery s1)
           | Inr recordset \<Rightarrow>
               (let s2 = emit EvSchemaQuery s1;
                    tables = assembleTables recordset
                in (Inr tables,
                    s2\<lparr>schemaCache := (schemaCache s2)(dbIdentifier \<mapsto> (Date_now drv (step s2), tables))\<rparr>))))"

text \<open>The error kind of a native \<open>Error\<close> in \<open>getSchema\<close>, lines 1698 to 1704.\<close>

definition schemaErrorType :: "JsError \<Rightarrow> ErrorType" where
  "schemaErrorType error =
     (let errorMessage = toLowerCase (js_message error)
      in if js_includes errorMessage ''invalid database name format'' then VALIDATION_ERROR
         else if connectionIndicative error then CONNECTION_ERROR
         else SCHEMA_ERROR)"

text \<open>The combined error of lines 1713 to 1723.\<close>

definition schemaReconnectFailed :: "string \<Rightarrow> JsError \<Rightarrow> MssqlMcpError \<Rightarrow> MssqlMcpError" where
  "schemaReconnectFailed dbIdentifier error reconnectError =
     new_MssqlMcpError
       (''Operation '' @ apos @ ''getSchema'' @ apos @ '' for database '' @ apos @ dbIdentifier @ apos
          @ '' failed due to an initial connection error, and the subsequent attempt to re-establish the connection also failed.'')
       CONNECTION_ERROR
       (Some (asError reconnectError))
       (Some [(''database'', DStr dbIdentifier),
              (''operation'', DStr ''getSchema''),
              (''originalErrorMsg'', DStr (js_message error)),
              (''details'', DStr (''Reconnect attempt failed after initial failure of getSchema. Original error: ''
                   @ js_message error @ ''. Reconnect error: '' @ message reconnectError))])"

text \<open>The \<open>catch\<close> block of \<open>getSchema\<close>, lines 1691 to 1731.\<close>

definition getSchema_catch ::
  "SqlConfig \<Rightarrow> Driver \<Rightarrow> string \<Rightarrow> thrown \<Rightarrow> DatabaseService
     \<Rightarrow> (MssqlMcpError \<times> DatabaseService) option" where
  "getSchema_catch cfg drv dbIdentifier x s =
     (case x of
        Mcp e \<Rightarrow> Some (e, s)
      | Foreign (JsErr error) \<Rightarrow>
          (let errorType = schemaErrorType error;
               mcpError = fromError x errorType (Some [(''database'', DStr dbIdentifier)])
           in if errorType = CONNECTION_ERROR then
                selfHeal cfg drv (schemaReconnectFailed dbIdentifier error) mcpError s
              else Some (mcpError, s))
      | Foreign other \<Rightarrow>
          Some (fromError x UNKNOWN_ERROR (Some [(''database'', DStr dbIdentifier)]), s))"

text \<open>The \<open>PermissionError\<close> of the whitelist check, lines 1586 to 1591.\<close>

definition schemaNotAllowed :: "SqlConfig \<Rightarrow> string \<Rightarrow> MssqlMcpError" where
  "schemaNotAllowed cfg dbIdentifier =
     new_MssqlMcpError
       (''Access to schema for database '' @ apos @ dbIdentifier @ apos
          @ '' is not allowed. Allowed databases: '' @ join '', '' (allowedList cfg))
       PERMISSION_ERROR None
       (Some [(''database'', DStr dbIdentifier), (''allowed'', DStrs (allowedList cfg))])"

text \<open>Lines 1597 to 1601: the cached data when an entry exists and
  \<open>Date.now() - timestamp < schemaCacheTTL\<close>. The clock is read only when an entry exists.\<close>

definition cachedSchema :: "SqlConfig \<Rightarrow> Driver \<Rightarrow> string \<Rightarrow> DatabaseService \<Rightarrow> TableSchema list option" where
  "cachedSchema cfg drv dbIdentifier s =
     (case schemaCache s dbIdentifier of
        None \<Rightarrow> None
      | Some (timestamp, data) \<Rightarrow>
          (if Date_now drv (step s) - timestamp < schemaCacheTTL cfg then Some data else None))"

text \<open>\<open>getSchema(dbIdentifier)\<close>: whitelist, cache, pool, then the \<open>try\<close> block.\<close>

definition getSchema ::
  "SqlConfig \<Rightarrow> Driver \<Rightarrow> string \<Rightarrow> DatabaseService
     \<Rightarrow> ((MssqlMcpError + TableSchema list) \<times> DatabaseService) option" where
  "getSchema cfg drv dbIdentifier s =
     (if whitelistDenies cfg dbIdentifier then
        Some (Inl (schemaNotAllowed cfg dbIdentifier), s)
      else
        (case cachedSchema cfg drv dbIdentifier s of
           Some data \<Rightarrow> Some (Inr data, s)
         | None \<Rightarrow>
             (case getPool cfg drv 0 s of
                None \<Rightarrow> None
              | Some (Inl e, s1) \<Rightarrow> Some (Inl e, s1)
              | Some (Inr currentPool, s1) \<Rightarrow>
                  (case getSchema_try cfg drv dbIdentifier s1 of
                     (Inr tables, s2) \<Rightarrow> Some (Inr tables, s2)
                   | (Inl x, s2) \<Rightarrow>
                       (case getSchema_catch cfg drv dbIdentifier x s2 of
                          None \<Rightarrow> None
                        | Some (e, s3) \<Rightarrow> Some (Inl e, s3))))))"

section \<open>executeStoredProcedure\<close>

record ProcParam =
  p_name :: string
  p_type :: string
  p_value :: sqlvalue

datatype StoredProcedureResult =
    StoredProcedureResultSuccess "string list" "sqlvalue list list" nat
       "(string \<times> sqlvalue) list" sqlvalue "int list"
  | StoredProcedureResultMessage string "(string \<times> sqlvalue) list" sqlvalue "int list"

text \<open>\<^verbatim>\<open>/^([a-zA-Z0-9_]+\.)?[a-zA-Z0-9_]+$/.test(procedure)\<close>: a non-empty run of word
  characters, optionally followed by one dot and a second non-empty run.\<close>

definition procedureNameFormat_ok :: "string \<Rightarrow> bool" where
  "procedureNameFormat_ok procedure =
     (let first = takeWhile isWordChar procedure;
          rest = dropWhile isWordChar procedure
      in first \<noteq> [] \<and>
         (case rest of
            [] \<Rightarrow> True
          | c # second \<Rightarrow> c = CHR ''.'' \<and> second \<noteq> [] \<and> list_all isWordChar second))"

text \<open>\<open>paramName.replace('@', '')\<close>: the first \<open>@\<close> is removed.\<close>

definition boundName :: "string \<Rightarrow> string" where
  "boundName nm =
     (let paramName = (if startsWith nm ''@'' then nm else ''@'' @ nm)
      in remove1 CHR ''@'' paramName)"

text \<open>
  Lines 1950 to 1958: the loop over the parameters. A parameter without a name or a type
  is a \<open>ValidationError\<close>; otherwise its type is mapped and \<open>request.input\<close> is called,
  which the driver may reject.
\<close>

fun bindParameters ::
  "Driver \<Rightarrow> ProcParam list \<Rightarrow> DatabaseService \<Rightarrow> thrown option \<times> DatabaseService" where
  "bindParameters drv [] s = (None, s)"
| "bindParameters drv (param # params) s =
     (if p_name param = [] \<or> p_type param = [] then
        (Some (Mcp (new_MssqlMcpError ''DatabaseService: Each parameter must have a name and type''
                      VALIDATION_ERROR None (Some [(''parameter'', DOpaque)]))), s)
      else
        (let sqlTypeFactory = mapStringToSqlType (p_type param);
             s1 = emit (EvInput (boundName (p_name param)) sqlTypeFactory) s
         in case drv_input drv (step s) (boundName (p_name param)) sqlTypeFactory (p_value param) of
              Some x \<Rightarrow> (Some (Foreign x), s1)
            | None \<Rightarrow> bindParameters drv params s1))"

text \<open>Lines 1962 to 1979: the result of the procedure.\<close>

definition shapeProcedureResult :: "IProcedureResult \<Rightarrow> StoredProcedureResult" where
  "shapeProcedureResult result =
     (case pr_recordset result of
        None \<Rightarrow>
          StoredProcedureResultMessage ''Stored procedure executed successfully, but returned no records''
            (pr_output result) (pr_returnValue result) (pr_rowsAffected result)
      | Some rs \<Rightarrow>
          (case rs_rows rs of
             [] \<Rightarrow>
               StoredProcedureResultMessage ''Stored procedure executed successfully, but returned no records''
                 (pr_output result) (pr_returnValue result) (pr_rowsAffected result)
           | first # rest \<Rightarrow>
               StoredProcedureResultSuccess (map fst first) (map (map snd) (rs_rows rs))
                 (length (rs_rows rs))
                 (pr_output result) (pr_returnValue result) (pr_rowsAffected result)))"

text \<open>
  The context switch of \<open>executeStoredProcedure\<close>, lines 1924 to 1938. It differs from
  the one of the other two operations: the request that sends the \<open>USE\<close> batch first
  binds the database name, \<open>.input('db_name_param', sql.NVarChar, dbName)\<close>. When
  \<open>request.input\<close> throws, the batch is not sent.
\<close>

definition switchProcedureContext ::
  "SqlConfig \<Rightarrow> Driver \<Rightarrow> string \<Rightarrow> DatabaseService \<Rightarrow> thrown option \<times> DatabaseService" where
  "switchProcedureContext cfg drv dbName s =
     (if dbName \<noteq> database cfg then
        (if \<not> dbNameFormat_ok dbName then
           (Some (Mcp (new_MssqlMcpError (''DatabaseService: Invalid database name format: '' @ dbName)
                         VALIDATION_ERROR None (Some [(''database'', DStr dbName)]))), s)
         else
           (let s1 = emit (EvInput ''db_name_param'' sql_NVarChar) s
            in case drv_input drv (step s) ''db_name_param'' sql_NVarChar (SqlText dbName) of
                 Some x \<Rightarrow> (Some (Foreign x), s1)
               | None \<Rightarrow>
                   (case drv_batch drv (step s1) (useStatement dbName) of
                      None \<Rightarrow> (None, emit (EvBatch (useStatement dbName)) s1)
                    | Some x \<Rightarrow> (Some (Foreign x), emit (EvBatch (useStatement dbName)) s1))))
      else (None, s))"

text \<open>The \<open>try\<close> block of \<open>executeStoredProcedure\<close>, lines 1923 to 1979.\<close>

definition executeStoredProcedure_try ::
  "SqlConfig \<Rightarrow> Driver \<Rightarrow> string \<Rightarrow> ProcParam list \<Rightarrow> string \<Rightarrow> DatabaseService
     \<Rightarrow> (thrown + StoredProcedureResult) \<times> DatabaseService" where
  "executeStoredProcedure_try cfg drv procedure parameters targetDatabase s =
     (case switchProcedureContext cfg drv targetDatabase s of
        (Some x, s1) \<Rightarrow> (Inl x, s1)
      | (None, s1) \<Rightarrow>
          if procedure = [] \<or> trim procedure = [] then
            (Inl (Mcp (new_MssqlMcpError ''DatabaseService: Procedure name cannot be empty''
                         VALIDATION_ERROR None (Some [(''procedure'', DStr procedure)]))), s1)
          else if \<not> procedureNameFormat_ok procedure then
            (Inl (Mcp (new_MssqlMcpError
                         ''DatabaseService: Invalid procedure name format. Use [schema].[procedure_name]''
                         VALIDATION_ERROR None (Some [(''procedure'', DStr procedure)]))), s1)
          else
            (case bindParameters drv parameters s1 of
               (Some x, s2) \<Rightarrow> (Inl x, s2)
             | (None, s2) \<Rightarrow>
                 (case drv_execute drv (step s2) procedure of
                    Inl x \<Rightarrow> (Inl (Foreign x), emit (EvExecute procedure) s2)
                  | Inr result \<Rightarrow> (Inr (shapeProcedureResult result), emit (EvExecute procedure) s2))))"

text \<open>The error kind of a native \<open>Error\<close> in \<open>executeStoredProcedure\<close>, lines 1987 to
  1999.\<close>

definition procedureErrorType :: "JsError \<Rightarrow> ErrorType" where
  "procedureErrorType error =
     (let errorMessage = toLowerCase (js_message error)
      in if js_includes errorMessage ''syntax error'' then SQL_PARSER_ERROR
         else if js_includes errorMessage ''permission'' then PERMISSION_ERROR
         else if js_includes errorMessage ''constraint'' then VALIDATION_ERROR
         else if js_includes errorMessage ''timeout'' then CONNECTION_TIMEOUT
         else if js_includes errorMessage ''invalid database name format'' then VALIDATION_ERROR
         else if js_includes errorMessage ''procedure name cannot be empty'' then VALIDATION_ERROR
         else if js_includes errorMessage ''invalid procedure name format'' then VALIDATION_ERROR
         else if js_includes errorMessage ''each parameter must have a name and type'' then VALIDATION_ERROR
         else if connectionIndicative error then CONNECTION_ERROR
         else STORED_PROCEDURE_ERROR)"

text \<open>The combined error of lines 2008 to 2019.\<close>

definition procedureReconnectFailed ::
  "SqlConfig \<Rightarrow> string \<Rightarrow> string option \<Rightarrow> JsError \<Rightarrow> MssqlMcpError \<Rightarrow> MssqlMcpError" where
  "procedureReconnectFailed cfg procedure rawDatabaseArg error reconnectError =
     new_MssqlMcpError
       (''Operation '' @ apos @ ''executeStoredProcedure'' @ apos @ '' for database '' @ apos
          @ orDefault rawDatabaseArg (database cfg) @ apos @ '' (procedure: '' @ procedure
          @ '') failed due to an initial connection error, and the subsequent attempt to re-establish the connection also failed.'')
       CONNECTION_ERROR
       (Some (asError reconnectError))
       (Some [(''database'', DStr (orDefault rawDatabaseArg (database cfg))),
              (''operation'', DStr ''executeStoredProcedure''),
              (''procedure'', DStr procedure),
              (''originalErrorMsg'', DStr (js_message error)),
              (''details'', DStr (''Reconnect attempt failed after initial failure of executeStoredProcedure. Original error: ''
                   @ js_message error @ ''. Reconnect error: '' @ message reconnectError))])"

text \<open>The \<open>catch\<close> block of \<open>executeStoredProcedure\<close>, lines 1980 to 2027.\<close>

definition executeStoredProcedure_catch ::
  "SqlConfig \<Rightarrow> Driver \<Rightarrow> string \<Rightarrow> string option \<Rightarrow> thrown \<Rightarrow> DatabaseService
     \<Rightarrow> (MssqlMcpError \<times> DatabaseService) option" where
  "executeStoredProcedure_catch cfg drv procedure rawDatabaseArg x s =
     (case x of
        Mcp e \<Rightarrow> Some (e, s)
      | Foreign (JsErr error) \<Rightarrow>
          (let errorType = procedureErrorType error;
               mcpError = fromError x errorType (Some [(''procedure'', DStr procedure)])
           in if errorType = CONNECTION_ERROR then
                selfHeal cfg drv (procedureReconnectFailed cfg procedure rawDatabaseArg error) mcpError s
              else Some (mcpError, s))
      | Foreign other \<Rightarrow>
          Some (fromError x UNKNOWN_ERROR (Some [(''procedure'', DStr procedure)]), s))"

text \<open>The \<open>PermissionError\<close> of the whitelist check, lines 1911 to 1916.\<close>

definition procedureNotAllowed :: "SqlConfig \<Rightarrow> string \<Rightarrow> string \<Rightarrow> MssqlMcpError" where
  "procedureNotAllowed cfg targetDatabase procedure =
     new_MssqlMcpError
       (''Access to database '' @ apos @ targetDatabase @ apos
          @ '' is not allowed for stored procedure execution. Allowed databases: ''
          @ join '', '' (allowedList cfg))
       PERMISSION_ERROR None
       (Some [(''database'', DStr targetDatabase), (''allowed'', DStrs (allowedList cfg)),
              (''procedure'', DStr procedure)])"

text \<open>\<open>executeStoredProcedure(procedure, parameters, rawDatabaseArg)\<close>.\<close>

definition executeStoredProcedure ::
  "SqlConfig \<Rightarrow> Driver \<Rightarrow> string \<Rightarrow> ProcParam list \<Rightarrow> string option \<Rightarrow> DatabaseService
     \<Rightarrow> ((MssqlMcpError + StoredProcedureResult) \<times> DatabaseService) option" where
  "executeStoredProcedure cfg drv procedure parameters rawDatabaseArg s =
     (let targetDatabase = orDefault rawDatabaseArg (database cfg)
      in if whitelistDenies cfg targetDatabase then
           Some (Inl (procedureNotAllowed cfg targetDatabase procedure), s)
         else
           (case getPool cfg drv 0 s of
              None \<Rightarrow> None
            | Some (Inl e, s1) \<Rightarrow> Some (Inl e, s1)
            | Some (Inr currentPool, s1) \<Rightarrow>
                (case executeStoredProcedure_try cfg drv procedure parameters targetDatabase s1 of
                   (Inr result, s2) \<Rightarrow> Some (Inr result, s2)
                 | (Inl x, s2) \<Rightarrow>
                     (case executeStoredProcedure_catch cfg drv procedure rawDatabaseArg x s2 of
                        None \<Rightarrow> None
                      | Some (e, s3) \<Rightarrow> Some (Inl e, s3)))))"


section \<open>Reading a run\<close>

text \<open>The calls a run added to the trace, the pool connections among them, and the
  delays waited, in order.\<close>

definition eventsSince :: "DatabaseService \<Rightarrow> DatabaseService \<Rightarrow> event list" where
  "eventsSince s s' = drop (step s) (trace s')"

fun connects :: "event list \<Rightarrow> nat" where
  "connects [] = 0"
| "connects (EvConnect i # evs) = Suc (connects evs)"
| "connects (ev # evs) = connects evs"

fun sleeps :: "event list \<Rightarrow> real list" where
  "sleeps [] = []"
| "sleeps (EvSleep d # evs) = d # sleeps evs"
| "sleeps (ev # evs) = sleeps evs"

text \<open>The calls the pool manager makes, as opposed to those of the operations.\<close>

fun poolEvent :: "event \<Rightarrow> bool" where
  "poolEvent (EvConnect i) = True"
| "poolEvent (EvPoolClose i) = True"
| "poolEvent (EvSleep d) = True"
| "poolEvent EvProbe = True"
| "poolEvent ev = False"

definition extends :: "DatabaseService \<Rightarrow> DatabaseService \<Rightarrow> bool" where
  "extends s s' = (\<exists>evs. trace s' = trace s @ evs \<and> list_all poolEvent evs)"

text \<open>The trace of \<open>n + 1\<close> failed attempts that start at attempt \<open>a\<close> and at trace
  position \<open>i\<close>: each attempt connects and closes the new pool object twice, and all but
  the last are followed by the retry delay.\<close>

fun failedAttempts :: "SqlConfig \<Rightarrow> Driver \<Rightarrow> nat \<Rightarrow> nat \<Rightarrow> nat \<Rightarrow> event list" where
  "failedAttempts cfg drv a 0 i = [EvConnect i, EvPoolClose i, EvPoolClose i]"
| "failedAttempts cfg drv a (Suc n) i =
     [EvConnect i, EvPoolClose i, EvPoolClose i, EvSleep (retryDelay cfg a (Math_random drv (i + 3)))]
       @ failedAttempts cfg drv (Suc a) n (i + 4)"

section \<open>Example configuration and drivers\<close>

text \<open>Concrete inputs for the runs evaluated below: the defaults of \<open>config.js\<close> with a
  password and the whitelist \<open>Db1,Db2\<close>; the service as its constructor leaves it; a
  driver whose every call fails with a connection error.\<close>

definition exampleConfig :: SqlConfig where
  "exampleConfig =
     \<lparr>server = ''localhost'', port = 1433, user = ''sa'', password = Some ''secret'',
      database = ''master'', requestTimeout = Some 15000, connectionTimeout = Some 15000,
      maxRetries = 3, initialRetryDelay = 1000, maxRetryDelay = 10000,
      schemaCacheTTL = 300000, allowedDatabases = Some [''Db1'', ''Db2'']\<rparr>"

text \<open>The example configuration with the whitelist that \<open>config.js\<close> resolves from a value
  of \<open>SQL_ALLOWED_DATABASES\<close>.\<close>

definition configFromEnv :: "string option \<Rightarrow> SqlConfig" where
  "configFromEnv env = exampleConfig\<lparr>allowedDatabases := Some (allowedDatabases_of_env env)\<rparr>"

definition freshService :: DatabaseService where
  "freshService =
     \<lparr>pool = None, connectionPromise = None, isConnecting = False, abortController = None,
      schemaCache = Map.empty, connectionRetries = 0, trace = []\<rparr>"

definition refused :: foreign where
  "refused = JsErr \<lparr>js_message = ''Failed to connect to localhost:1433 - Could not connect (sequence)'',
                    js_code = Some ''ESOCKET'', js_stack = None\<rparr>"

definition unreachableDriver :: "(nat \<Rightarrow> real) \<Rightarrow> Driver" where
  "unreachableDriver rnd =
     \<lparr>drv_connect = (\<lambda>k. ConnectFailed refused),
      Math_random = rnd,
      Date_now = (\<lambda>k. int k),
      drv_probe = (\<lambda>k. Some refused),
      drv_batch = (\<lambda>k t. Some refused),
      drv_query = (\<lambda>k t. Inl refused),
      drv_schemaQuery = (\<lambda>k. Inl refused),
      drv_input = (\<lambda>k n t v. None),
      drv_execute = (\<lambda>k p. Inl refused),
      astify = (\<lambda>t. Inr (Single (Some ''select'')))\<rparr>"

text \<open>An error that is not the rejection of the whitelist check: it is of another kind,
  or its details carry no \<open>allowed\<close> list.\<close>

definition notWhitelistError :: "MssqlMcpError \<Rightarrow> bool" where
  "notWhitelistError e = (errorType e \<noteq> PERMISSION_ERROR \<or> detail e ''allowed'' = None)"

text \<open>
  Scenario A of the specification: the same configuration with an empty whitelist. A
  driver whose every call succeeds: a query returns no rows but two columns of metadata
  (listed out of index order), the metadata query returns the two columns of one table, a
  procedure returns one row. \<open>keywordParser\<close> stands in for the SQL parser on the texts
  evaluated below; it reports the statement type by the first keyword, and for \<open>merge\<close>
  a statement without a type.
  \<open>connectedService\<close> is the service after its first successful \<open>getPool\<close>.
\<close>

definition openConfig :: SqlConfig where
  "openConfig = exampleConfig\<lparr>allowedDatabases := Some []\<rparr>"

definition keywordParser :: "string \<Rightarrow> foreign + ast" where
  "keywordParser t =
     (let w = takeWhile (\<lambda>c. \<not> isWhiteSpace c) (toLowerCase (trim t))
      in if w = ''select'' \<or> w = ''with'' then Inr (Single (Some ''select''))
         else if w = ''insert'' \<or> w = ''update'' \<or> w = ''delete'' \<or> w = ''drop'' \<or> w = ''create''
           then Inr (Single (Some w))
         else if w = ''merge'' then Inr (Single None)
         else Inl (JsErr \<lparr>js_message = ''Expected a statement'', js_code = None, js_stack = None\<rparr>))"

definition healthyDriver :: Driver where
  "healthyDriver =
     \<lparr>drv_connect = (\<lambda>k. Connected),
      Math_random = (\<lambda>k. 0),
      Date_now = (\<lambda>k. 1000 * int k),
      drv_probe = (\<lambda>k. None),
      drv_batch = (\<lambda>k t. None),
      drv_query = (\<lambda>k t. Inr (Some \<lparr>rs_rows = [],
                     rs_columns = Some [\<lparr>cm_index = 1, cm_name = ''name''\<rparr>,
                                        \<lparr>cm_index = 0, cm_name = ''id''\<rparr>]\<rparr>)),
      drv_schemaQuery = (\<lambda>k. Inr
         [\<lparr>TABLE_SCHEMA = ''dbo'', TABLE_NAME = ''Users'', COLUMN_NAME = ''Id'', DATA_TYPE = ''int'',
           CHARACTER_MAXIMUM_LENGTH = None, NUMERIC_PRECISION = Some 10, NUMERIC_SCALE = Some 0,
           IS_NULLABLE = ''NO'', IS_PRIMARY_KEY = 1, ORDINAL_POSITION = 1\<rparr>,
          \<lparr>TABLE_SCHEMA = ''dbo'', TABLE_NAME = ''Users'', COLUMN_NAME = ''Name'', DATA_TYPE = ''nvarchar'',
           CHARACTER_MAXIMUM_LENGTH = Some 50, NUMERIC_PRECISION = None, NUMERIC_SCALE = None,
           IS_NULLABLE = ''YES'', IS_PRIMARY_KEY = 0, ORDINAL_POSITION = 2\<rparr>]),
      drv_input = (\<lambda>k n t v. None),
      drv_execute = (\<lambda>k p. Inr \<lparr>pr_recordset = Some \<lparr>rs_rows = [[(''Id'', SqlNum 5), (''Name'', SqlText ''Ann'')]],
                                                       rs_columns = None\<rparr>,
                                  pr_output = [], pr_returnValue = SqlNum 0, pr_rowsAffected = [1]\<rparr>),
      astify = keywordParser\<rparr>"

definition connectedService :: DatabaseService where
  "connectedService =
     \<lparr>pool = Some \<lparr>pool_id = 0, connected = True\<rparr>, connectionPromise = Some (Resolved 0),
      isConnecting = False, abortController = Some False,
      schemaCache = Map.empty, connectionRetries = 0, trace = [EvConnect 0]\<rparr>"

text \<open>The table list assembled from the metadata rows of \<open>healthyDriver\<close>; the connected
  service holding an entry for \<open>master\<close> that is \<open>301000\<close> ms old at its next clock read
  (\<open>staleService\<close>), and the service after a first \<open>getSchema(master)\<close>
  (\<open>cachedService\<close>).\<close>

definition usersTable :: "TableSchema list" where
  "usersTable =
     [\<lparr>schema = ''dbo'', name = ''Users'', fullName = ''dbo.Users'',
       columns = [\<lparr>col_name = ''Id'', col_type = ''int(10,0)'', nullable = False, primary = True\<rparr>,
                  \<lparr>col_name = ''Name'', col_type = ''nvarchar(50)'', nullable = True, primary = False\<rparr>]\<rparr>]"

definition staleService :: DatabaseService where
  "staleService = connectedService\<lparr>schemaCache := [''master'' \<mapsto> (- 300000, [])]\<rparr>"

definition cachedService :: DatabaseService where
  "cachedService =
     \<lparr>pool = Some \<lparr>pool_id = 0, connected = True\<rparr>, connectionPromise = Some (Resolved 0),
      isConnecting = False, abortController = Some False,
      schemaCache = [''master'' \<mapsto> (2000, usersTable)], connectionRetries = 0,
      trace = [EvConnect 0, EvSchemaQuery]\<rparr>"

text \<open>
  A driver whose statements (query, metadata query, procedure call) all throw a given
  native error, a driver whose first connection succeeds and whose later ones are
  refused, two errors a statement may throw, and the state of the service after the first
  statement of a fresh service, recorded as \<open>ev\<close>, has failed.
\<close>

definition connectionLost :: JsError where
  "connectionLost = \<lparr>js_message = ''Connection lost - read ECONNRESET'', js_code = Some ''ESOCKET'',
                      js_stack = None\<rparr>"

definition connectionTimeoutError :: JsError where
  "connectionTimeoutError = \<lparr>js_message = ''Connection timeout'', js_code = None, js_stack = None\<rparr>"

definition failingQueries :: "JsError \<Rightarrow> Driver \<Rightarrow> Driver" where
  "failingQueries err drv =
     drv\<lparr>drv_query := (\<lambda>k t. Inl (JsErr err)),
         drv_schemaQuery := (\<lambda>k. Inl (JsErr err)),
         drv_execute := (\<lambda>k pr. Inl (JsErr err))\<rparr>"

definition connectOnce :: "Driver \<Rightarrow> Driver" where
  "connectOnce drv = drv\<lparr>drv_connect := (\<lambda>k. if k = 0 then Connected else ConnectFailed refused)\<rparr>"

definition afterFailure :: "event \<Rightarrow> DatabaseService" where
  "afterFailure ev = emit ev connectedService"

section \<open>Auxiliary facts\<close>

lemmas js_string_defs =
  toLowerCase_def toLowerChar_def char_of_def bit_0 trim_def isWhiteSpace_def startsWith_def

subsection \<open>The trace and the pool manager\<close>

lemma step_emit [simp]: "step (emit e s) = Suc (step s)"
  by (simp add: step_def emit_def)

lemma trace_emit [simp]: "trace (emit e s) = trace s @ [e]"
  by (simp add: emit_def)

lemma emit_fields [simp]:
  "pool (emit e s) = pool s" "connectionPromise (emit e s) = connectionPromise s"
  "isConnecting (emit e s) = isConnecting s" "abortController (emit e s) = abortController s"
  "schemaCache (emit e s) = schemaCache s" "connectionRetries (emit e s) = connectionRetries s"
  by (simp_all add: emit_def)

lemma extends_refl [simp]: "extends s s"
  by (simp add: extends_def)

lemma extends_trans: "extends s s1 \<Longrightarrow> extends s1 s2 \<Longrightarrow> extends s s2"
  by (auto simp: extends_def)

lemma extends_emit: "poolEvent e \<Longrightarrow> extends s (emit e s)"
  by (simp add: extends_def)

lemma extends_update [simp]:
  "extends s (s'\<lparr>isConnecting := b\<rparr>) = extends s s'"
  "extends s (s'\<lparr>pool := p\<rparr>) = extends s s'"
  "extends s (s'\<lparr>connectionPromise := c\<rparr>) = extends s s'"
  "extends s (s'\<lparr>abortController := a\<rparr>) = extends s s'"
  "extends s (s'\<lparr>connectionRetries := n\<rparr>) = extends s s'"
  "extends (s\<lparr>isConnecting := b\<rparr>) s' = extends s s'"
  by (simp_all add: extends_def)

lemma closePool_extends: "extends s (closePool s)"
  by (auto simp: closePool_def Let_def extends_def split: option.splits)

lemma closePool_cache [simp]: "schemaCache (closePool s) = schemaCache s"
  by (auto simp: closePool_def Let_def split: option.splits)

lemma closePool_isConnecting [simp]: "isConnecting (closePool s) = isConnecting s"
  by (auto simp: closePool_def Let_def split: option.splits)

lemma initPool_extends: "initPool cfg drv s = (r, s') \<Longrightarrow> extends s s'"
  by (auto simp: initPool_def Let_def extends_def closePool_def split: option.splits Promise.splits bool.splits prod.splits connect_outcome.splits if_splits)


lemma initPool_cache: "initPool cfg drv s = (r, s') \<Longrightarrow> schemaCache s' = schemaCache s"
  by (auto simp: initPool_def Let_def closePool_def split: option.splits Promise.splits bool.splits prod.splits connect_outcome.splits if_splits)

lemma initPool_isConnecting: "initPool cfg drv s = (r, s') \<Longrightarrow> isConnecting s' = isConnecting s"
  by (auto simp: initPool_def Let_def closePool_def split: option.splits Promise.splits bool.splits prod.splits connect_outcome.splits if_splits)

lemma tryInitPool_extends: "tryInitPool cfg drv s = (r, s') \<Longrightarrow> extends s s'"
  by (auto simp: tryInitPool_def split: prod.splits sum.splits option.splits dest: initPool_extends)

lemma tryInitPool_cache: "tryInitPool cfg drv s = (r, s') \<Longrightarrow> schemaCache s' = schemaCache s"
  by (auto simp: tryInitPool_def split: prod.splits sum.splits option.splits dest: initPool_cache)

lemma tryInitPool_Inr: "tryInitPool cfg drv s = (Inr p, s') \<Longrightarrow> \<not> isConnecting s' \<and> livePool s' = Some p"
  by (auto simp: tryInitPool_def livePool_def split: prod.splits sum.splits option.splits if_splits)

lemma awaitWatched_state: "awaitWatched s = (r, s') \<Longrightarrow> extends s s' \<and> schemaCache s' = schemaCache s"
  by (auto simp: awaitWatched_def split: if_splits option.splits Promise.splits)

lemma awaitWatched_idle: "\<not> isConnecting s \<Longrightarrow> awaitWatched s = (None, s)"
  by (simp add: awaitWatched_def)

lemma getPool_sound_aux:
  assumes major: "getPool cfg0 drv0 a0 s0 = Some y0"
  shows "extends s0 (snd y0) \<and> schemaCache (snd y0) = schemaCache s0
     \<and> (\<forall>e. fst y0 = Inl e \<longrightarrow> errorType e = CONNECTION_ERROR)
     \<and> (\<forall>p. fst y0 = Inr p \<longrightarrow> livePool (snd y0) = Some p)"
proof (induction cfg0 drv0 a0 s0 y0 rule: getPool.raw_induct)
  case (1 getPool cfg drv currentAttempt s y)
  show ?case
  proof (cases "livePool s")
    case (Some p)
    with 1(2) show ?thesis by auto
  next
    case None
    obtain w s1 where aw: "awaitWatched s = (w, s1)" by (cases "awaitWatched s")
    from awaitWatched_state [OF aw] have e1: "extends s s1" and c1: "schemaCache s1 = schemaCache s" by auto
    show ?thesis
    proof (cases w)
      case (Some p)
      with 1(2) None aw e1 c1 show ?thesis
        by (auto simp: awaitWatched_def split: if_splits option.splits Promise.splits)
    next
      case wNone: None
      show ?thesis
      proof (cases "isConnecting s1")
        case True
        with 1(2) None aw wNone
        have rec: "getPool cfg drv currentAttempt (emit (EvSleep (briefWait cfg)) s1) = Some y" by simp
        from 1(1) [OF rec] e1 c1 show ?thesis
          by (auto simp: extends_def)
      next
        case False
        obtain t s2 where ti: "tryInitPool cfg drv (s1\<lparr>isConnecting := True\<rparr>) = (t, s2)"
          by (cases "tryInitPool cfg drv (s1\<lparr>isConnecting := True\<rparr>)")
        from tryInitPool_extends [OF ti] have e2: "extends s1 s2" by simp
        from tryInitPool_cache [OF ti] have c2: "schemaCache s2 = schemaCache s1" by simp
        show ?thesis
        proof (cases t)
          case (Inr p)
          with 1(2) None aw wNone False ti have "y = (Inr p, s2)" by auto
          with e1 e2 c1 c2 tryInitPool_Inr [OF ti [unfolded Inr]] show ?thesis
            by (auto intro: extends_trans)
        next
          case (Inl x)
          show ?thesis
          proof (cases "int currentAttempt < maxRetries cfg - 1")
            case True
            with 1(2) None aw wNone False ti Inl
            have rec: "getPool cfg drv (currentAttempt + 1)
                 (emit (EvSleep (retryDelay cfg currentAttempt (Math_random drv (step (s2\<lparr>isConnecting := False\<rparr>)))))
                    (s2\<lparr>isConnecting := False\<rparr>)) = Some y"
              by (simp add: Let_def)
            from 1(1) [OF rec] e1 e2 c1 c2 show ?thesis
              by (auto simp: extends_def)
          next
            case lastAttempt: False
            with 1(2) None aw wNone False ti Inl
            have "y = (Inl (retriesExhausted cfg (fromError x CONNECTION_ERROR None)), s2\<lparr>isConnecting := False\<rparr>)"
              by (auto simp: Let_def)
            with e1 e2 c1 c2 show ?thesis
              by (auto simp: retriesExhausted_def new_MssqlMcpError_def intro: extends_trans)
          qed
        qed
      qed
    qed
  qed
qed (fact major)

lemma getPool_sound:
  assumes "getPool cfg drv a s = Some (r, s')"
  shows "extends s s'" and "schemaCache s' = schemaCache s"
    and "r = Inl e \<Longrightarrow> errorType e = CONNECTION_ERROR"
    and "r = Inr p \<Longrightarrow> livePool s' = Some p"
  using getPool_sound_aux [OF assms] by auto

lemma getPool_returns:
  "\<not> isConnecting s \<Longrightarrow> \<exists>r s'. getPool cfg drv a s = Some (r, s') \<and> \<not> isConnecting s'"
proof (induction "nat (maxRetries cfg - 1 - int a)" arbitrary: a s)
  case 0
  show ?case
  proof (cases "livePool s")
    case (Some p)
    with 0 show ?thesis by (subst getPool.simps) simp
  next
    case None
    obtain t s2 where ti: "tryInitPool cfg drv (s\<lparr>isConnecting := True\<rparr>) = (t, s2)"
      by (cases "tryInitPool cfg drv (s\<lparr>isConnecting := True\<rparr>)")
    from 0 have last: "\<not> int a < maxRetries cfg - 1" by simp
    show ?thesis
      using None 0(2) ti last tryInitPool_Inr [of cfg drv "s\<lparr>isConnecting := True\<rparr>" _ s2]
      by (subst getPool.simps) (auto simp: awaitWatched_idle Let_def split: sum.splits)
  qed
next
  case (Suc n)
  show ?case
  proof (cases "livePool s")
    case (Some p)
    with Suc show ?thesis by (subst getPool.simps) simp
  next
    case None
    obtain t s2 where ti: "tryInitPool cfg drv (s\<lparr>isConnecting := True\<rparr>) = (t, s2)"
      by (cases "tryInitPool cfg drv (s\<lparr>isConnecting := True\<rparr>)")
    from Suc(2) have more: "int a < maxRetries cfg - 1" and n: "n = nat (maxRetries cfg - 1 - int (a + 1))" by auto
    show ?thesis
    proof (cases t)
      case (Inr p)
      with None Suc(3) ti tryInitPool_Inr [of cfg drv "s\<lparr>isConnecting := True\<rparr>" p s2]
      show ?thesis by (subst getPool.simps) (auto simp: awaitWatched_idle)
    next
      case (Inl x)
      have idle: "\<not> isConnecting (emit (EvSleep (retryDelay cfg a (Math_random drv (step (s2\<lparr>isConnecting := False\<rparr>)))))
                    (s2\<lparr>isConnecting := False\<rparr>))" by simp
      from Suc(1) [OF n idle] None Suc(3) ti Inl more
      show ?thesis by (subst getPool.simps) (auto simp: awaitWatched_idle Let_def)
    qed
  qed
qed


lemma initPool_fails:
  assumes "pool s = None" "connectionPromise s = None" "\<not> passwordMissing cfg"
    "drv_connect drv (step s) \<noteq> Connected"
  shows "\<exists>s'. initPool cfg drv s = (Inl (Mcp (connectFailure cfg (drv_connect drv (step s)))), s')
     \<and> trace s' = trace s @ [EvConnect (step s), EvPoolClose (step s), EvPoolClose (step s)]
     \<and> pool s' = None \<and> connectionPromise s' = None \<and> isConnecting s' = isConnecting s
     \<and> schemaCache s' = schemaCache s"
  using assms
  by (cases "drv_connect drv (step s)")
     (simp_all add: initPool_def livePool_def Let_def step_def emit_def)

lemma tryInitPool_fails:
  assumes "pool s = None" "connectionPromise s = None" "\<not> passwordMissing cfg"
    "drv_connect drv (step s) \<noteq> Connected"
  shows "\<exists>s'. tryInitPool cfg drv s = (Inl (Mcp (connectFailure cfg (drv_connect drv (step s)))), s')
     \<and> trace s' = trace s @ [EvConnect (step s), EvPoolClose (step s), EvPoolClose (step s)]
     \<and> pool s' = None \<and> connectionPromise s' = None \<and> isConnecting s' = isConnecting s
     \<and> schemaCache s' = schemaCache s"
  using initPool_fails [OF assms] by (auto simp: tryInitPool_def)

lemma getPool_all_fail:
  assumes nofail: "\<forall>k. drv_connect drv k \<noteq> Connected" and pw: "\<not> passwordMissing cfg"
  shows "pool s = None \<Longrightarrow> connectionPromise s = None \<Longrightarrow> \<not> isConnecting s \<Longrightarrow>
         int a + int n = maxRetries cfg - 1 \<Longrightarrow>
         \<exists>s'. getPool cfg drv a s =
                 Some (Inl (retriesExhausted cfg (connectFailure cfg (drv_connect drv (step s + 4 * n)))), s')
            \<and> trace s' = trace s @ failedAttempts cfg drv a n (step s)
            \<and> schemaCache s' = schemaCache s"
proof (induction n arbitrary: a s)
  case 0
  have idle: "pool (s\<lparr>isConnecting := True\<rparr>) = None" "connectionPromise (s\<lparr>isConnecting := True\<rparr>) = None"
    using 0 by simp_all
  have st: "step (s\<lparr>isConnecting := True\<rparr>) = step s" by (simp add: step_def)
  from tryInitPool_fails [OF idle pw] nofail st
  obtain s2 where ti: "tryInitPool cfg drv (s\<lparr>isConnecting := True\<rparr>)
                        = (Inl (Mcp (connectFailure cfg (drv_connect drv (step s)))), s2)"
    and tr: "trace s2 = trace s @ [EvConnect (step s), EvPoolClose (step s), EvPoolClose (step s)]"
    and rest: "schemaCache s2 = schemaCache s" by auto
  from 0 have last: "\<not> int a < maxRetries cfg - 1" by simp
  have lp: "livePool s = None" using 0 by (simp add: livePool_def)
  show ?case
    using lp 0(3) ti last tr rest
    by (subst getPool.simps) (simp add: awaitWatched_idle Let_def)
next
  case (Suc n)
  have idle: "pool (s\<lparr>isConnecting := True\<rparr>) = None" "connectionPromise (s\<lparr>isConnecting := True\<rparr>) = None"
    using Suc by simp_all
  have st: "step (s\<lparr>isConnecting := True\<rparr>) = step s" by (simp add: step_def)
  from tryInitPool_fails [OF idle pw] nofail st
  obtain s2 where ti: "tryInitPool cfg drv (s\<lparr>isConnecting := True\<rparr>)
                        = (Inl (Mcp (connectFailure cfg (drv_connect drv (step s)))), s2)"
    and tr: "trace s2 = trace s @ [EvConnect (step s), EvPoolClose (step s), EvPoolClose (step s)]"
    and p2: "pool s2 = None" and c2: "connectionPromise s2 = None"
    and rest: "schemaCache s2 = schemaCache s" by auto
  from Suc(5) have more: "int a < maxRetries cfg - 1" and n: "int (Suc a) + int n = maxRetries cfg - 1" by auto
  have lp: "livePool s = None" using Suc by (simp add: livePool_def)
  define s3 where "s3 = emit (EvSleep (retryDelay cfg a (Math_random drv (step (s2\<lparr>isConnecting := False\<rparr>)))))
                    (s2\<lparr>isConnecting := False\<rparr>)"
  have st3: "step (s2\<lparr>isConnecting := False\<rparr>) = step s + 3" using tr by (simp add: step_def)
  have s3: "pool s3 = None" "connectionPromise s3 = None" "\<not> isConnecting s3"
    using p2 c2 by (simp_all add: s3_def)
  have tr3: "trace s3 = trace s @ [EvConnect (step s), EvPoolClose (step s), EvPoolClose (step s),
               EvSleep (retryDelay cfg a (Math_random drv (step s + 3)))]"
    using tr st3 by (simp add: s3_def)
  have step3: "step s3 = step s + 4" using tr3 by (simp add: step_def)
  from Suc(1) [OF s3 n] obtain s' where
    rec: "getPool cfg drv (Suc a) s3 =
            Some (Inl (retriesExhausted cfg (connectFailure cfg (drv_connect drv (step s3 + 4 * n)))), s')"
    and tr': "trace s' = trace s3 @ failedAttempts cfg drv (Suc a) n (step s3)"
    and c': "schemaCache s' = schemaCache s3" by auto
  have "getPool cfg drv a s = getPool cfg drv (Suc a) s3"
    using lp Suc(4) ti more
    by (subst getPool.simps) (simp add: awaitWatched_idle Let_def s3_def)
  with rec tr' c' tr3 step3 rest show ?case
    by (simp add: s3_def add.commute add.left_commute)
qed

lemma connects_failedAttempts: "connects (failedAttempts cfg drv a n i) = Suc n"
  by (induction n arbitrary: a i) simp_all

lemma sleeps_failedAttempts:
  "sleeps (failedAttempts cfg drv a n i)
     = map (\<lambda>k. retryDelay cfg (a + k) (Math_random drv (i + 4 * k + 3))) [0..<n]"
proof (induction n arbitrary: a i)
  case 0
  show ?case by simp
next
  case (Suc n)
  have "map (\<lambda>k. retryDelay cfg (a + k) (Math_random drv (i + 4 * k + 3))) [0..<Suc n]
        = retryDelay cfg a (Math_random drv (i + 3))
          # map (\<lambda>k. retryDelay cfg (Suc a + k) (Math_random drv (i + 4 + 4 * k + 3))) [0..<n]"
    by (simp add: upt_conv_Cons map_Suc_upt [symmetric] del: upt_Suc) 
  with Suc [of "Suc a" "i + 4"] show ?case by simp
qed

subsection \<open>Error details\<close>

lemma map_of_obj_set: "map_of (obj_set k v kvs) k' = (if k' = k then Some v else map_of kvs k')"
  by (induction kvs) auto

lemma map_of_spread_None: "map_of b k = None \<Longrightarrow> map_of (spread a b) k = map_of a k"
  unfolding spread_def
  by (induction b arbitrary: a) (auto simp: map_of_obj_set split: if_splits)

lemma detail_fromError_foreign:
  assumes "k \<noteq> ''stack''" "k \<noteq> ''originalValue''" "map_of (orEmpty ad) k = None"
  shows "detail (fromError (Foreign x) t ad) k = None"
  using assms
  by (cases x) (auto simp: detail_def new_MssqlMcpError_def orEmpty_def map_of_spread_None
                     split: option.splits)

lemma connectFailure_no_attempts: "detail (connectFailure cfg outcome) ''attempts'' = None"
proof (cases outcome)
  case (ConnectFailed x)
  have "detail (fromError (Foreign x) CONNECTION_ERROR
          (Some [(''customMessage'', DStr ''DatabaseService: Failed to connect to SQL Server.'')]))
          ''attempts'' = None"
    by (rule detail_fromError_foreign) (simp_all add: orEmpty_def)
  with ConnectFailed show ?thesis by (simp add: connectFailure_def del: fromError.simps)
qed (simp_all add: connectFailure_def new_MssqlMcpError_def orEmpty_def detail_def)

lemma retriesExhausted_attempts:
  "detail e ''attempts'' = None \<Longrightarrow>
   detail (retriesExhausted cfg e) ''attempts'' = Some (DNum (maxRetries cfg))"
  by (simp add: detail_def retriesExhausted_def new_MssqlMcpError_def orEmpty_def map_of_spread_None)

lemma retryDelay_capped: "retryDelay cfg k r \<le> real_of_int (maxRetryDelay cfg)"
  by (simp add: retryDelay_def)

lemma retryDelay_mono:
  assumes "1000 \<le> initialRetryDelay cfg" "0 \<le> r'" "r < 1"
  shows "retryDelay cfg k r \<le> retryDelay cfg (Suc k) r'"
proof -
  have i: "(1000::real) \<le> real_of_int (initialRetryDelay cfg)" using assms(1) by linarith
  have "(1::real) \<le> 2 ^ k" by simp
  with i have "(1000::real) * 1 \<le> real_of_int (initialRetryDelay cfg) * 2 ^ k"
    by (intro mult_mono) auto
  then have "real_of_int (initialRetryDelay cfg) * 2 ^ k + r * 1000
             \<le> real_of_int (initialRetryDelay cfg) * 2 ^ Suc k + r' * 1000"
    using assms(2,3) by simp
  then show ?thesis unfolding retryDelay_def by (simp add: min_le_iff_disj)
qed

lemma sorted_map_upt:
  fixes f :: "nat \<Rightarrow> real"
  assumes "\<And>k. f k \<le> f (Suc k)"
  shows "sorted (map f [0..<n])"
proof -
  have mono: "\<And>i j. i \<le> j \<Longrightarrow> f i \<le> f j" using assms by (rule lift_Suc_mono_le)
  show ?thesis
    by (simp add: sorted_iff_nth_mono mono)
qed

lemma eventsSince_append: "trace s' = trace s @ evs \<Longrightarrow> eventsSince s s' = evs"
  by (simp add: eventsSince_def step_def)

lemma example_facts:
  "\<not> passwordMissing exampleConfig" "maxRetries exampleConfig = 3"
  "initialRetryDelay exampleConfig = 1000" "maxRetryDelay exampleConfig = 10000"
  "pool freshService = None" "connectionPromise freshService = None"
  "\<not> isConnecting freshService" "step freshService = 0" "trace freshService = []"
  "\<forall>k. drv_connect (unreachableDriver rnd) k \<noteq> Connected"
  "Math_random (unreachableDriver rnd) = rnd"
  by (simp_all add: exampleConfig_def freshService_def unreachableDriver_def passwordMissing_def step_def)

subsection \<open>Errors of the three operations\<close>

lemma whitelistDenies_iff:
  "whitelistDenies cfg db \<longleftrightarrow> allowedList cfg \<noteq> [] \<and> db \<notin> set (allowedList cfg)"
  by (simp add: whitelistDenies_def allowedList_def split: option.splits)

lemma selfHeal_cases:
  "selfHeal cfg drv combined surfaced s = Some (e, s') \<Longrightarrow> e = surfaced \<or> (\<exists>re. e = combined re)"
  by (auto simp: selfHeal_def split: option.splits sum.splits prod.splits)

lemma switchContext_Mcp:
  "switchContext cfg drv msg db s = (Some (Mcp e), s') \<Longrightarrow> errorType e = VALIDATION_ERROR"
  by (auto simp: switchContext_def new_MssqlMcpError_def split: if_splits option.splits)

lemma validateQuery_kind:
  "validateQuery drv q = Some e \<Longrightarrow> errorType e = VALIDATION_ERROR \<or> errorType e = SQL_PARSER_ERROR"
  by (auto simp: validateQuery_def new_MssqlMcpError_def split: if_splits sum.splits option.splits)

lemma executeQuery_try_Mcp:
  "executeQuery_try cfg drv q db s = (Inl (Mcp e), s') \<Longrightarrow> errorType e \<noteq> PERMISSION_ERROR"
  by (auto simp: executeQuery_try_def split: prod.splits option.splits sum.splits
           dest: switchContext_Mcp validateQuery_kind)

lemma wrapped_not_whitelist:
  "k \<noteq> ''allowed'' \<Longrightarrow> notWhitelistError (fromError (Foreign x) t (Some [(k, v)]))"
  unfolding notWhitelistError_def
  by (rule disjI2, rule detail_fromError_foreign) (simp_all add: orEmpty_def)

lemma executeQuery_catch_not_whitelist:
  assumes "executeQuery_catch cfg drv q db x s = Some (e, s')"
    and "\<And>m. x = Mcp m \<Longrightarrow> errorType m \<noteq> PERMISSION_ERROR"
  shows "notWhitelistError e"
proof (cases x)
  case (Mcp m)
  with assms show ?thesis by (simp add: executeQuery_catch_def notWhitelistError_def)
next
  case (Foreign f)
  show ?thesis
  proof (cases f)
    case (JsErr err)
    have w: "notWhitelistError (fromError (Foreign (JsErr err)) t (Some [(''query'', DStr (truncated q))]))" for t
      by (rule wrapped_not_whitelist) simp
    have c: "notWhitelistError (queryReconnectFailed cfg q db err re)" for re
      by (simp add: notWhitelistError_def queryReconnectFailed_def new_MssqlMcpError_def)
    from assms(1) Foreign JsErr w c show ?thesis
      by (auto simp: executeQuery_catch_def Let_def simp del: fromError.simps
               split: if_splits dest!: selfHeal_cases)
  next
    case (JsStr x2)
    with assms(1) Foreign show ?thesis
      by (auto simp: executeQuery_catch_def notWhitelistError_def new_MssqlMcpError_def)
  next
    case (JsObj x3)
    with assms(1) Foreign show ?thesis
      by (auto simp: executeQuery_catch_def notWhitelistError_def new_MssqlMcpError_def)
  next
    case (JsPrim x4)
    with assms(1) Foreign show ?thesis
      by (auto simp: executeQuery_catch_def notWhitelistError_def new_MssqlMcpError_def)
  next
    case JsNull
    with assms(1) Foreign show ?thesis
      by (auto simp: executeQuery_catch_def notWhitelistError_def new_MssqlMcpError_def)
  qed
qed

lemma executeQuery_not_whitelist:
  assumes "executeQuery cfg drv q db s = Some (Inl e, s')"
    and "\<not> whitelistDenies cfg (orDefault db (database cfg))"
  shows "notWhitelistError e"
proof (cases "getPool cfg drv 0 s")
  case None
  with assms show ?thesis by (simp add: executeQuery_def)
next
  case (Some y)
  obtain r s1 where y: "y = (r, s1)" by (cases y)
  show ?thesis
  proof (cases r)
    case (Inl pe)
    with assms Some y have "e = pe" by (simp add: executeQuery_def)
    with getPool_sound(3) [OF Some [unfolded y] Inl] show ?thesis
      by (simp add: notWhitelistError_def)
  next
    case (Inr p)
    obtain t s2 where t: "executeQuery_try cfg drv q (orDefault db (database cfg)) s1 = (t, s2)"
      by (cases "executeQuery_try cfg drv q (orDefault db (database cfg)) s1")
    show ?thesis
    proof (cases t)
      case (Inl x)
      with assms Some y Inr t have c: "executeQuery_catch cfg drv q db x s2 = Some (e, s')"
        by (auto simp: executeQuery_def split: option.splits)
      show ?thesis
        by (rule executeQuery_catch_not_whitelist [OF c])
           (use t Inl executeQuery_try_Mcp in blast)
    next
      case (Inr res)
      with assms Some y \<open>r = Inr p\<close> t show ?thesis by (simp add: executeQuery_def)
    qed
  qed
qed


lemma getSchema_try_Mcp:
  "getSchema_try cfg drv db s = (Inl (Mcp e), s') \<Longrightarrow> errorType e \<noteq> PERMISSION_ERROR"
  by (auto simp: getSchema_try_def Let_def split: prod.splits option.splits sum.splits
           dest: switchContext_Mcp)

lemma getSchema_catch_not_whitelist:
  assumes "getSchema_catch cfg drv db x s = Some (e, s')"
    and "\<And>m. x = Mcp m \<Longrightarrow> errorType m \<noteq> PERMISSION_ERROR"
  shows "notWhitelistError e"
proof (cases x)
  case (Mcp m)
  with assms show ?thesis by (simp add: getSchema_catch_def notWhitelistError_def)
next
  case (Foreign f)
  show ?thesis
  proof (cases f)
    case (JsErr err)
    have w: "notWhitelistError (fromError (Foreign (JsErr err)) t (Some [(''database'', DStr db)]))" for t
      by (rule wrapped_not_whitelist) simp
    have c: "notWhitelistError (schemaReconnectFailed db err re)" for re
      by (simp add: notWhitelistError_def schemaReconnectFailed_def new_MssqlMcpError_def)
    from assms(1) Foreign JsErr w c show ?thesis
      by (auto simp: getSchema_catch_def Let_def simp del: fromError.simps
               split: if_splits dest!: selfHeal_cases)
  qed (use assms(1) Foreign in \<open>auto simp: getSchema_catch_def notWhitelistError_def new_MssqlMcpError_def\<close>)
qed

lemma getSchema_not_whitelist:
  assumes "getSchema cfg drv db s = Some (Inl e, s')"
    and "\<not> whitelistDenies cfg db"
  shows "notWhitelistError e"
proof (cases "cachedSchema cfg drv db s")
  case (Some d)
  with assms show ?thesis by (simp add: getSchema_def)
next
  case noCache: None
  show ?thesis
  proof (cases "getPool cfg drv 0 s")
    case None
    with assms noCache show ?thesis by (simp add: getSchema_def)
  next
    case (Some y)
    obtain r s1 where y: "y = (r, s1)" by (cases y)
    show ?thesis
    proof (cases r)
      case (Inl pe)
      with assms noCache Some y have "e = pe" by (simp add: getSchema_def)
      with getPool_sound(3) [OF Some [unfolded y] Inl] show ?thesis
        by (simp add: notWhitelistError_def)
    next
      case (Inr p)
      obtain t s2 where t: "getSchema_try cfg drv db s1 = (t, s2)"
        by (cases "getSchema_try cfg drv db s1")
      show ?thesis
      proof (cases t)
        case (Inl x)
        with assms noCache Some y Inr t have c: "getSchema_catch cfg drv db x s2 = Some (e, s')"
          by (auto simp: getSchema_def split: option.splits)
        show ?thesis
          by (rule getSchema_catch_not_whitelist [OF c])
             (use t Inl getSchema_try_Mcp in blast)
      next
        case (Inr res)
        with assms noCache Some y \<open>r = Inr p\<close> t show ?thesis by (simp add: getSchema_def)
      qed
    qed
  qed
qed

lemma bindParameters_Mcp:
  "bindParameters drv ps s = (Some (Mcp e), s') \<Longrightarrow> errorType e = VALIDATION_ERROR"
  by (induction ps arbitrary: s)
     (auto simp: Let_def new_MssqlMcpError_def split: if_splits option.splits)

lemma switchProcedureContext_Mcp:
  "switchProcedureContext cfg drv db s = (Some (Mcp e), s') \<Longrightarrow> errorType e = VALIDATION_ERROR"
  by (auto simp: switchProcedureContext_def new_MssqlMcpError_def Let_def split: if_splits option.splits)

lemma executeStoredProcedure_try_Mcp:
  "executeStoredProcedure_try cfg drv pr ps db s = (Inl (Mcp e), s') \<Longrightarrow> errorType e \<noteq> PERMISSION_ERROR"
  by (auto simp: executeStoredProcedure_try_def new_MssqlMcpError_def
           split: prod.splits option.splits sum.splits if_splits
           dest: switchProcedureContext_Mcp bindParameters_Mcp)

lemma executeStoredProcedure_catch_not_whitelist:
  assumes "executeStoredProcedure_catch cfg drv pr db x s = Some (e, s')"
    and "\<And>m. x = Mcp m \<Longrightarrow> errorType m \<noteq> PERMISSION_ERROR"
  shows "notWhitelistError e"
proof (cases x)
  case (Mcp m)
  with assms show ?thesis by (simp add: executeStoredProcedure_catch_def notWhitelistError_def)
next
  case (Foreign f)
  show ?thesis
  proof (cases f)
    case (JsErr err)
    have w: "notWhitelistError (fromError (Foreign (JsErr err)) t (Some [(''procedure'', DStr pr)]))" for t
      by (rule wrapped_not_whitelist) simp
    have c: "notWhitelistError (procedureReconnectFailed cfg pr db err re)" for re
      by (simp add: notWhitelistError_def procedureReconnectFailed_def new_MssqlMcpError_def)
    from assms(1) Foreign JsErr w c show ?thesis
      by (auto simp: executeStoredProcedure_catch_def Let_def simp del: fromError.simps
               split: if_splits dest!: selfHeal_cases)
  qed (use assms(1) Foreign in \<open>auto simp: executeStoredProcedure_catch_def notWhitelistError_def new_MssqlMcpError_def\<close>)
qed

lemma executeStoredProcedure_not_whitelist:
  assumes "executeStoredProcedure cfg drv pr ps db s = Some (Inl e, s')"
    and "\<not> whitelistDenies cfg (orDefault db (database cfg))"
  shows "notWhitelistError e"
proof (cases "getPool cfg drv 0 s")
  case None
  with assms show ?thesis by (simp add: executeStoredProcedure_def)
next
  case (Some y)
  obtain r s1 where y: "y = (r, s1)" by (cases y)
  show ?thesis
  proof (cases r)
    case (Inl pe)
    with assms Some y have "e = pe" by (simp add: executeStoredProcedure_def)
    with getPool_sound(3) [OF Some [unfolded y] Inl] show ?thesis
      by (simp add: notWhitelistError_def)
  next
    case (Inr p)
    obtain t s2 where t: "executeStoredProcedure_try cfg drv pr ps (orDefault db (database cfg)) s1 = (t, s2)"
      by (cases "executeStoredProcedure_try cfg drv pr ps (orDefault db (database cfg)) s1")
    show ?thesis
    proof (cases t)
      case (Inl x)
      with assms Some y Inr t have c: "executeStoredProcedure_catch cfg drv pr db x s2 = Some (e, s')"
        by (auto simp: executeStoredProcedure_def split: option.splits)
      show ?thesis
        by (rule executeStoredProcedure_catch_not_whitelist [OF c])
           (use t Inl executeStoredProcedure_try_Mcp in blast)
    next
      case (Inr res)
      with assms Some y \<open>r = Inr p\<close> t show ?thesis by (simp add: executeStoredProcedure_def)
    qed
  qed
qed

lemma notAllowed_details:
  "errorType (queryNotAllowed cfg db) = PERMISSION_ERROR"
  "detail (queryNotAllowed cfg db) ''database'' = Some (DStr db)"
  "detail (queryNotAllowed cfg db) ''allowed'' = Some (DStrs (allowedList cfg))"
  "errorType (schemaNotAllowed cfg db) = PERMISSION_ERROR"
  "detail (schemaNotAllowed cfg db) ''database'' = Some (DStr db)"
  "detail (schemaNotAllowed cfg db) ''allowed'' = Some (DStrs (allowedList cfg))"
  "errorType (procedureNotAllowed cfg db pr) = PERMISSION_ERROR"
  "detail (procedureNotAllowed cfg db pr) ''database'' = Some (DStr db)"
  "detail (procedureNotAllowed cfg db pr) ''allowed'' = Some (DStrs (allowedList cfg))"
  by (simp_all add: queryNotAllowed_def schemaNotAllowed_def procedureNotAllowed_def
        new_MssqlMcpError_def detail_def orEmpty_def)

subsection \<open>The query checks and the trace of an operation\<close>

lemma find_SomeD: "find P xs = Some x \<Longrightarrow> x \<in> set xs \<and> P x"
  by (induction xs) (auto split: if_splits)

lemma validateQuery_None_iff:
  "validateQuery drv q = None \<longleftrightarrow>
     q \<noteq> [] \<and> trim q \<noteq> []
     \<and> (\<exists>parsed. astify drv q = Inr parsed \<and> (\<forall>t \<in> set (queries_of parsed). t = Some ''select''))
     \<and> \<not> blockedKeyword q"
  by (auto simp: validateQuery_def find_None_iff split: sum.splits option.splits dest: find_SomeD)

lemma extends_no_query:
  "extends s s' \<Longrightarrow> \<exists>evs. trace s' = trace s @ evs \<and> EvQuery q \<notin> set evs \<and> EvSchemaQuery \<notin> set evs"
  unfolding extends_def by (fastforce simp: list_all_iff)

lemma switchContext_trace:
  "switchContext cfg drv msg db s = (r, s') \<Longrightarrow>
     \<exists>evs. trace s' = trace s @ evs \<and> EvQuery q \<notin> set evs \<and> EvSchemaQuery \<notin> set evs
       \<and> schemaCache s' = schemaCache s \<and> isConnecting s' = isConnecting s"
  by (auto simp: switchContext_def split: if_splits option.splits)

lemma executeQuery_try_trace:
  assumes "executeQuery_try cfg drv q db s = (r, s')"
  shows "\<exists>evs. trace s' = trace s @ evs
           \<and> (EvQuery q \<in> set evs \<or> (\<exists>res. r = Inr res) \<longrightarrow> validateQuery drv q = None)"
proof -
  obtain c s1 where sw: "switchContext cfg drv ''DatabaseService: Invalid database name format: '' db s = (c, s1)"
    by (cases "switchContext cfg drv ''DatabaseService: Invalid database name format: '' db s")
  from switchContext_trace [OF sw, of q] obtain evs where
    tr: "trace s1 = trace s @ evs" and nq: "EvQuery q \<notin> set evs" by blast
  show ?thesis
    using assms sw tr nq
    by (auto simp: executeQuery_try_def split: option.splits sum.splits)
qed

lemma selfHeal_extends:
  "selfHeal cfg drv combined surfaced s = Some (e, s') \<Longrightarrow> extends s s'"
  by (auto simp: selfHeal_def split: option.splits sum.splits prod.splits
           dest!: getPool_sound(1) intro: extends_trans [OF closePool_extends])

lemma executeQuery_catch_extends:
  "executeQuery_catch cfg drv q db x s = Some (e, s') \<Longrightarrow> extends s s'"
  by (auto simp: executeQuery_catch_def Let_def simp del: fromError.simps
           split: thrown.splits foreign.splits if_splits dest: selfHeal_extends)

lemma executeQuery_reaches_query:
  assumes run: "executeQuery cfg drv q db s = Some (r, s')"
    and reached: "EvQuery q \<in> set (eventsSince s s') \<or> (\<exists>res. r = Inr res)"
  shows "validateQuery drv q = None"
proof (cases "whitelistDenies cfg (orDefault db (database cfg))")
  case True
  with run reached show ?thesis by (auto simp: executeQuery_def eventsSince_def step_def)
next
  case False
  show ?thesis
  proof (cases "getPool cfg drv 0 s")
    case None
    with run False show ?thesis by (simp add: executeQuery_def)
  next
    case (Some y)
    obtain g s1 where y: "y = (g, s1)" by (cases y)
    from extends_no_query [OF getPool_sound(1) [OF Some [unfolded y]], of q]
    obtain evs1 where t1: "trace s1 = trace s @ evs1" and n1: "EvQuery q \<notin> set evs1" by blast
    show ?thesis
    proof (cases g)
      case (Inl pe)
      with run False Some y have "r = Inl pe" "s' = s1" by (auto simp: executeQuery_def)
      with reached t1 n1 show ?thesis by (auto simp: eventsSince_def step_def)
    next
      case (Inr p)
      obtain t s2 where t: "executeQuery_try cfg drv q (orDefault db (database cfg)) s1 = (t, s2)"
        by (cases "executeQuery_try cfg drv q (orDefault db (database cfg)) s1")
      from executeQuery_try_trace [OF t] obtain evs2 where
        t2: "trace s2 = trace s1 @ evs2"
        and v: "EvQuery q \<in> set evs2 \<or> (\<exists>res. t = Inr res) \<longrightarrow> validateQuery drv q = None" by blast
      show ?thesis
      proof (cases t)
        case (Inr res)
        with v show ?thesis by simp
      next
        case (Inl x)
        with run False Some y \<open>g = Inr p\<close> t obtain e where
          c: "executeQuery_catch cfg drv q db x s2 = Some (e, s')" and r: "r = Inl e"
          by (auto simp: executeQuery_def split: option.splits)
        from extends_no_query [OF executeQuery_catch_extends [OF c], of q]
        obtain evs3 where t3: "trace s' = trace s2 @ evs3" and n3: "EvQuery q \<notin> set evs3" by blast
        from reached r t1 t2 t3 n1 n3 have "EvQuery q \<in> set evs2"
          by (auto simp: eventsSince_def step_def)
        with v show ?thesis by simp
      qed
    qed
  qed
qed

lemma executeQuery_rejected_by_validation:
  assumes "\<not> whitelistDenies cfg (orDefault db (database cfg))"
    and "getPool cfg drv 0 s = Some (Inr p, s1)"
    and "switchContext cfg drv ''DatabaseService: Invalid database name format: ''
            (orDefault db (database cfg)) s1 = (None, s2)"
    and "validateQuery drv q = Some e"
  shows "executeQuery cfg drv q db s = Some (Inl e, s2)"
  using assms by (simp add: executeQuery_def executeQuery_try_def executeQuery_catch_def)

lemma switchContext_passes:
  assumes "db = database cfg \<or> (dbNameFormat_ok db \<and> drv_batch drv (step s) (useStatement db) = None)"
  shows "switchContext cfg drv msg db s
           = (None, if db = database cfg then s else emit (EvBatch (useStatement db)) s)"
  using assms by (auto simp: switchContext_def)


lemma healthy_getPool:
  "getPool openConfig healthyDriver 0 freshService
     = Some (Inr \<lparr>pool_id = 0, connected = True\<rparr>, connectedService)"
  by (subst getPool.simps)
     (simp add: livePool_def awaitWatched_def tryInitPool_def initPool_def passwordMissing_def
        openConfig_def exampleConfig_def healthyDriver_def freshService_def connectedService_def
        step_def emit_def Let_def)

lemma open_facts:
  "allowedList openConfig = []" "database openConfig = ''master''"
  "astify healthyDriver = keywordParser"
  "drv_batch healthyDriver k t = None"
  "drv_input healthyDriver k n ty v = None"
  "drv_query healthyDriver k t = Inr (Some \<lparr>rs_rows = [],
                     rs_columns = Some [\<lparr>cm_index = 1, cm_name = ''name''\<rparr>,
                                        \<lparr>cm_index = 0, cm_name = ''id''\<rparr>]\<rparr>)"
  by (simp_all add: openConfig_def exampleConfig_def allowedList_def healthyDriver_def)

lemma parse_examples:
  "keywordParser ''DROP TABLE Foo'' = Inr (Single (Some ''drop''))"
  "keywordParser ''SELECT * FROM sp_who'' = Inr (Single (Some ''select''))"
  "keywordParser ''SELECT 1'' = Inr (Single (Some ''select''))"
  "keywordParser ''MERGE INTO T USING S ON T.Id = S.Id WHEN MATCHED THEN DELETE;'' = Inr (Single None)"
  by (simp_all add: keywordParser_def js_string_defs)

lemma text_examples:
  "trim ''DROP TABLE Foo'' \<noteq> []" "trim ''SELECT * FROM sp_who'' \<noteq> []" "trim ''SELECT 1'' \<noteq> []"
  "trim ''MERGE INTO T USING S ON T.Id = S.Id WHEN MATCHED THEN DELETE;'' \<noteq> []"
  "js_includes (toLowerCase ''SELECT * FROM sp_who'') ''sp_''"
  "\<not> blockedKeyword ''SELECT 1''"
  by (simp_all add: js_string_defs blockedKeyword_def)

lemma executeQuery_executes:
  assumes "\<not> whitelistDenies cfg (orDefault db (database cfg))"
    and "getPool cfg drv 0 s = Some (Inr p, s1)"
    and "switchContext cfg drv ''DatabaseService: Invalid database name format: ''
            (orDefault db (database cfg)) s1 = (None, s2)"
    and "validateQuery drv q = None"
    and "drv_query drv (step s2) q = Inr recordset"
  shows "executeQuery cfg drv q db s = Some (Inr (shapeRecordset recordset), emit (EvQuery q) s2)"
  using assms by (simp add: executeQuery_def executeQuery_try_def)

lemma select1_valid: "validateQuery healthyDriver ''SELECT 1'' = None"
  by (simp add: validateQuery_def open_facts parse_examples text_examples)

subsection \<open>Procedure names\<close>

lemma wordChar_not_space: "isWordChar c \<Longrightarrow> \<not> isWhiteSpace c"
  by (auto simp: isWordChar_def isWhiteSpace_def Let_def)

lemma dot_not_wordChar: "\<not> isWordChar CHR ''.''"
  by (simp add: isWordChar_def)

lemma trim_nonblank:
  assumes "\<exists>c \<in> set s. \<not> isWhiteSpace c"
  shows "trim s \<noteq> []"
proof -
  let ?t = "dropWhile isWhiteSpace s"
  from assms have t: "?t \<noteq> []" by (simp add: dropWhile_eq_Nil_conv)
  then have "\<not> isWhiteSpace (hd ?t)" by (rule hd_dropWhile)
  moreover from t have "hd ?t \<in> set (rev ?t)" by simp
  ultimately have "dropWhile isWhiteSpace (rev ?t) \<noteq> []"
    by (auto simp: dropWhile_eq_Nil_conv)
  then show ?thesis by (simp add: trim_def)
qed

lemma procedureNameFormat_ok_iff:
  "procedureNameFormat_ok pr \<longleftrightarrow>
     (pr \<noteq> [] \<and> list_all isWordChar pr)
     \<or> (\<exists>q n. pr = q @ ''.'' @ n \<and> q \<noteq> [] \<and> list_all isWordChar q \<and> n \<noteq> [] \<and> list_all isWordChar n)"
proof
  assume ok: "procedureNameFormat_ok pr"
  let ?first = "takeWhile isWordChar pr" and ?rest = "dropWhile isWordChar pr"
  have split: "pr = ?first @ ?rest" by simp
  have w: "list_all isWordChar ?first" by (simp add: list_all_iff) (meson set_takeWhileD)
  show "(pr \<noteq> [] \<and> list_all isWordChar pr)
     \<or> (\<exists>q n. pr = q @ ''.'' @ n \<and> q \<noteq> [] \<and> list_all isWordChar q \<and> n \<noteq> [] \<and> list_all isWordChar n)"
  proof (cases ?rest)
    case Nil
    with ok split w show ?thesis
      by (auto simp: procedureNameFormat_ok_def Let_def)
  next
    case (Cons c second)
    with ok have "c = CHR ''.''" "second \<noteq> []" "list_all isWordChar second" "?first \<noteq> []"
      by (auto simp: procedureNameFormat_ok_def Let_def)
    moreover from split Cons have "pr = ?first @ [c] @ second" by simp
    ultimately show ?thesis using w by blast
  qed
next
  assume "(pr \<noteq> [] \<and> list_all isWordChar pr)
     \<or> (\<exists>q n. pr = q @ ''.'' @ n \<and> q \<noteq> [] \<and> list_all isWordChar q \<and> n \<noteq> [] \<and> list_all isWordChar n)"
  then show "procedureNameFormat_ok pr"
  proof
    assume a: "pr \<noteq> [] \<and> list_all isWordChar pr"
    then have tw: "takeWhile isWordChar pr = pr" and dw: "dropWhile isWordChar pr = []"
      by (simp_all add: list_all_iff)
    show ?thesis unfolding procedureNameFormat_ok_def Let_def tw dw using a by simp
  next
    assume "\<exists>q n. pr = q @ ''.'' @ n \<and> q \<noteq> [] \<and> list_all isWordChar q \<and> n \<noteq> [] \<and> list_all isWordChar n"
    then obtain q n where pr: "pr = q @ ''.'' @ n" and q: "q \<noteq> []" "list_all isWordChar q"
      and n: "n \<noteq> []" "list_all isWordChar n" by blast
    from q(2) have tw: "takeWhile isWordChar pr = q" and dw: "dropWhile isWordChar pr = CHR ''.'' # n"
      unfolding pr by (simp_all add: list_all_iff takeWhile_append2 dropWhile_append2 dot_not_wordChar)
    show ?thesis unfolding procedureNameFormat_ok_def Let_def tw dw using q n by simp
  qed
qed

lemma procedureName_not_blank:
  assumes "procedureNameFormat_ok pr"
  shows "pr \<noteq> [] \<and> trim pr \<noteq> []"
proof -
  from assms have "takeWhile isWordChar pr \<noteq> []" by (simp add: procedureNameFormat_ok_def Let_def)
  then obtain c where c: "c \<in> set (takeWhile isWordChar pr)" by (cases "takeWhile isWordChar pr") auto
  then have "c \<in> set pr" "isWordChar c" by (auto dest: set_takeWhileD)
  then have "\<exists>c \<in> set pr. \<not> isWhiteSpace c" using wordChar_not_space by blast
  then have "trim pr \<noteq> []" by (rule trim_nonblank)
  moreover from \<open>c \<in> set pr\<close> have "pr \<noteq> []" by auto
  ultimately show ?thesis by simp
qed

lemma procedure_examples:
  "list_all isWordChar ''sp_who''" "list_all isWordChar ''dbo''" "list_all isWordChar ''xp_fixeddrives''"
  "blockedKeyword ''sp_who''" "blockedKeyword ''dbo.xp_fixeddrives''"
  by (simp_all add: isWordChar_def blockedKeyword_def js_string_defs)

lemma switchProcedureContext_passes:
  assumes "db = database cfg
           \<or> (dbNameFormat_ok db
               \<and> drv_input drv (step s) ''db_name_param'' sql_NVarChar (SqlText db) = None
               \<and> drv_batch drv (Suc (step s)) (useStatement db) = None)"
  shows "switchProcedureContext cfg drv db s
           = (None, if db = database cfg then s
                    else emit (EvBatch (useStatement db)) (emit (EvInput ''db_name_param'' sql_NVarChar) s))"
  using assms by (auto simp: switchProcedureContext_def Let_def)

lemma healthy_execute:
  "drv_execute healthyDriver k pr =
     Inr \<lparr>pr_recordset = Some \<lparr>rs_rows = [[(''Id'', SqlNum 5), (''Name'', SqlText ''Ann'')]],
                                  rs_columns = None\<rparr>,
          pr_output = [], pr_returnValue = SqlNum 0, pr_rowsAffected = [1]\<rparr>"
  by (simp add: healthyDriver_def)

subsection \<open>The schema cache\<close>

lemma getSchema_catch_extends:
  "getSchema_catch cfg drv db x s = Some (e, s') \<Longrightarrow> extends s s'"
  by (auto simp: getSchema_catch_def Let_def simp del: fromError.simps
           split: thrown.splits foreign.splits if_splits dest: selfHeal_extends)

lemma cachedSchema_None_iff:
  "cachedSchema cfg drv K s = None \<longleftrightarrow>
     schemaCache s K = None
     \<or> (\<exists>t0 d. schemaCache s K = Some (t0, d) \<and> schemaCacheTTL cfg \<le> Date_now drv (step s) - t0)"
  by (auto simp: cachedSchema_def split: option.splits)

lemma getSchema_hit:
  assumes "\<not> whitelistDenies cfg K" "schemaCache s K = Some (t0, d)"
    "Date_now drv (step s) - t0 < schemaCacheTTL cfg"
  shows "getSchema cfg drv K s = Some (Inr d, s)"
  using assms by (simp add: getSchema_def cachedSchema_def)

lemma getSchema_try_fetch:
  assumes "switchContext cfg drv ''DatabaseService: Invalid database name format for schema: '' K s1 = (None, s2)"
  shows "getSchema_try cfg drv K s1 =
     (case drv_schemaQuery drv (step s2) of
        Inl x \<Rightarrow> (Inl (Foreign x), emit EvSchemaQuery s2)
      | Inr rows \<Rightarrow>
          (Inr (assembleTables rows),
           (emit EvSchemaQuery s2)\<lparr>schemaCache :=
               (schemaCache s2)(K \<mapsto> (Date_now drv (Suc (step s2)), assembleTables rows))\<rparr>))"
  using assms by (simp add: getSchema_try_def Let_def split: sum.splits)

lemma getSchema_try_trace:
  assumes "getSchema_try cfg drv K s = (r, s')"
  shows "\<exists>evs. trace s' = trace s @ evs \<and> count_list evs EvSchemaQuery \<le> 1
           \<and> (\<forall>tables. r = Inr tables \<longrightarrow>
                  schemaCache s' = (schemaCache s)(K \<mapsto> (Date_now drv (step s'), tables)))"
proof -
  obtain c s1 where sw: "switchContext cfg drv ''DatabaseService: Invalid database name format for schema: '' K s = (c, s1)"
    by (cases "switchContext cfg drv ''DatabaseService: Invalid database name format for schema: '' K s")
  from switchContext_trace [OF sw, of "[]"] obtain evs where
    tr: "trace s1 = trace s @ evs" and nq: "EvSchemaQuery \<notin> set evs"
    and sc: "schemaCache s1 = schemaCache s" by blast
  from nq have z: "count_list evs EvSchemaQuery = 0" by (simp add: count_list_0_iff)
  show ?thesis
    using assms sw tr z sc
    by (auto simp: getSchema_try_def Let_def step_def split: option.splits sum.splits)
qed

lemma extends_no_fetch:
  "extends s s' \<Longrightarrow> \<exists>evs. trace s' = trace s @ evs \<and> count_list evs EvSchemaQuery = 0"
  using extends_no_query [of s s' "[]"] by (auto simp: count_list_0_iff)

lemma getSchema_fetches_at_most_once:
  assumes run: "getSchema cfg drv K s = Some (r, s')"
  shows "count_list (eventsSince s s') EvSchemaQuery \<le> 1"
proof (cases "whitelistDenies cfg K \<or> cachedSchema cfg drv K s \<noteq> None")
  case True
  with run have "s' = s" by (auto simp: getSchema_def split: if_splits)
  then show ?thesis by (simp add: eventsSince_def step_def)
next
  case False
  then have nd: "\<not> whitelistDenies cfg K" and miss: "cachedSchema cfg drv K s = None" by auto
  show ?thesis
  proof (cases "getPool cfg drv 0 s")
    case None
    with run nd miss show ?thesis by (simp add: getSchema_def)
  next
    case (Some y)
    obtain g s1 where y: "y = (g, s1)" by (cases y)
    from extends_no_fetch [OF getPool_sound(1) [OF Some [unfolded y]]]
    obtain evs1 where t1: "trace s1 = trace s @ evs1" and n1: "count_list evs1 EvSchemaQuery = 0" by blast
    show ?thesis
    proof (cases g)
      case (Inl pe)
      with run nd miss Some y have "s' = s1" by (auto simp: getSchema_def)
      with t1 n1 show ?thesis by (simp add: eventsSince_def step_def)
    next
      case (Inr p)
      obtain t s2 where t: "getSchema_try cfg drv K s1 = (t, s2)"
        by (cases "getSchema_try cfg drv K s1")
      from getSchema_try_trace [OF t] obtain evs2 where
        t2: "trace s2 = trace s1 @ evs2" and n2: "count_list evs2 EvSchemaQuery \<le> 1" by blast
      show ?thesis
      proof (cases t)
        case (Inr res)
        with run nd miss Some y \<open>g = Inr p\<close> t have "s' = s2" by (simp add: getSchema_def)
        with t1 t2 n1 n2 show ?thesis by (simp add: eventsSince_def step_def)
      next
        case (Inl x)
        with run nd miss Some y \<open>g = Inr p\<close> t obtain e where
          c: "getSchema_catch cfg drv K x s2 = Some (e, s')"
          by (auto simp: getSchema_def split: option.splits)
        from extends_no_fetch [OF getSchema_catch_extends [OF c]]
        obtain evs3 where t3: "trace s' = trace s2 @ evs3" and n3: "count_list evs3 EvSchemaQuery = 0" by blast
        from t1 t2 t3 n1 n2 n3 show ?thesis by (simp add: eventsSince_def step_def)
      qed
    qed
  qed
qed

lemma getSchema_miss_fetches_once:
  assumes nd: "\<not> whitelistDenies cfg K" and miss: "cachedSchema cfg drv K s = None"
    and gp: "getPool cfg drv 0 s = Some (Inr p, s1)"
    and sw: "switchContext cfg drv ''DatabaseService: Invalid database name format for schema: '' K s1 = (None, s2)"
    and run: "getSchema cfg drv K s = Some (r, s')"
  shows "count_list (eventsSince s s') EvSchemaQuery = 1"
proof -
  from extends_no_fetch [OF getPool_sound(1) [OF gp]]
  obtain evs1 where t1: "trace s1 = trace s @ evs1" and n1: "count_list evs1 EvSchemaQuery = 0" by blast
  from switchContext_trace [OF sw, of "[]"] obtain evs2 where
    t2: "trace s2 = trace s1 @ evs2" and n2: "EvSchemaQuery \<notin> set evs2" by blast
  from n2 have n2': "count_list evs2 EvSchemaQuery = 0" by (simp add: count_list_0_iff)
  show ?thesis
  proof (cases "drv_schemaQuery drv (step s2)")
    case (Inr rows)
    with run nd miss gp getSchema_try_fetch [OF sw]
    have "trace s' = trace s2 @ [EvSchemaQuery]" by (auto simp: getSchema_def)
    with t1 t2 n1 n2' show ?thesis by (simp add: eventsSince_def step_def)
  next
    case (Inl x)
    with run nd miss gp getSchema_try_fetch [OF sw] obtain e where
      c: "getSchema_catch cfg drv K (Foreign x) (emit EvSchemaQuery s2) = Some (e, s')"
      by (auto simp: getSchema_def split: option.splits)
    from extends_no_fetch [OF getSchema_catch_extends [OF c]]
    obtain evs3 where t3: "trace s' = trace s2 @ [EvSchemaQuery] @ evs3" and n3: "count_list evs3 EvSchemaQuery = 0"
      by auto
    from t1 t2 t3 n1 n2' n3 show ?thesis by (simp add: eventsSince_def step_def)
  qed
qed

lemma getSchema_miss_stores:
  assumes nd: "\<not> whitelistDenies cfg K" and miss: "cachedSchema cfg drv K s = None"
    and gp: "getPool cfg drv 0 s = Some (Inr p, s1)"
    and sw: "switchContext cfg drv ''DatabaseService: Invalid database name format for schema: '' K s1 = (None, s2)"
    and q: "drv_schemaQuery drv (step s2) = Inr rows"
  shows "getSchema cfg drv K s =
          Some (Inr (assembleTables rows),
                (emit EvSchemaQuery s2)\<lparr>schemaCache :=
                   (schemaCache s)(K \<mapsto> (Date_now drv (Suc (step s2)), assembleTables rows))\<rparr>)"
proof -
  from switchContext_trace [OF sw, of "[]"] have "schemaCache s2 = schemaCache s1" by blast
  with getPool_sound(2) [OF gp] have "schemaCache s2 = schemaCache s" by simp
  with nd miss gp q getSchema_try_fetch [OF sw] show ?thesis by (simp add: getSchema_def)
qed

lemma getSchema_success_stored:
  assumes run: "getSchema cfg drv K s = Some (Inr tables, s')" and miss: "cachedSchema cfg drv K s = None"
  shows "\<not> whitelistDenies cfg K \<and> schemaCache s' K = Some (Date_now drv (step s'), tables)"
proof -
  from run have nd: "\<not> whitelistDenies cfg K" by (auto simp: getSchema_def split: if_splits)
  from run nd miss obtain p s1 where gp: "getPool cfg drv 0 s = Some (Inr p, s1)"
    by (auto simp: getSchema_def split: option.splits sum.splits prod.splits)
  from run nd miss gp have t: "getSchema_try cfg drv K s1 = (Inr tables, s')"
    by (auto simp: getSchema_def split: option.splits sum.splits prod.splits)
  from getSchema_try_trace [OF t] have "schemaCache s' = (schemaCache s1)(K \<mapsto> (Date_now drv (step s'), tables))"
    by blast
  with nd show ?thesis by simp
qed


lemma healthy_schema:
  "drv_schemaQuery healthyDriver k = Inr
         [\<lparr>TABLE_SCHEMA = ''dbo'', TABLE_NAME = ''Users'', COLUMN_NAME = ''Id'', DATA_TYPE = ''int'',
           CHARACTER_MAXIMUM_LENGTH = None, NUMERIC_PRECISION = Some 10, NUMERIC_SCALE = Some 0,
           IS_NULLABLE = ''NO'', IS_PRIMARY_KEY = 1, ORDINAL_POSITION = 1\<rparr>,
          \<lparr>TABLE_SCHEMA = ''dbo'', TABLE_NAME = ''Users'', COLUMN_NAME = ''Name'', DATA_TYPE = ''nvarchar'',
           CHARACTER_MAXIMUM_LENGTH = Some 50, NUMERIC_PRECISION = None, NUMERIC_SCALE = None,
           IS_NULLABLE = ''YES'', IS_PRIMARY_KEY = 0, ORDINAL_POSITION = 2\<rparr>]"
  "Date_now healthyDriver k = 1000 * int k"
  "schemaCacheTTL openConfig = 300000"
  by (simp_all add: healthyDriver_def openConfig_def exampleConfig_def)

lemma assemble_example:
  "assembleTables
         [\<lparr>TABLE_SCHEMA = ''dbo'', TABLE_NAME = ''Users'', COLUMN_NAME = ''Id'', DATA_TYPE = ''int'',
           CHARACTER_MAXIMUM_LENGTH = None, NUMERIC_PRECISION = Some 10, NUMERIC_SCALE = Some 0,
           IS_NULLABLE = ''NO'', IS_PRIMARY_KEY = 1, ORDINAL_POSITION = 1\<rparr>,
          \<lparr>TABLE_SCHEMA = ''dbo'', TABLE_NAME = ''Users'', COLUMN_NAME = ''Name'', DATA_TYPE = ''nvarchar'',
           CHARACTER_MAXIMUM_LENGTH = Some 50, NUMERIC_PRECISION = None, NUMERIC_SCALE = None,
           IS_NULLABLE = ''YES'', IS_PRIMARY_KEY = 0, ORDINAL_POSITION = 2\<rparr>] = usersTable"
  by (simp add: assembleTables_def addRow_def column_of_def columnType_def string_of_int_def
        usersTable_def Let_def char_of_def bit_0)


lemma fresh_cache: "schemaCache freshService k = None"
  by (simp add: freshService_def)

lemma stale_facts:
  "schemaCache staleService ''master'' = Some (- 300000, [])" "step staleService = 1"
  "step connectedService = 1" "step cachedService = 2"
  by (simp_all add: staleService_def connectedService_def cachedService_def step_def)

lemma stale_getPool:
  "getPool openConfig healthyDriver 0 staleService = Some (Inr \<lparr>pool_id = 0, connected = True\<rparr>, staleService)"
  by (subst getPool.simps) (simp add: livePool_def staleService_def connectedService_def)

subsection \<open>Rebuilding the pool after a connection failure\<close>

lemma getPool_idle:
  assumes "getPool cfg drv a s = Some (r, s')" "\<not> isConnecting s"
  shows "\<not> isConnecting s'"
  using getPool_returns [OF assms(2), of cfg drv a] assms(1) by auto

lemma selfHeal_returns:
  assumes "\<not> isConnecting s"
  shows "\<exists>g s'. getPool cfg drv 0 (closePool s) = Some (g, s')
           \<and> selfHeal cfg drv combined surfaced s
               = Some (case g of Inr pl \<Rightarrow> surfaced | Inl re \<Rightarrow> combined re, s')"
proof -
  from assms have "\<not> isConnecting (closePool s)" by simp
  from getPool_returns [OF this, of cfg drv 0]
  obtain g s' where "getPool cfg drv 0 (closePool s) = Some (g, s')" by blast
  then show ?thesis by (cases g) (auto simp: selfHeal_def)
qed

lemma executeQuery_try_isConnecting:
  "executeQuery_try cfg drv q db s = (r, s') \<Longrightarrow> isConnecting s' = isConnecting s"
  by (auto simp: executeQuery_try_def switchContext_def split: prod.splits option.splits sum.splits if_splits)

lemma getSchema_try_isConnecting:
  "getSchema_try cfg drv db s = (r, s') \<Longrightarrow> isConnecting s' = isConnecting s"
  by (auto simp: getSchema_try_def switchContext_def Let_def split: prod.splits option.splits sum.splits if_splits)

lemma bindParameters_isConnecting:
  "bindParameters drv ps s = (r, s') \<Longrightarrow> isConnecting s' = isConnecting s"
  by (induction ps arbitrary: s) (auto simp: Let_def split: if_splits option.splits)

lemma executeStoredProcedure_try_isConnecting:
  "executeStoredProcedure_try cfg drv pr ps db s = (r, s') \<Longrightarrow> isConnecting s' = isConnecting s"
  by (auto simp: executeStoredProcedure_try_def switchProcedureContext_def Let_def
           split: prod.splits option.splits sum.splits if_splits dest: bindParameters_isConnecting)

lemma wrapped_native:
  "errorType (fromError (Foreign (JsErr error)) t ad) = t"
  "message (fromError (Foreign (JsErr error)) t ad) = js_message error"
  "originalError (fromError (Foreign (JsErr error)) t ad) = Some error"
  by (simp_all add: new_MssqlMcpError_def)

lemma reconnectFailed_facts:
  "errorType (queryReconnectFailed cfg q db error re) = CONNECTION_ERROR"
  "originalError (queryReconnectFailed cfg q db error re) = Some (asError re)"
  "detail (queryReconnectFailed cfg q db error re) ''originalErrorMsg'' = Some (DStr (js_message error))"
  "detail (queryReconnectFailed cfg q db error re) ''details''
     = Some (DStr (''Reconnect attempt failed after initial failure of executeQuery. Original error: ''
                   @ js_message error @ ''. Reconnect error: '' @ message re))"
  "errorType (procedureReconnectFailed cfg pr db error re) = CONNECTION_ERROR"
  "originalError (procedureReconnectFailed cfg pr db error re) = Some (asError re)"
  "detail (procedureReconnectFailed cfg pr db error re) ''originalErrorMsg'' = Some (DStr (js_message error))"
  "detail (procedureReconnectFailed cfg pr db error re) ''details''
     = Some (DStr (''Reconnect attempt failed after initial failure of executeStoredProcedure. Original error: ''
                   @ js_message error @ ''. Reconnect error: '' @ message re))"
  "errorType (schemaReconnectFailed K error re) = CONNECTION_ERROR"
  "originalError (schemaReconnectFailed K error re) = Some (asError re)"
  "detail (schemaReconnectFailed K error re) ''originalErrorMsg'' = Some (DStr (js_message error))"
  "detail (schemaReconnectFailed K error re) ''details''
     = Some (DStr (''Reconnect attempt failed after initial failure of getSchema. Original error: ''
                   @ js_message error @ ''. Reconnect error: '' @ message re))"
  by (simp_all add: queryReconnectFailed_def procedureReconnectFailed_def schemaReconnectFailed_def
        new_MssqlMcpError_def detail_def orEmpty_def)

lemma executeQuery_heals:
  assumes idle: "\<not> isConnecting s"
    and nd: "\<not> whitelistDenies cfg (orDefault db (database cfg))"
    and gp: "getPool cfg drv 0 s = Some (Inr p, s1)"
    and tr: "executeQuery_try cfg drv q (orDefault db (database cfg)) s1 = (Inl (Foreign (JsErr error)), s2)"
    and ty: "queryErrorType error = CONNECTION_ERROR"
  shows "\<exists>g s3. getPool cfg drv 0 (closePool s2) = Some (g, s3)
           \<and> executeQuery cfg drv q db s
              = Some (Inl (case g of
                             Inr pl \<Rightarrow> fromError (Foreign (JsErr error)) CONNECTION_ERROR
                                         (Some [(''query'', DStr (truncated q))])
                           | Inl re \<Rightarrow> queryReconnectFailed cfg q db error re), s3)"
proof -
  have "\<not> isConnecting s2"
    using getPool_idle [OF gp idle] executeQuery_try_isConnecting [OF tr] by simp
  from selfHeal_returns [OF this, of cfg drv "queryReconnectFailed cfg q db error"
         "fromError (Foreign (JsErr error)) CONNECTION_ERROR (Some [(''query'', DStr (truncated q))])"]
  obtain g s3 where g: "getPool cfg drv 0 (closePool s2) = Some (g, s3)"
    and h: "selfHeal cfg drv (queryReconnectFailed cfg q db error)
             (fromError (Foreign (JsErr error)) CONNECTION_ERROR (Some [(''query'', DStr (truncated q))])) s2
            = Some (case g of Inr pl \<Rightarrow> fromError (Foreign (JsErr error)) CONNECTION_ERROR
                                         (Some [(''query'', DStr (truncated q))])
                           | Inl re \<Rightarrow> queryReconnectFailed cfg q db error re, s3)"
    by blast
  have "executeQuery cfg drv q db s
              = Some (Inl (case g of
                             Inr pl \<Rightarrow> fromError (Foreign (JsErr error)) CONNECTION_ERROR
                                         (Some [(''query'', DStr (truncated q))])
                           | Inl re \<Rightarrow> queryReconnectFailed cfg q db error re), s3)"
    using nd gp tr ty h
    by (simp add: executeQuery_def executeQuery_catch_def Let_def del: fromError.simps)
  with g show ?thesis by blast
qed

lemma executeStoredProcedure_heals:
  assumes idle: "\<not> isConnecting s"
    and nd: "\<not> whitelistDenies cfg (orDefault db (database cfg))"
    and gp: "getPool cfg drv 0 s = Some (Inr p, s1)"
    and tr: "executeStoredProcedure_try cfg drv pr ps (orDefault db (database cfg)) s1 = (Inl (Foreign (JsErr error)), s2)"
    and ty: "procedureErrorType error = CONNECTION_ERROR"
  shows "\<exists>g s3. getPool cfg drv 0 (closePool s2) = Some (g, s3)
           \<and> executeStoredProcedure cfg drv pr ps db s
              = Some (Inl (case g of
                             Inr pl \<Rightarrow> fromError (Foreign (JsErr error)) CONNECTION_ERROR
                                         (Some [(''procedure'', DStr pr)])
                           | Inl re \<Rightarrow> procedureReconnectFailed cfg pr db error re), s3)"
proof -
  have "\<not> isConnecting s2"
    using getPool_idle [OF gp idle] executeStoredProcedure_try_isConnecting [OF tr] by simp
  from selfHeal_returns [OF this, of cfg drv "procedureReconnectFailed cfg pr db error"
         "fromError (Foreign (JsErr error)) CONNECTION_ERROR (Some [(''procedure'', DStr pr)])"]
  obtain g s3 where g: "getPool cfg drv 0 (closePool s2) = Some (g, s3)"
    and h: "selfHeal cfg drv (procedureReconnectFailed cfg pr db error)
             (fromError (Foreign (JsErr error)) CONNECTION_ERROR (Some [(''procedure'', DStr pr)])) s2
            = Some (case g of Inr pl \<Rightarrow> fromError (Foreign (JsErr error)) CONNECTION_ERROR
                                         (Some [(''procedure'', DStr pr)])
                           | Inl re \<Rightarrow> procedureReconnectFailed cfg pr db error re, s3)"
    by blast
  have "executeStoredProcedure cfg drv pr ps db s
              = Some (Inl (case g of
                             Inr pl \<Rightarrow> fromError (Foreign (JsErr error)) CONNECTION_ERROR
                                         (Some [(''procedure'', DStr pr)])
                           | Inl re \<Rightarrow> procedureReconnectFailed cfg pr db error re), s3)"
    using nd gp tr ty h
    by (simp add: executeStoredProcedure_def executeStoredProcedure_catch_def Let_def del: fromError.simps)
  with g show ?thesis by blast
qed

lemma getSchema_heals:
  assumes idle: "\<not> isConnecting s"
    and nd: "\<not> whitelistDenies cfg K" and miss: "cachedSchema cfg drv K s = None"
    and gp: "getPool cfg drv 0 s = Some (Inr p, s1)"
    and tr: "getSchema_try cfg drv K s1 = (Inl (Foreign (JsErr error)), s2)"
    and ty: "schemaErrorType error = CONNECTION_ERROR"
  shows "\<exists>g s3. getPool cfg drv 0 (closePool s2) = Some (g, s3)
           \<and> getSchema cfg drv K s
              = Some (Inl (case g of
                             Inr pl \<Rightarrow> fromError (Foreign (JsErr error)) CONNECTION_ERROR
                                         (Some [(''database'', DStr K)])
                           | Inl re \<Rightarrow> schemaReconnectFailed K error re), s3)"
proof -
  have "\<not> isConnecting s2"
    using getPool_idle [OF gp idle] getSchema_try_isConnecting [OF tr] by simp
  from selfHeal_returns [OF this, of cfg drv "schemaReconnectFailed K error"
         "fromError (Foreign (JsErr error)) CONNECTION_ERROR (Some [(''database'', DStr K)])"]
  obtain g s3 where g: "getPool cfg drv 0 (closePool s2) = Some (g, s3)"
    and h: "selfHeal cfg drv (schemaReconnectFailed K error)
             (fromError (Foreign (JsErr error)) CONNECTION_ERROR (Some [(''database'', DStr K)])) s2
            = Some (case g of Inr pl \<Rightarrow> fromError (Foreign (JsErr error)) CONNECTION_ERROR
                                         (Some [(''database'', DStr K)])
                           | Inl re \<Rightarrow> schemaReconnectFailed K error re, s3)"
    by blast
  have "getSchema cfg drv K s
              = Some (Inl (case g of
                             Inr pl \<Rightarrow> fromError (Foreign (JsErr error)) CONNECTION_ERROR
                                         (Some [(''database'', DStr K)])
                           | Inl re \<Rightarrow> schemaReconnectFailed K error re), s3)"
    using nd miss gp tr ty h
    by (simp add: getSchema_def getSchema_catch_def Let_def del: fromError.simps)
  with g show ?thesis by blast
qed

lemma first_getPool:
  assumes "drv_connect drv 0 = Connected" "\<not> passwordMissing cfg"
  shows "getPool cfg drv 0 freshService = Some (Inr \<lparr>pool_id = 0, connected = True\<rparr>, connectedService)"
  using assms
  by (subst getPool.simps)
     (simp add: livePool_def awaitWatched_def tryInitPool_def initPool_def
        freshService_def connectedService_def step_def emit_def Let_def)

lemma flaky_facts:
  "drv_connect (failingQueries err healthyDriver) k = Connected"
  "drv_query (failingQueries err healthyDriver) k t = Inl (JsErr err)"
  "drv_schemaQuery (failingQueries err healthyDriver) k = Inl (JsErr err)"
  "drv_execute (failingQueries err healthyDriver) k pr = Inl (JsErr err)"
  "astify (failingQueries err healthyDriver) = keywordParser"
  "drv_connect (connectOnce (failingQueries err healthyDriver)) k
     = (if k = 0 then Connected else ConnectFailed refused)"
  "drv_query (connectOnce (failingQueries err healthyDriver)) k t = Inl (JsErr err)"
  "astify (connectOnce (failingQueries err healthyDriver)) = keywordParser"
  "\<not> passwordMissing openConfig" "\<not> passwordMissing (openConfig\<lparr>maxRetries := 1\<rparr>)"
  "allowedList (openConfig\<lparr>maxRetries := 1\<rparr>) = []" "database (openConfig\<lparr>maxRetries := 1\<rparr>) = ''master''"
  by (simp_all add: failingQueries_def connectOnce_def healthyDriver_def openConfig_def
        exampleConfig_def passwordMissing_def allowedList_def)

lemma select1_try_fails:
  assumes "drv_query drv (step connectedService) ''SELECT 1'' = Inl (JsErr err)"
    "astify drv = keywordParser" "database cfg = ''master''"
  shows "executeQuery_try cfg drv ''SELECT 1'' ''master'' connectedService
           = (Inl (Foreign (JsErr err)), afterFailure (EvQuery ''SELECT 1''))"
  using assms
  by (simp add: executeQuery_try_def switchContext_def validateQuery_def parse_examples text_examples
        afterFailure_def)

lemma sp_who_try_fails:
  assumes "drv_execute drv (step connectedService) ''sp_who'' = Inl (JsErr err)"
    "database cfg = ''master''"
  shows "executeStoredProcedure_try cfg drv ''sp_who'' [] ''master'' connectedService
           = (Inl (Foreign (JsErr err)), afterFailure (EvExecute ''sp_who''))"
proof -
  have ok: "procedureNameFormat_ok ''sp_who''"
    using procedure_examples(1) by (simp add: procedureNameFormat_ok_iff)
  from procedureName_not_blank [OF ok] have "trim ''sp_who'' \<noteq> []" by simp
  with ok assms show ?thesis
    by (simp add: executeStoredProcedure_try_def switchProcedureContext_def afterFailure_def)
qed

lemma master_schema_try_fails:
  assumes "drv_schemaQuery drv (step connectedService) = Inl (JsErr err)" "database cfg = ''master''"
  shows "getSchema_try cfg drv ''master'' connectedService
           = (Inl (Foreign (JsErr err)), afterFailure EvSchemaQuery)"
  using assms by (simp add: getSchema_try_def switchContext_def afterFailure_def)

lemma error_kinds:
  "queryErrorType connectionLost = CONNECTION_ERROR"
  "queryErrorType connectionTimeoutError = CONNECTION_TIMEOUT"
  "connectionIndicative connectionTimeoutError"
  "schemaErrorType connectionTimeoutError = CONNECTION_ERROR"
  "procedureErrorType connectionLost = CONNECTION_ERROR"
  "schemaErrorType connectionLost = CONNECTION_ERROR"
  by (simp_all add: queryErrorType_def schemaErrorType_def procedureErrorType_def
        connectionIndicative_def connectionLost_def connectionTimeoutError_def js_string_defs)

lemma afterFailure_closed:
  "closePool (afterFailure ev) =
     \<lparr>pool = None, connectionPromise = None, isConnecting = False, abortController = None,
      schemaCache = Map.empty, connectionRetries = 0,
      trace = [EvConnect 0, ev, EvPoolClose 0]\<rparr>"
  by (simp add: afterFailure_def closePool_def connectedService_def emit_def)

lemma rebuild_succeeds:
  assumes "drv_connect drv 3 = Connected" "\<not> passwordMissing cfg"
  shows "getPool cfg drv 0 (closePool (afterFailure ev))
     = Some (Inr \<lparr>pool_id = 3, connected = True\<rparr>,
             \<lparr>pool = Some \<lparr>pool_id = 3, connected = True\<rparr>, connectionPromise = Some (Resolved 3),
              isConnecting = False, abortController = Some False, schemaCache = Map.empty,
              connectionRetries = 0,
              trace = [EvConnect 0, ev, EvPoolClose 0, EvConnect 3]\<rparr>)"
  unfolding afterFailure_closed using assms
  by (subst getPool.simps)
     (simp add: livePool_def awaitWatched_def tryInitPool_def initPool_def step_def emit_def Let_def
        numeral_3_eq_3)

lemma rebuild_fails:
  assumes "drv_connect drv 3 = ConnectFailed refused" "\<not> passwordMissing cfg" "maxRetries cfg = 1"
  shows "getPool cfg drv 0 (closePool (afterFailure ev))
     = Some (Inl (retriesExhausted cfg (connectFailure cfg (ConnectFailed refused))),
             \<lparr>pool = None, connectionPromise = None,
              isConnecting = False, abortController = None, schemaCache = Map.empty,
              connectionRetries = 0,
              trace = [EvConnect 0, ev, EvPoolClose 0, EvConnect 3,
                       EvPoolClose 3, EvPoolClose 3]\<rparr>)"
  unfolding afterFailure_closed using assms
  by (subst getPool.simps)
     (simp add: livePool_def awaitWatched_def tryInitPool_def initPool_def step_def emit_def Let_def
        numeral_3_eq_3 closePool_def)

lemma rebuild_error_message:
  "maxRetries cfg = 1 \<Longrightarrow>
   message (retriesExhausted cfg (connectFailure cfg (ConnectFailed refused)))
     = ''DatabaseService: Failed to connect to database after 1 attempts. Last error: Failed to connect to localhost:1433 - Could not connect (sequence)''"
  by (simp add: retriesExhausted_def connectFailure_def refused_def new_MssqlMcpError_def
        string_of_int_def char_of_def bit_0)

text \<open>
  A rebuild that starts without a pool, without a promise and with the lock free: it
  returns; its first call, when a password is configured, is a connect; a pool it
  returns is one it connected, and is installed; and when it fails no pool is left.
\<close>

lemma tryInitPool_cleared:
  assumes "pool s = None" "connectionPromise s = None"
    and "tryInitPool cfg drv (s\<lparr>isConnecting := True\<rparr>) = (t, s2)"
  shows "\<exists>evs. trace s2 = trace s @ evs"
    and "t = Inr pl \<Longrightarrow> pool s2 = Some pl \<and> connected pl \<and> pool_id pl = step s
                        \<and> trace s2 = trace s @ [EvConnect (pool_id pl)]"
    and "t = Inl x \<Longrightarrow> pool s2 = None \<and> connectionPromise s2 = None"
    and "\<not> passwordMissing cfg \<Longrightarrow> \<exists>rest. trace s2 = trace s @ EvConnect (step s) # rest"
  using assms
  by (auto simp: tryInitPool_def initPool_def livePool_def Let_def emit_def step_def
           split: connect_outcome.splits if_splits option.splits)

lemma getPool_rebuild:
  assumes "pool s = None" "connectionPromise s = None" "\<not> isConnecting s"
  shows "\<exists>g s3 evs. getPool cfg drv a s = Some (g, s3) \<and> trace s3 = trace s @ evs
           \<and> (\<forall>pl. g = Inr pl \<longrightarrow> pool s3 = Some pl \<and> connected pl \<and> EvConnect (pool_id pl) \<in> set evs)
           \<and> (\<forall>re. g = Inl re \<longrightarrow> pool s3 = None)
           \<and> (\<not> passwordMissing cfg \<longrightarrow> (\<exists>rest. evs = EvConnect (step s) # rest))"
  using assms
proof (induction "nat (maxRetries cfg - 1 - int a)" arbitrary: a s)
  case 0
  obtain t s2 where ti: "tryInitPool cfg drv (s\<lparr>isConnecting := True\<rparr>) = (t, s2)"
    by (cases "tryInitPool cfg drv (s\<lparr>isConnecting := True\<rparr>)")
  from 0 have last: "\<not> int a < maxRetries cfg - 1" by simp
  from 0 have lp: "livePool s = None" by (simp add: livePool_def)
  note facts = tryInitPool_cleared [OF 0(2) 0(3) ti]
  show ?case
  proof (cases t)
    case (Inr pl)
    with lp 0(4) ti facts(2) [OF Inr] show ?thesis
      by (subst getPool.simps) (auto simp: awaitWatched_idle step_def)
  next
    case (Inl x)
    from facts(1) obtain evs where evs: "trace s2 = trace s @ evs" by blast
    from facts(3) [OF Inl] have p2: "pool s2 = None" by simp
    have pw: "\<not> passwordMissing cfg \<longrightarrow> (\<exists>rest. evs = EvConnect (step s) # rest)"
      using facts(4) evs by auto
    show ?thesis
      using lp 0(4) ti Inl last evs p2 pw
      by (subst getPool.simps) (auto simp: awaitWatched_idle Let_def)
  qed
next
  case (Suc n)
  obtain t s2 where ti: "tryInitPool cfg drv (s\<lparr>isConnecting := True\<rparr>) = (t, s2)"
    by (cases "tryInitPool cfg drv (s\<lparr>isConnecting := True\<rparr>)")
  from Suc(2) have more: "int a < maxRetries cfg - 1" and n: "n = nat (maxRetries cfg - 1 - int (a + 1))" by auto
  from Suc have lp: "livePool s = None" by (simp add: livePool_def)
  note facts = tryInitPool_cleared [OF Suc(3) Suc(4) ti]
  show ?case
  proof (cases t)
    case (Inr pl)
    with lp Suc(5) ti facts(2) [OF Inr] show ?thesis
      by (subst getPool.simps) (auto simp: awaitWatched_idle step_def)
  next
    case (Inl x)
    let ?s' = "emit (EvSleep (retryDelay cfg a (Math_random drv (step (s2\<lparr>isConnecting := False\<rparr>)))))
                    (s2\<lparr>isConnecting := False\<rparr>)"
    from facts(1) obtain evs where evs: "trace s2 = trace s @ evs" by blast
    from facts(3) [OF Inl] have c: "pool ?s' = None" "connectionPromise ?s' = None" "\<not> isConnecting ?s'"
      by (simp_all add: emit_def)
    from Suc(1) [OF n c] obtain g s3 evs' where
      rec: "getPool cfg drv (a + 1) ?s' = Some (g, s3)" and tr: "trace s3 = trace ?s' @ evs'"
      and ok: "\<forall>pl. g = Inr pl \<longrightarrow> pool s3 = Some pl \<and> connected pl \<and> EvConnect (pool_id pl) \<in> set evs'"
      and bad: "\<forall>re. g = Inl re \<longrightarrow> pool s3 = None"
      by blast
    have run: "getPool cfg drv a s = Some (g, s3)"
      using lp Suc(5) ti Inl more rec
      by (subst getPool.simps) (simp add: awaitWatched_idle Let_def)
    let ?all = "evs @ EvSleep (retryDelay cfg a (Math_random drv (step (s2\<lparr>isConnecting := False\<rparr>)))) # evs'"
    have t3: "trace s3 = trace s @ ?all" using tr evs by (simp add: emit_def)
    have pw: "\<not> passwordMissing cfg \<longrightarrow> (\<exists>rest. ?all = EvConnect (step s) # rest)"
      using facts(4) evs by auto
    from ok have ok': "\<forall>pl. g = Inr pl \<longrightarrow> pool s3 = Some pl \<and> connected pl \<and> EvConnect (pool_id pl) \<in> set ?all"
      by auto
    from run t3 ok' bad pw show ?thesis by blast
  qed
qed

text \<open>The \<open>try\<close> blocks do not touch the pool.\<close>

lemma executeQuery_try_pool:
  "executeQuery_try cfg drv q db s = (r, s') \<Longrightarrow> pool s' = pool s"
  by (auto simp: executeQuery_try_def switchContext_def emit_def
           split: prod.splits option.splits sum.splits if_splits)

lemma getSchema_try_pool:
  "getSchema_try cfg drv db s = (r, s') \<Longrightarrow> pool s' = pool s"
  by (auto simp: getSchema_try_def switchContext_def Let_def emit_def
           split: prod.splits option.splits sum.splits if_splits)

lemma bindParameters_pool:
  "bindParameters drv ps s = (r, s') \<Longrightarrow> pool s' = pool s"
  by (induction ps arbitrary: s) (auto simp: Let_def emit_def split: if_splits option.splits)

lemma executeStoredProcedure_try_pool:
  "executeStoredProcedure_try cfg drv pr ps db s = (r, s') \<Longrightarrow> pool s' = pool s"
  by (auto simp: executeStoredProcedure_try_def switchProcedureContext_def Let_def emit_def
           split: prod.splits option.splits sum.splits if_splits dest: bindParameters_pool)

lemma getPool_pool:
  "getPool cfg drv a s = Some (Inr p, s1) \<Longrightarrow> pool s1 = Some p"
  by (drule getPool_sound(4) [OF _ refl]) (auto simp: livePool_def split: option.splits if_splits)

text \<open>
  What closing the pool \<open>p\<close> and rebuilding does to the state \<open>s2\<close> in which an operation
  failed: the pool is dropped and closed, and then \<open>getPool\<close> runs as above.
\<close>

lemma rebuild_facts:
  assumes idle: "\<not> isConnecting s2" and pl: "pool s2 = Some p"
    and g: "getPool cfg drv 0 (closePool s2) = Some (g, s3)"
  shows "pool (closePool s2) = None"
    and "\<exists>rest. eventsSince s2 s3 = EvPoolClose (pool_id p) # rest
           \<and> (\<not> passwordMissing cfg \<longrightarrow> (\<exists>rest'. rest = EvConnect (Suc (step s2)) # rest'))
           \<and> (\<forall>pl. g = Inr pl \<longrightarrow> EvConnect (pool_id pl) \<in> set rest)"
    and "\<forall>pl. g = Inr pl \<longrightarrow> pool s3 = Some pl \<and> connected pl"
    and "\<forall>re. g = Inl re \<longrightarrow> pool s3 = None"
proof -
  from pl have c: "pool (closePool s2) = None" "connectionPromise (closePool s2) = None"
    and tc: "trace (closePool s2) = trace s2 @ [EvPoolClose (pool_id p)]"
    by (auto simp: closePool_def emit_def split: option.splits)
  from idle have i: "\<not> isConnecting (closePool s2)" by simp
  from getPool_rebuild [OF c i, of cfg drv 0] g obtain evs where
    tr: "trace s3 = trace (closePool s2) @ evs"
    and ok: "\<forall>pl. g = Inr pl \<longrightarrow> pool s3 = Some pl \<and> connected pl \<and> EvConnect (pool_id pl) \<in> set evs"
    and bad: "\<forall>re. g = Inl re \<longrightarrow> pool s3 = None"
    and pw: "\<not> passwordMissing cfg \<longrightarrow> (\<exists>rest. evs = EvConnect (step (closePool s2)) # rest)"
    by auto
  from tc have st: "step (closePool s2) = Suc (step s2)" by (simp add: step_def)
  from tr tc have ev: "eventsSince s2 s3 = EvPoolClose (pool_id p) # evs"
    by (simp add: eventsSince_def step_def)
  show "pool (closePool s2) = None" by (rule c(1))
  show "\<exists>rest. eventsSince s2 s3 = EvPoolClose (pool_id p) # rest
           \<and> (\<not> passwordMissing cfg \<longrightarrow> (\<exists>rest'. rest = EvConnect (Suc (step s2)) # rest'))
           \<and> (\<forall>pl. g = Inr pl \<longrightarrow> EvConnect (pool_id pl) \<in> set rest)"
    using ev pw ok unfolding st by blast
  show "\<forall>pl. g = Inr pl \<longrightarrow> pool s3 = Some pl \<and> connected pl" using ok by blast
  show "\<forall>re. g = Inl re \<longrightarrow> pool s3 = None" by (rule bad)
qed

section \<open>Claims\<close>

subsection \<open>C8: the whitelist read from the environment\<close>

text \<open>
  C8 states that the whitelist resolved from \<open>SQL_ALLOWED_DATABASES\<close> holds only trimmed,
  non-empty strings. \<open>config.js\<close> splits the value at commas and drops the empty pieces,
  but does not trim them, although the repository's document on whitelisting
  (\<open>docs/DATABASE_WHITELISTING.md\<close>) shows the resolution as
  \<open>.split(',').map(db => db.trim())\<close> and relies on it (\<open>The .trim() ensures no
  leading/trailing spaces cause issues\<close>). For the value \<open>Db1, Db2\<close> the whitelist holds the
  entry \<open> Db2\<close>, with its leading space, and not \<open>Db2\<close>: a query against \<open>Db2\<close> is refused
  with a \<open>PermissionError\<close> before any connection is made.
\<close>

theorem allowedDatabases_untrimmed_entry:
  "allowedDatabases_of_env (Some ''Db1, Db2'') = [''Db1'', '' Db2'']
   \<and> \<not> trimmed '' Db2''
   \<and> whitelistDenies (configFromEnv (Some ''Db1, Db2'')) ''Db2''
   \<and> map_option (\<lambda>(r, s'). (map_sum (\<lambda>e. (errorType e, detail e ''allowed'')) (\<lambda>res. ()) r,
                              eventsSince freshService s'))
        (executeQuery (configFromEnv (Some ''Db1, Db2'')) healthyDriver ''SELECT 1'' (Some ''Db2'')
           freshService)
      = Some (Inl (PERMISSION_ERROR, Some (DStrs [''Db1'', '' Db2''])), [])"
proof -
  have w: "allowedDatabases_of_env (Some ''Db1, Db2'') = [''Db1'', '' Db2'']"
    by (simp add: allowedDatabases_of_env_def)
  have t: "\<not> trimmed '' Db2''" by (simp add: trimmed_def trim_def isWhiteSpace_def)
  have al: "allowedList (configFromEnv (Some ''Db1, Db2'')) = [''Db1'', '' Db2'']"
    by (simp add: allowedList_def configFromEnv_def w)
  have d: "whitelistDenies (configFromEnv (Some ''Db1, Db2'')) ''Db2''"
    by (simp add: whitelistDenies_iff al)
  have "executeQuery (configFromEnv (Some ''Db1, Db2'')) healthyDriver ''SELECT 1'' (Some ''Db2'') freshService
          = Some (Inl (queryNotAllowed (configFromEnv (Some ''Db1, Db2'')) ''Db2''), freshService)"
    using d by (simp add: executeQuery_def orDefault_def Let_def)
  then have r: "map_option (\<lambda>(r, s'). (map_sum (\<lambda>e. (errorType e, detail e ''allowed'')) (\<lambda>res. ()) r,
                              eventsSince freshService s'))
        (executeQuery (configFromEnv (Some ''Db1, Db2'')) healthyDriver ''SELECT 1'' (Some ''Db2'')
           freshService)
      = Some (Inl (PERMISSION_ERROR, Some (DStrs [''Db1'', '' Db2''])), [])"
    by (simp add: queryNotAllowed_def new_MssqlMcpError_def detail_def orEmpty_def al
          eventsSince_def step_def)
  from w t d r show ?thesis by (intro conjI)
qed

text \<open>
  The second half of C8, that the whitelist is empty exactly when the variable is unset
  or empty, meets a value made of commas only: it is set and not empty, and every piece
  of it is dropped.
\<close>

lemma allowedDatabases_commas_only:
  "allowedDatabases_of_env (Some '','') = [] \<and> allowedDatabases_of_env None = []"
  by (simp add: allowedDatabases_of_env_def)

subsection \<open>C9: unknown parameter types and the aliases\<close>

text \<open>
  C9: when the declared type name, lowercased and trimmed, is not a key of the lookup
  table, \<open>mapStringToSqlType\<close> returns \<open>sql.NVarChar\<close>; it is a total function with no
  error result. Names that normalise to \<open>string\<close>, \<open>number\<close> and \<open>boolean\<close> give
  \<open>NVarChar\<close>, \<open>Int\<close> and \<open>Bit\<close>, whatever their case.
\<close>

theorem mapStringToSqlType_default_and_aliases:
  "(map_of sqlDataTypeMap (trim (toLowerCase typeName)) = None
      \<longrightarrow> mapStringToSqlType typeName = sql_NVarChar)
   \<and> (trim (toLowerCase typeName) = ''string'' \<longrightarrow> mapStringToSqlType typeName = sql_NVarChar)
   \<and> (trim (toLowerCase typeName) = ''number'' \<longrightarrow> mapStringToSqlType typeName = sql_Int)
   \<and> (trim (toLowerCase typeName) = ''boolean'' \<longrightarrow> mapStringToSqlType typeName = sql_Bit)"
  by (simp add: mapStringToSqlType_def sqlDataTypeMap_def)

text \<open>At \<open>varchar2\<close> (not in the table), \<open> STRING \<close>, \<open>Number\<close> and \<open>BOOLEAN\<close>.\<close>

theorem mapStringToSqlType_witness:
  "map_of sqlDataTypeMap (trim (toLowerCase ''varchar2'')) = None
   \<and> mapStringToSqlType ''varchar2'' = sql_NVarChar
   \<and> trim (toLowerCase '' STRING '') = ''string'' \<and> mapStringToSqlType '' STRING '' = sql_NVarChar
   \<and> trim (toLowerCase ''Number'') = ''number'' \<and> mapStringToSqlType ''Number'' = sql_Int
   \<and> trim (toLowerCase ''BOOLEAN'') = ''boolean'' \<and> mapStringToSqlType ''BOOLEAN'' = sql_Bit"
proof -
  have a: "map_of sqlDataTypeMap (trim (toLowerCase ''varchar2'')) = None"
    by (simp add: js_string_defs sqlDataTypeMap_def)
  have b: "trim (toLowerCase '' STRING '') = ''string''" by (simp add: js_string_defs)
  have c: "trim (toLowerCase ''Number'') = ''number''" by (simp add: js_string_defs)
  have d: "trim (toLowerCase ''BOOLEAN'') = ''boolean''" by (simp add: js_string_defs)
  show ?thesis
    using a b c d
      mapStringToSqlType_default_and_aliases [of "''varchar2''"]
      mapStringToSqlType_default_and_aliases [of "'' STRING ''"]
      mapStringToSqlType_default_and_aliases [of "''Number''"]
      mapStringToSqlType_default_and_aliases [of "''BOOLEAN''"]
    by blast
qed

subsection \<open>C3: bounded retries with backoff\<close>

text \<open>
  C3 states that with \<open>maxRetries = N\<close> and a connection that always fails, the delays
  between the attempts are non-decreasing. The jitter \<open>Math.random() * 1000\<close> is added
  before the cap, so with \<open>initialRetryDelay = 100\<close>, jitter \<open>900\<close> after the first
  attempt and \<open>0\<close> after the second, the service waits \<open>1000\<close> and then \<open>200\<close>
  milliseconds.
\<close>

theorem getPool_delays_counterexample:
  "map_option (\<lambda>(r, s'). sleeps (eventsSince freshService s'))
     (getPool (exampleConfig\<lparr>initialRetryDelay := 100\<rparr>)
        (unreachableDriver (\<lambda>k. if k = 3 then 9 / 10 else 0)) 0 freshService)
     = Some [1000, 200]
   \<and> \<not> sorted [1000, 200 :: real]"
proof -
  let ?cfg = "exampleConfig\<lparr>initialRetryDelay := 100\<rparr>"
  let ?drv = "unreachableDriver (\<lambda>k. if k = 3 then 9 / 10 else 0)"
  have pw: "\<not> passwordMissing ?cfg" using example_facts(1) by (simp add: passwordMissing_def)
  have n: "int 0 + int 2 = maxRetries ?cfg - 1" by (simp add: example_facts)
  from getPool_all_fail [OF example_facts(10) pw example_facts(5) example_facts(6) example_facts(7) n]
  obtain e s' where run: "getPool ?cfg ?drv 0 freshService = Some (Inl e, s')"
    and tr: "trace s' = trace freshService @ failedAttempts ?cfg ?drv 0 2 (step freshService)"
    by blast
  have ev: "eventsSince freshService s' = failedAttempts ?cfg ?drv 0 2 0"
    using eventsSince_append [OF tr] by (simp add: example_facts)
  have "sleeps (eventsSince freshService s') = [1000, 200]"
    unfolding ev sleeps_failedAttempts
    by (simp add: retryDelay_def example_facts upt_rec numeral_2_eq_2)
  with run show ?thesis by simp
qed


text \<open>
  C3, amended: with \<open>maxRetries = N \<ge> 1\<close>, a password configured, no pool, no creation
  in flight, and a connection that fails on every attempt, \<open>getPool()\<close> makes exactly
  \<open>N\<close> connection attempts; the delay after attempt \<open>k\<close> (from \<open>0\<close>) is
  \<open>min(initialRetryDelay * 2^k + jitter, maxRetryDelay)\<close>, so every delay is at most
  \<open>maxRetryDelay\<close>, and the delays are non-decreasing when \<open>initialRetryDelay\<close> is at
  least \<open>1000\<close> (the jitter is below \<open>1000\<close>); after the \<open>N\<close>-th failure it throws
  the \<open>ConnectionError\<close> built from the last failure, whose \<open>details.attempts\<close> is \<open>N\<close>.
\<close>

theorem getPool_exhausts_retries:
  assumes "1 \<le> maxRetries cfg" and "\<not> passwordMissing cfg"
    and "\<forall>k. drv_connect drv k \<noteq> Connected"
    and "pool s = None" and "connectionPromise s = None" and "\<not> isConnecting s"
  shows "\<exists>e s'. getPool cfg drv 0 s = Some (Inl e, s')
      \<and> connects (eventsSince s s') = nat (maxRetries cfg)
      \<and> sleeps (eventsSince s s') =
          map (\<lambda>attempt. min (real_of_int (initialRetryDelay cfg) * 2 ^ attempt
                                + Math_random drv (step s + 4 * attempt + 3) * 1000)
                             (real_of_int (maxRetryDelay cfg)))
              [0..<nat (maxRetries cfg) - 1]
      \<and> (\<forall>d \<in> set (sleeps (eventsSince s s')). d \<le> real_of_int (maxRetryDelay cfg))
      \<and> (1000 \<le> initialRetryDelay cfg \<and> (\<forall>k. 0 \<le> Math_random drv k \<and> Math_random drv k < 1)
            \<longrightarrow> sorted (sleeps (eventsSince s s')))
      \<and> e = retriesExhausted cfg
               (connectFailure cfg (drv_connect drv (step s + 4 * (nat (maxRetries cfg) - 1))))
      \<and> errorType e = CONNECTION_ERROR
      \<and> detail e ''attempts'' = Some (DNum (maxRetries cfg))"
proof -
  define n where "n = nat (maxRetries cfg) - 1"
  have n: "int 0 + int n = maxRetries cfg - 1" using assms(1) by (simp add: n_def)
  from getPool_all_fail [OF assms(3) assms(2) assms(4) assms(5) assms(6) n]
  obtain s' where run: "getPool cfg drv 0 s =
        Some (Inl (retriesExhausted cfg (connectFailure cfg (drv_connect drv (step s + 4 * n)))), s')"
    and tr: "trace s' = trace s @ failedAttempts cfg drv 0 n (step s)" by auto
  have ev: "eventsSince s s' = failedAttempts cfg drv 0 n (step s)"
    using tr by (rule eventsSince_append)
  have c: "connects (eventsSince s s') = nat (maxRetries cfg)"
    using assms(1) by (simp add: ev connects_failedAttempts n_def)
  have sl: "sleeps (eventsSince s s') =
          map (\<lambda>k. retryDelay cfg k (Math_random drv (step s + 4 * k + 3))) [0..<n]"
    by (simp add: ev sleeps_failedAttempts)
  have cap: "\<forall>d \<in> set (sleeps (eventsSince s s')). d \<le> real_of_int (maxRetryDelay cfg)"
    by (auto simp: sl retryDelay_capped)
  have srt: "sorted (sleeps (eventsSince s s'))"
    if "1000 \<le> initialRetryDelay cfg" "\<forall>k. 0 \<le> Math_random drv k \<and> Math_random drv k < 1"
    unfolding sl using that by (intro sorted_map_upt retryDelay_mono) auto
  have att: "detail (retriesExhausted cfg (connectFailure cfg (drv_connect drv (step s + 4 * n)))) ''attempts''
               = Some (DNum (maxRetries cfg))"
    by (rule retriesExhausted_attempts) (rule connectFailure_no_attempts)
  have ty: "errorType (retriesExhausted cfg (connectFailure cfg (drv_connect drv (step s + 4 * n)))) = CONNECTION_ERROR"
    by (simp add: retriesExhausted_def new_MssqlMcpError_def)
  show ?thesis
    using run c sl cap srt att ty unfolding n_def retryDelay_def by blast
qed



text \<open>The amended statement at the default configuration (\<open>N = 3\<close>, delays from \<open>1000\<close>,
  cap \<open>10000\<close>) with jitter \<open>500\<close>: three attempts, delays \<open>1500\<close> and \<open>2500\<close>.\<close>

theorem getPool_exhausts_retries_witness:
  "map_option (\<lambda>(r, s'). (connects (eventsSince freshService s'), sleeps (eventsSince freshService s'),
                            map_sum (\<lambda>e. (errorType e, detail e ''attempts'')) (\<lambda>p. ()) r))
     (getPool exampleConfig (unreachableDriver (\<lambda>k. 1 / 2)) 0 freshService)
     = Some (3, [1500, 2500], Inl (CONNECTION_ERROR, Some (DNum 3)))"
proof -
  let ?drv = "unreachableDriver (\<lambda>k. 1 / 2)"
  have n: "1 \<le> maxRetries exampleConfig" by (simp add: example_facts)
  from getPool_exhausts_retries [OF n example_facts(1) example_facts(10) example_facts(5)
         example_facts(6) example_facts(7)]
  obtain e s' where run: "getPool exampleConfig ?drv 0 freshService = Some (Inl e, s')"
    and c: "connects (eventsSince freshService s') = nat (maxRetries exampleConfig)"
    and sl: "sleeps (eventsSince freshService s') =
          map (\<lambda>attempt. min (real_of_int (initialRetryDelay exampleConfig) * 2 ^ attempt
                                + Math_random ?drv (step freshService + 4 * attempt + 3) * 1000)
                             (real_of_int (maxRetryDelay exampleConfig)))
              [0..<nat (maxRetries exampleConfig) - 1]"
    and ty: "errorType e = CONNECTION_ERROR"
    and att: "detail e ''attempts'' = Some (DNum (maxRetries exampleConfig))"
    by blast
  have sl': "sleeps (eventsSince freshService s') = [1500, 2500]"
    unfolding sl by (simp add: example_facts upt_rec numeral_2_eq_2)
  show ?thesis
    using run c sl' ty att by (simp add: example_facts)
qed

subsection \<open>C2: the whitelist check\<close>

text \<open>
  C2: for a target database \<open>D\<close> (the argument if given and not empty, else the configured
  default; for \<open>getSchema\<close> its argument) and the configured whitelist \<open>W\<close>, each of
  \<open>executeQuery\<close>, \<open>executeStoredProcedure\<close> and \<open>getSchema\<close> throws a \<open>PermissionError\<close>
  whose details hold \<open>D\<close> under \<open>database\<close> and \<open>W\<close> under \<open>allowed\<close> if and only if
  \<open>W\<close> is not empty and \<open>D\<close> is not in \<open>W\<close>. In particular an empty (or absent)
  whitelist rejects nothing.
\<close>

theorem whitelist_rejection_iff:
  "((\<exists>e s'. executeQuery cfg drv q rawDatabaseArg s = Some (Inl e, s')
        \<and> errorType e = PERMISSION_ERROR
        \<and> detail e ''database'' = Some (DStr (orDefault rawDatabaseArg (database cfg)))
        \<and> detail e ''allowed'' = Some (DStrs (allowedList cfg)))
     \<longleftrightarrow> (allowedList cfg \<noteq> [] \<and> orDefault rawDatabaseArg (database cfg) \<notin> set (allowedList cfg)))
 \<and> ((\<exists>e s'. executeStoredProcedure cfg drv procedure parameters rawDatabaseArg s = Some (Inl e, s')
        \<and> errorType e = PERMISSION_ERROR
        \<and> detail e ''database'' = Some (DStr (orDefault rawDatabaseArg (database cfg)))
        \<and> detail e ''allowed'' = Some (DStrs (allowedList cfg)))
     \<longleftrightarrow> (allowedList cfg \<noteq> [] \<and> orDefault rawDatabaseArg (database cfg) \<notin> set (allowedList cfg)))
 \<and> ((\<exists>e s'. getSchema cfg drv dbIdentifier s = Some (Inl e, s')
        \<and> errorType e = PERMISSION_ERROR
        \<and> detail e ''database'' = Some (DStr dbIdentifier)
        \<and> detail e ''allowed'' = Some (DStrs (allowedList cfg)))
     \<longleftrightarrow> (allowedList cfg \<noteq> [] \<and> dbIdentifier \<notin> set (allowedList cfg)))"
proof -
  let ?D = "orDefault rawDatabaseArg (database cfg)"
  let ?denied = "\<lambda>db. allowedList cfg \<noteq> [] \<and> db \<notin> set (allowedList cfg)"
  have q: "(\<exists>e s'. executeQuery cfg drv q rawDatabaseArg s = Some (Inl e, s')
        \<and> errorType e = PERMISSION_ERROR
        \<and> detail e ''database'' = Some (DStr ?D)
        \<and> detail e ''allowed'' = Some (DStrs (allowedList cfg))) \<longleftrightarrow> ?denied ?D"
  proof (rule iffI)
    assume "\<exists>e s'. executeQuery cfg drv q rawDatabaseArg s = Some (Inl e, s')
        \<and> errorType e = PERMISSION_ERROR
        \<and> detail e ''database'' = Some (DStr ?D)
        \<and> detail e ''allowed'' = Some (DStrs (allowedList cfg))"
    then show "?denied ?D"
      using executeQuery_not_whitelist [of cfg drv q rawDatabaseArg s]
      by (fastforce simp: notWhitelistError_def whitelistDenies_iff)
  next
    assume "?denied ?D"
    then have "whitelistDenies cfg ?D" by (simp add: whitelistDenies_iff)
    then show "\<exists>e s'. executeQuery cfg drv q rawDatabaseArg s = Some (Inl e, s')
        \<and> errorType e = PERMISSION_ERROR
        \<and> detail e ''database'' = Some (DStr ?D)
        \<and> detail e ''allowed'' = Some (DStrs (allowedList cfg))"
      by (simp add: executeQuery_def notAllowed_details)
  qed
  have p: "(\<exists>e s'. executeStoredProcedure cfg drv procedure parameters rawDatabaseArg s = Some (Inl e, s')
        \<and> errorType e = PERMISSION_ERROR
        \<and> detail e ''database'' = Some (DStr ?D)
        \<and> detail e ''allowed'' = Some (DStrs (allowedList cfg))) \<longleftrightarrow> ?denied ?D"
  proof (rule iffI)
    assume "\<exists>e s'. executeStoredProcedure cfg drv procedure parameters rawDatabaseArg s = Some (Inl e, s')
        \<and> errorType e = PERMISSION_ERROR
        \<and> detail e ''database'' = Some (DStr ?D)
        \<and> detail e ''allowed'' = Some (DStrs (allowedList cfg))"
    then show "?denied ?D"
      using executeStoredProcedure_not_whitelist [of cfg drv procedure parameters rawDatabaseArg s]
      by (fastforce simp: notWhitelistError_def whitelistDenies_iff)
  next
    assume "?denied ?D"
    then have "whitelistDenies cfg ?D" by (simp add: whitelistDenies_iff)
    then show "\<exists>e s'. executeStoredProcedure cfg drv procedure parameters rawDatabaseArg s = Some (Inl e, s')
        \<and> errorType e = PERMISSION_ERROR
        \<and> detail e ''database'' = Some (DStr ?D)
        \<and> detail e ''allowed'' = Some (DStrs (allowedList cfg))"
      by (simp add: executeStoredProcedure_def notAllowed_details)
  qed
  have g: "(\<exists>e s'. getSchema cfg drv dbIdentifier s = Some (Inl e, s')
        \<and> errorType e = PERMISSION_ERROR
        \<and> detail e ''database'' = Some (DStr dbIdentifier)
        \<and> detail e ''allowed'' = Some (DStrs (allowedList cfg))) \<longleftrightarrow> ?denied dbIdentifier"
  proof (rule iffI)
    assume "\<exists>e s'. getSchema cfg drv dbIdentifier s = Some (Inl e, s')
        \<and> errorType e = PERMISSION_ERROR
        \<and> detail e ''database'' = Some (DStr dbIdentifier)
        \<and> detail e ''allowed'' = Some (DStrs (allowedList cfg))"
    then show "?denied dbIdentifier"
      using getSchema_not_whitelist [of cfg drv dbIdentifier s]
      by (fastforce simp: notWhitelistError_def whitelistDenies_iff)
  next
    assume "?denied dbIdentifier"
    then have "whitelistDenies cfg dbIdentifier" by (simp add: whitelistDenies_iff)
    then show "\<exists>e s'. getSchema cfg drv dbIdentifier s = Some (Inl e, s')
        \<and> errorType e = PERMISSION_ERROR
        \<and> detail e ''database'' = Some (DStr dbIdentifier)
        \<and> detail e ''allowed'' = Some (DStrs (allowedList cfg))"
      by (simp add: getSchema_def notAllowed_details)
  qed
  show ?thesis by (intro conjI) (rule q, rule p, rule g)
qed



text \<open>Scenario B of the specification: whitelist \<open>Db1,Db2\<close>, query against \<open>Db3\<close>.\<close>

theorem whitelist_rejection_witness:
  "map_option (\<lambda>(r, s'). map_sum (\<lambda>e. (errorType e, detail e ''database'', detail e ''allowed'')) (\<lambda>res. ()) r)
     (executeQuery exampleConfig (unreachableDriver (\<lambda>k. 0)) ''SELECT 1'' (Some ''Db3'') freshService)
     = Some (Inl (PERMISSION_ERROR, Some (DStr ''Db3''), Some (DStrs [''Db1'', ''Db2''])))"
proof -
  have al: "allowedList exampleConfig = [''Db1'', ''Db2'']"
    by (simp add: allowedList_def exampleConfig_def)
  have d: "orDefault (Some ''Db3'') (database exampleConfig) = ''Db3''"
    by (simp add: orDefault_def)
  have rhs: "allowedList exampleConfig \<noteq> []
       \<and> orDefault (Some ''Db3'') (database exampleConfig) \<notin> set (allowedList exampleConfig)"
    by (simp add: al d)
  from whitelist_rejection_iff [of exampleConfig "unreachableDriver (\<lambda>k. 0)" "''SELECT 1''" "Some ''Db3''"
         freshService, THEN conjunct1, THEN iffD2, OF rhs]
  obtain e s' where "executeQuery exampleConfig (unreachableDriver (\<lambda>k. 0)) ''SELECT 1'' (Some ''Db3'') freshService
        = Some (Inl e, s')"
    "errorType e = PERMISSION_ERROR"
    "detail e ''database'' = Some (DStr (orDefault (Some ''Db3'') (database exampleConfig)))"
    "detail e ''allowed'' = Some (DStrs (allowedList exampleConfig))"
    by blast
  then show ?thesis by (simp add: al d)
qed

subsection \<open>C1: only SELECT reaches the driver\<close>

text \<open>
  C1 states that a text whose parse contains a statement that is not a \<open>select\<close> is
  rejected with a \<open>ValidationError\<close> naming the offending statement kind. The error
  carries \<open>queryType: q.type\<close>, the property as the parser left it. For a statement the
  parser built without a \<open>type\<close> (here the answer to a \<open>MERGE\<close> text) the test
  \<open>q.type !== 'select'\<close> holds and the text is rejected, but \<open>queryType\<close> is
  \<open>undefined\<close>: the error names no kind.
\<close>

theorem executeQuery_typeless_counterexample:
  "astify healthyDriver ''MERGE INTO T USING S ON T.Id = S.Id WHEN MATCHED THEN DELETE;'' = Inr (Single None)
   \<and> map_option (\<lambda>(r, s'). (map_sum (\<lambda>e. (errorType e, detail e ''queryType'')) (\<lambda>res. ()) r,
                              eventsSince freshService s'))
        (executeQuery openConfig healthyDriver
           ''MERGE INTO T USING S ON T.Id = S.Id WHEN MATCHED THEN DELETE;'' None freshService)
      = Some (Inl (VALIDATION_ERROR, Some DUndefined), [EvConnect 0])"
proof -
  have "executeQuery openConfig healthyDriver
           ''MERGE INTO T USING S ON T.Id = S.Id WHEN MATCHED THEN DELETE;'' None freshService
        = Some (Inl (new_MssqlMcpError
              ''DatabaseService: Only SELECT queries are allowed. DELETE, INSERT, UPDATE, and other DML/DDL operations are not permitted.''
              VALIDATION_ERROR None
              (Some [(''query'', DStr ''MERGE INTO T USING S ON T.Id = S.Id WHEN MATCHED THEN DELETE;''),
                     (''queryType'', DUndefined)])), connectedService)"
    by (simp add: executeQuery_def whitelistDenies_iff open_facts healthy_getPool orDefault_def
         executeQuery_try_def switchContext_def validateQuery_def parse_examples text_examples
         executeQuery_catch_def queryType_of_def)
  then show ?thesis
    by (simp add: open_facts parse_examples new_MssqlMcpError_def detail_def orEmpty_def
          eventsSince_def step_def freshService_def connectedService_def)
qed

text \<open>
  C1, amended: \<open>executeQuery(T)\<close> sends \<open>T\<close> to the driver, or returns a result, only if
  the parser accepted \<open>T\<close>, every top-level statement of the parse has type \<open>select\<close>,
  and the lowercased text contains none of \<open>exec \<close>, \<open>execute \<close>, \<open>sp_\<close>, \<open>xp_\<close>,
  \<open>reconfigure\<close>, \<open>waitfor delay\<close>. When the call reaches the checks on the text (the
  whitelist admits the target, a pool is obtained, the context switch passes, the text is
  not blank): a parse with a statement whose type is not \<open>select\<close>, an absent type
  included, is rejected with a \<open>ValidationError\<close> whose \<open>queryType\<close> detail is what the
  parser reported for the first such statement, the name of its kind when it has a type
  and \<open>undefined\<close> when it has none; and a text that parses as \<open>select\<close> statements
  only but contains a blocked substring is rejected with a \<open>ValidationError\<close>. In both
  cases nothing was sent for \<open>T\<close>: the final state is the one after the context switch.
\<close>

theorem executeQuery_select_only:
  fixes cfg drv T db s p s1
  defines "D \<equiv> orDefault db (database cfg)"
  defines "s2 \<equiv> (if D = database cfg then s1 else emit (EvBatch (useStatement D)) s1)"
  defines "proceeds \<equiv>
     (allowedList cfg = [] \<or> D \<in> set (allowedList cfg))
     \<and> getPool cfg drv 0 s = Some (Inr p, s1)
     \<and> (D = database cfg \<or> (dbNameFormat_ok D \<and> drv_batch drv (step s1) (useStatement D) = None))
     \<and> trim T \<noteq> []"
  shows
   "(executeQuery cfg drv T db s = Some (r, s')
       \<and> (EvQuery T \<in> set (eventsSince s s') \<or> (\<exists>res. r = Inr res))
     \<longrightarrow> (\<exists>parsed. astify drv T = Inr parsed \<and> (\<forall>t \<in> set (queries_of parsed). t = Some ''select''))
         \<and> \<not> js_includes (toLowerCase T) ''exec ''
         \<and> \<not> js_includes (toLowerCase T) ''execute ''
         \<and> \<not> js_includes (toLowerCase T) ''sp_''
         \<and> \<not> js_includes (toLowerCase T) ''xp_''
         \<and> \<not> js_includes (toLowerCase T) ''reconfigure''
         \<and> \<not> js_includes (toLowerCase T) ''waitfor delay'')
  \<and> (proceeds \<and> astify drv T = Inr parsed
       \<and> find (\<lambda>t. t \<noteq> Some ''select'') (queries_of parsed) = Some offending
     \<longrightarrow> (\<exists>e. executeQuery cfg drv T db s = Some (Inl e, s2)
              \<and> errorType e = VALIDATION_ERROR
              \<and> detail e ''queryType''
                  = Some (case offending of Some kind \<Rightarrow> DStr kind | None \<Rightarrow> DUndefined)))
  \<and> (proceeds \<and> astify drv T = Inr parsed
       \<and> (\<forall>t \<in> set (queries_of parsed). t = Some ''select'')
       \<and> (js_includes (toLowerCase T) ''exec '' \<or> js_includes (toLowerCase T) ''execute ''
          \<or> js_includes (toLowerCase T) ''sp_'' \<or> js_includes (toLowerCase T) ''xp_''
          \<or> js_includes (toLowerCase T) ''reconfigure'' \<or> js_includes (toLowerCase T) ''waitfor delay'')
     \<longrightarrow> (\<exists>e. executeQuery cfg drv T db s = Some (Inl e, s2)
              \<and> errorType e = VALIDATION_ERROR))"
proof (intro conjI impI)
  assume a: "executeQuery cfg drv T db s = Some (r, s')
       \<and> (EvQuery T \<in> set (eventsSince s s') \<or> (\<exists>res. r = Inr res))"
  then have "validateQuery drv T = None"
    using executeQuery_reaches_query [of cfg drv T db s r s'] by blast
  then have v: "(\<exists>parsed. astify drv T = Inr parsed \<and> (\<forall>t \<in> set (queries_of parsed). t = Some ''select''))"
     and b: "\<not> blockedKeyword T"
    by (simp_all add: validateQuery_None_iff)
  from v show "\<exists>parsed. astify drv T = Inr parsed \<and> (\<forall>t \<in> set (queries_of parsed). t = Some ''select'')" .
  from b show "\<not> js_includes (toLowerCase T) ''exec ''" by (simp add: blockedKeyword_def Let_def)
  from b show "\<not> js_includes (toLowerCase T) ''execute ''" by (simp add: blockedKeyword_def Let_def)
  from b show "\<not> js_includes (toLowerCase T) ''sp_''" by (simp add: blockedKeyword_def Let_def)
  from b show "\<not> js_includes (toLowerCase T) ''xp_''" by (simp add: blockedKeyword_def Let_def)
  from b show "\<not> js_includes (toLowerCase T) ''reconfigure''" by (simp add: blockedKeyword_def Let_def)
  from b show "\<not> js_includes (toLowerCase T) ''waitfor delay''" by (simp add: blockedKeyword_def Let_def)
next
  assume a: "proceeds \<and> astify drv T = Inr parsed
       \<and> find (\<lambda>t. t \<noteq> Some ''select'') (queries_of parsed) = Some offending"
  let ?e = "new_MssqlMcpError
              ''DatabaseService: Only SELECT queries are allowed. DELETE, INSERT, UPDATE, and other DML/DDL operations are not permitted.''
              VALIDATION_ERROR None (Some [(''query'', DStr T), (''queryType'', queryType_of offending)])"
  from a have nd: "\<not> whitelistDenies cfg (orDefault db (database cfg))"
    by (auto simp: proceeds_def D_def whitelistDenies_iff)
  from a have gp: "getPool cfg drv 0 s = Some (Inr p, s1)" by (simp add: proceeds_def)
  from a have sw: "switchContext cfg drv ''DatabaseService: Invalid database name format: ''
            (orDefault db (database cfg)) s1 = (None, s2)"
    unfolding s2_def D_def proceeds_def by (intro switchContext_passes) blast
  from a have "T \<noteq> []" "trim T \<noteq> []" by (auto simp: proceeds_def trim_def)
  with a have v: "validateQuery drv T = Some ?e" by (simp add: validateQuery_def)
  have "executeQuery cfg drv T db s = Some (Inl ?e, s2)"
    by (rule executeQuery_rejected_by_validation [OF nd gp sw v])
  then show "\<exists>e. executeQuery cfg drv T db s = Some (Inl e, s2)
              \<and> errorType e = VALIDATION_ERROR
              \<and> detail e ''queryType''
                  = Some (case offending of Some kind \<Rightarrow> DStr kind | None \<Rightarrow> DUndefined)"
    by (simp add: new_MssqlMcpError_def detail_def orEmpty_def queryType_of_def)
next
  assume a: "proceeds \<and> astify drv T = Inr parsed
       \<and> (\<forall>t \<in> set (queries_of parsed). t = Some ''select'')
       \<and> (js_includes (toLowerCase T) ''exec '' \<or> js_includes (toLowerCase T) ''execute ''
          \<or> js_includes (toLowerCase T) ''sp_'' \<or> js_includes (toLowerCase T) ''xp_''
          \<or> js_includes (toLowerCase T) ''reconfigure'' \<or> js_includes (toLowerCase T) ''waitfor delay'')"
  let ?e = "new_MssqlMcpError
              ''DatabaseService: Potentially unsafe query detected. Stored procedures, system procedures, and waitfor delay are not allowed in direct queries. Use the execute_StoredProcedure tool for stored procedures.''
              VALIDATION_ERROR None (Some [(''query'', DStr T)])"
  from a have nd: "\<not> whitelistDenies cfg (orDefault db (database cfg))"
    by (auto simp: proceeds_def D_def whitelistDenies_iff)
  from a have gp: "getPool cfg drv 0 s = Some (Inr p, s1)" by (simp add: proceeds_def)
  from a have sw: "switchContext cfg drv ''DatabaseService: Invalid database name format: ''
            (orDefault db (database cfg)) s1 = (None, s2)"
    unfolding s2_def D_def proceeds_def by (intro switchContext_passes) blast
  from a have ne: "T \<noteq> []" "trim T \<noteq> []" by (auto simp: proceeds_def trim_def)
  from a have f: "find (\<lambda>t. t \<noteq> Some ''select'') (queries_of parsed) = None"
    by (simp add: find_None_iff)
  from a have bl: "blockedKeyword T" by (simp add: blockedKeyword_def Let_def)
  from a ne f bl have v: "validateQuery drv T = Some ?e" by (simp add: validateQuery_def)
  have "executeQuery cfg drv T db s = Some (Inl ?e, s2)"
    by (rule executeQuery_rejected_by_validation [OF nd gp sw v])
  then show "\<exists>e. executeQuery cfg drv T db s = Some (Inl e, s2) \<and> errorType e = VALIDATION_ERROR"
    by (simp add: new_MssqlMcpError_def)
qed



text \<open>Scenarios C and D of the specification, the \<open>MERGE\<close> text, whose statement has no
  type, and \<open>SELECT 1\<close>, which is executed.\<close>

theorem executeQuery_select_only_witness:
  "map_option (\<lambda>(r, s'). map_sum (\<lambda>e. (errorType e, detail e ''queryType'')) (\<lambda>res. ()) r)
     (executeQuery openConfig healthyDriver ''DROP TABLE Foo'' None freshService)
     = Some (Inl (VALIDATION_ERROR, Some (DStr ''drop'')))
   \<and> map_option (\<lambda>(r, s'). map_sum (\<lambda>e. (errorType e, detail e ''queryType'')) (\<lambda>res. ()) r)
     (executeQuery openConfig healthyDriver
        ''MERGE INTO T USING S ON T.Id = S.Id WHEN MATCHED THEN DELETE;'' None freshService)
     = Some (Inl (VALIDATION_ERROR, Some DUndefined))
   \<and> map_option (\<lambda>(r, s'). map_sum errorType (\<lambda>res. ()) r)
     (executeQuery openConfig healthyDriver ''SELECT * FROM sp_who'' None freshService)
     = Some (Inl VALIDATION_ERROR)
   \<and> map_option (\<lambda>(r, s'). (r, eventsSince freshService s'))
     (executeQuery openConfig healthyDriver ''SELECT 1'' None freshService)
     = Some (Inr \<lparr>qr_columns = [''id'', ''name''], qr_rows = [], qr_recordCount = 0\<rparr>,
             [EvConnect 0, EvQuery ''SELECT 1''])
   \<and> \<not> js_includes (toLowerCase ''SELECT 1'') ''sp_''"
proof -
  note inst = executeQuery_select_only [where cfg = openConfig and drv = healthyDriver and db = None
      and s = freshService and p = "\<lparr>pool_id = 0, connected = True\<rparr>" and ?s1.0 = connectedService]
  have pre: "(allowedList openConfig = [] \<or> orDefault None (database openConfig) \<in> set (allowedList openConfig))
     \<and> getPool openConfig healthyDriver 0 freshService = Some (Inr \<lparr>pool_id = 0, connected = True\<rparr>, connectedService)
     \<and> (orDefault None (database openConfig) = database openConfig
         \<or> (dbNameFormat_ok (orDefault None (database openConfig))
             \<and> drv_batch healthyDriver (step connectedService) (useStatement (orDefault None (database openConfig))) = None))"
    by (simp add: open_facts healthy_getPool orDefault_def)
  have f: "find (\<lambda>t. t \<noteq> Some ''select'') (queries_of (Single (Some ''drop''))) = Some (Some ''drop'')"
    by simp
  have f': "find (\<lambda>t. t \<noteq> Some ''select'') (queries_of (Single None)) = Some None" by simp
  from inst [where T = "''MERGE INTO T USING S ON T.Id = S.Id WHEN MATCHED THEN DELETE;''"
              and parsed = "Single None" and offending = None,
            THEN conjunct2, THEN conjunct1, rule_format] pre f'
  obtain e0 where "executeQuery openConfig healthyDriver
           ''MERGE INTO T USING S ON T.Id = S.Id WHEN MATCHED THEN DELETE;'' None freshService
         = Some (Inl e0, connectedService)" "errorType e0 = VALIDATION_ERROR"
       "detail e0 ''queryType'' = Some DUndefined"
    by (auto simp: open_facts parse_examples text_examples orDefault_def)
  then have a': "map_option (\<lambda>(r, s'). map_sum (\<lambda>e. (errorType e, detail e ''queryType'')) (\<lambda>res. ()) r)
     (executeQuery openConfig healthyDriver
        ''MERGE INTO T USING S ON T.Id = S.Id WHEN MATCHED THEN DELETE;'' None freshService)
     = Some (Inl (VALIDATION_ERROR, Some DUndefined))" by simp
  from inst [where T = "''DROP TABLE Foo''" and parsed = "Single (Some ''drop'')" and offending = "Some ''drop''",
            THEN conjunct2, THEN conjunct1, rule_format] pre f
  obtain e1 where "executeQuery openConfig healthyDriver ''DROP TABLE Foo'' None freshService
         = Some (Inl e1, connectedService)" "errorType e1 = VALIDATION_ERROR"
       "detail e1 ''queryType'' = Some (DStr ''drop'')"
    by (auto simp: open_facts parse_examples text_examples orDefault_def)
  then have a: "map_option (\<lambda>(r, s'). map_sum (\<lambda>e. (errorType e, detail e ''queryType'')) (\<lambda>res. ()) r)
     (executeQuery openConfig healthyDriver ''DROP TABLE Foo'' None freshService)
     = Some (Inl (VALIDATION_ERROR, Some (DStr ''drop'')))" by simp
  from inst [where T = "''SELECT * FROM sp_who''" and parsed = "Single (Some ''select'')",
            THEN conjunct2, THEN conjunct2, rule_format] pre
  obtain e2 where "executeQuery openConfig healthyDriver ''SELECT * FROM sp_who'' None freshService
         = Some (Inl e2, connectedService)" "errorType e2 = VALIDATION_ERROR"
    by (auto simp: open_facts parse_examples text_examples orDefault_def)
  then have b: "map_option (\<lambda>(r, s'). map_sum errorType (\<lambda>res. ()) r)
     (executeQuery openConfig healthyDriver ''SELECT * FROM sp_who'' None freshService)
     = Some (Inl VALIDATION_ERROR)" by simp
  have run: "executeQuery openConfig healthyDriver ''SELECT 1'' None freshService
     = Some (Inr \<lparr>qr_columns = [''id'', ''name''], qr_rows = [], qr_recordCount = 0\<rparr>,
             emit (EvQuery ''SELECT 1'') connectedService)"
    by (simp add: executeQuery_def whitelistDenies_iff open_facts healthy_getPool orDefault_def
         executeQuery_try_def switchContext_def validateQuery_def parse_examples text_examples
         shapeRecordset_def)
  have ev: "eventsSince freshService (emit (EvQuery ''SELECT 1'') connectedService)
             = [EvConnect 0, EvQuery ''SELECT 1'']"
    by (simp add: eventsSince_def step_def freshService_def connectedService_def)
  from run ev have c: "map_option (\<lambda>(r, s'). (r, eventsSince freshService s'))
     (executeQuery openConfig healthyDriver ''SELECT 1'' None freshService)
     = Some (Inr \<lparr>qr_columns = [''id'', ''name''], qr_rows = [], qr_recordCount = 0\<rparr>,
             [EvConnect 0, EvQuery ''SELECT 1''])" by simp
  from inst [where T = "''SELECT 1''" and r = "Inr \<lparr>qr_columns = [''id'', ''name''], qr_rows = [], qr_recordCount = 0\<rparr>"
              and s' = "emit (EvQuery ''SELECT 1'') connectedService",
            THEN conjunct1, rule_format] run
  have d: "\<not> js_includes (toLowerCase ''SELECT 1'') ''sp_''" by blast
  from a a' b c d show ?thesis by (intro conjI)
qed

subsection \<open>C6: results without rows\<close>

text \<open>
  C6: when the query is executed (the whitelist admits the target, a pool is obtained,
  the context switch passes, the text passes the checks) and the driver answers with a
  recordset that has no rows but carries column metadata, \<open>executeQuery\<close> returns the
  success record with the column names sorted by column index, no rows and
  \<open>recordCount\<close> zero; the sorted list is a permutation of the metadata. When the driver
  answers without a recordset, \<open>executeQuery\<close> returns the empty success record.
\<close>

theorem executeQuery_empty_recordset:
  fixes cfg drv T db s p s1
  defines "D \<equiv> orDefault db (database cfg)"
  defines "s2 \<equiv> (if D = database cfg then s1 else emit (EvBatch (useStatement D)) s1)"
  defines "executed \<equiv>
     (allowedList cfg = [] \<or> D \<in> set (allowedList cfg))
     \<and> getPool cfg drv 0 s = Some (Inr p, s1)
     \<and> (D = database cfg \<or> (dbNameFormat_ok D \<and> drv_batch drv (step s1) (useStatement D) = None))
     \<and> validateQuery drv T = None"
  shows
   "(executed \<and> drv_query drv (step s2) T = Inr (Some rs) \<and> rs_rows rs = [] \<and> rs_columns rs = Some colArray
      \<longrightarrow> executeQuery cfg drv T db s
            = Some (Inr \<lparr>qr_columns = map cm_name (sort_key cm_index colArray), qr_rows = [],
                         qr_recordCount = 0\<rparr>,
                    emit (EvQuery T) s2)
          \<and> sorted (map cm_index (sort_key cm_index colArray))
          \<and> mset (sort_key cm_index colArray) = mset colArray)
  \<and> (executed \<and> drv_query drv (step s2) T = Inr None
      \<longrightarrow> executeQuery cfg drv T db s
            = Some (Inr \<lparr>qr_columns = [], qr_rows = [], qr_recordCount = 0\<rparr>, emit (EvQuery T) s2))"
proof (intro conjI impI)
  assume a: "executed \<and> drv_query drv (step s2) T = Inr (Some rs) \<and> rs_rows rs = [] \<and> rs_columns rs = Some colArray"
  from a have nd: "\<not> whitelistDenies cfg (orDefault db (database cfg))"
    by (auto simp: executed_def D_def whitelistDenies_iff)
  from a have gp: "getPool cfg drv 0 s = Some (Inr p, s1)" by (simp add: executed_def)
  from a have sw: "switchContext cfg drv ''DatabaseService: Invalid database name format: ''
            (orDefault db (database cfg)) s1 = (None, s2)"
    unfolding s2_def D_def executed_def by (intro switchContext_passes) blast
  from a have v: "validateQuery drv T = None" by (simp add: executed_def)
  from a have q: "drv_query drv (step s2) T = Inr (Some rs)" by simp
  from executeQuery_executes [OF nd gp sw v q] a
  show "executeQuery cfg drv T db s
            = Some (Inr \<lparr>qr_columns = map cm_name (sort_key cm_index colArray), qr_rows = [],
                         qr_recordCount = 0\<rparr>,
                    emit (EvQuery T) s2)"
    by (simp add: shapeRecordset_def)
  show "sorted (map cm_index (sort_key cm_index colArray))" by simp
  show "mset (sort_key cm_index colArray) = mset colArray" by simp
next
  assume a: "executed \<and> drv_query drv (step s2) T = Inr None"
  from a have nd: "\<not> whitelistDenies cfg (orDefault db (database cfg))"
    by (auto simp: executed_def D_def whitelistDenies_iff)
  from a have gp: "getPool cfg drv 0 s = Some (Inr p, s1)" by (simp add: executed_def)
  from a have sw: "switchContext cfg drv ''DatabaseService: Invalid database name format: ''
            (orDefault db (database cfg)) s1 = (None, s2)"
    unfolding s2_def D_def executed_def by (intro switchContext_passes) blast
  from a have v: "validateQuery drv T = None" by (simp add: executed_def)
  from a have q: "drv_query drv (step s2) T = Inr None" by simp
  from executeQuery_executes [OF nd gp sw v q]
  show "executeQuery cfg drv T db s
            = Some (Inr \<lparr>qr_columns = [], qr_rows = [], qr_recordCount = 0\<rparr>, emit (EvQuery T) s2)"
    by (simp add: shapeRecordset_def)
qed


text \<open>\<open>SELECT 1\<close> against a driver that reports the columns \<open>name\<close> (index 1) and \<open>id\<close>
  (index 0) and no rows, and against one that reports no recordset.\<close>

theorem executeQuery_empty_recordset_witness:
  "map_option fst (executeQuery openConfig healthyDriver ''SELECT 1'' None freshService)
     = Some (Inr \<lparr>qr_columns = [''id'', ''name''], qr_rows = [], qr_recordCount = 0\<rparr>)
   \<and> map_option fst (executeQuery openConfig (healthyDriver\<lparr>drv_query := (\<lambda>k t. Inr None)\<rparr>) ''SELECT 1'' None freshService)
     = Some (Inr \<lparr>qr_columns = [], qr_rows = [], qr_recordCount = 0\<rparr>)"
proof -
  let ?cols = "[\<lparr>cm_index = 1, cm_name = ''name''\<rparr>, \<lparr>cm_index = 0, cm_name = ''id''\<rparr>]"
  let ?rs = "\<lparr>rs_rows = [], rs_columns = Some ?cols\<rparr>"
  let ?drv = "healthyDriver\<lparr>drv_query := (\<lambda>k t. Inr None)\<rparr>"
  have pre: "(allowedList openConfig = [] \<or> orDefault None (database openConfig) \<in> set (allowedList openConfig))
     \<and> getPool openConfig healthyDriver 0 freshService = Some (Inr \<lparr>pool_id = 0, connected = True\<rparr>, connectedService)
     \<and> (orDefault None (database openConfig) = database openConfig
         \<or> (dbNameFormat_ok (orDefault None (database openConfig))
             \<and> drv_batch healthyDriver (step connectedService) (useStatement (orDefault None (database openConfig))) = None))
     \<and> validateQuery healthyDriver ''SELECT 1'' = None"
    by (simp add: open_facts healthy_getPool orDefault_def select1_valid)
  have q: "drv_query healthyDriver k ''SELECT 1'' = Inr (Some ?rs)" for k
    by (simp add: open_facts)
  from executeQuery_empty_recordset [where cfg = openConfig and drv = healthyDriver and db = None
      and s = freshService and p = "\<lparr>pool_id = 0, connected = True\<rparr>" and ?s1.0 = connectedService
      and T = "''SELECT 1''" and rs = ?rs and colArray = ?cols, THEN conjunct1, rule_format] pre q
  have a: "executeQuery openConfig healthyDriver ''SELECT 1'' None freshService
            = Some (Inr \<lparr>qr_columns = map cm_name (sort_key cm_index ?cols), qr_rows = [], qr_recordCount = 0\<rparr>,
                    emit (EvQuery ''SELECT 1'') connectedService)"
    by (simp add: orDefault_def open_facts)
  have gp': "getPool openConfig ?drv 0 freshService = Some (Inr \<lparr>pool_id = 0, connected = True\<rparr>, connectedService)"
    by (subst getPool.simps)
     (simp add: livePool_def awaitWatched_def tryInitPool_def initPool_def passwordMissing_def
        openConfig_def exampleConfig_def healthyDriver_def freshService_def connectedService_def
        step_def emit_def Let_def)
  have v': "validateQuery ?drv ''SELECT 1'' = None"
    by (simp add: validateQuery_def healthyDriver_def parse_examples text_examples)
  have pre': "(allowedList openConfig = [] \<or> orDefault None (database openConfig) \<in> set (allowedList openConfig))
     \<and> getPool openConfig ?drv 0 freshService = Some (Inr \<lparr>pool_id = 0, connected = True\<rparr>, connectedService)
     \<and> (orDefault None (database openConfig) = database openConfig
         \<or> (dbNameFormat_ok (orDefault None (database openConfig))
             \<and> drv_batch ?drv (step connectedService) (useStatement (orDefault None (database openConfig))) = None))
     \<and> validateQuery ?drv ''SELECT 1'' = None"
    using gp' v' by (simp add: open_facts orDefault_def)
  from executeQuery_empty_recordset [where cfg = openConfig and drv = ?drv and db = None
      and s = freshService and p = "\<lparr>pool_id = 0, connected = True\<rparr>" and ?s1.0 = connectedService
      and T = "''SELECT 1''", THEN conjunct2, rule_format] pre'
  have b: "executeQuery openConfig ?drv ''SELECT 1'' None freshService
            = Some (Inr \<lparr>qr_columns = [], qr_rows = [], qr_recordCount = 0\<rparr>,
                    emit (EvQuery ''SELECT 1'') connectedService)"
    by (simp add: orDefault_def open_facts)
  from a b show ?thesis by simp
qed

subsection \<open>C10: no keyword filter on procedure names\<close>

text \<open>
  C10: for every name that is a non-empty run of letters, digits and underscores,
  optionally preceded by one such run and a dot, \<open>executeStoredProcedure\<close> raises no
  name-validation error: when the whitelist admits the target, a pool is obtained, the
  context switch passes (for a target other than the configured database, the name is
  well formed, \<open>request.input('db_name_param', ...)\<close> does not throw and the \<open>USE\<close>
  batch succeeds) and the parameters bind, \<open>request.execute(name)\<close> is called and the
  outcome of the call is the driver's result, shaped, or the driver's error, handled by
  the \<open>catch\<close> block. No condition on the substrings \<open>exec\<close>, \<open>sp_\<close> or \<open>xp_\<close>
  appears: the filter of \<open>executeQuery\<close> is not applied to the name.
\<close>

theorem executeStoredProcedure_name_unfiltered:
  fixes cfg drv procedure parameters db s p s1 s3
  defines "D \<equiv> orDefault db (database cfg)"
  defines "s2 \<equiv> (if D = database cfg then s1
                 else emit (EvBatch (useStatement D)) (emit (EvInput ''db_name_param'' sql_NVarChar) s1))"
  shows
   "((procedure \<noteq> [] \<and> list_all isWordChar procedure)
       \<or> (\<exists>q n. procedure = q @ ''.'' @ n \<and> q \<noteq> [] \<and> list_all isWordChar q
                 \<and> n \<noteq> [] \<and> list_all isWordChar n))
    \<and> (allowedList cfg = [] \<or> D \<in> set (allowedList cfg))
    \<and> getPool cfg drv 0 s = Some (Inr p, s1)
    \<and> (D = database cfg
        \<or> (dbNameFormat_ok D
            \<and> drv_input drv (step s1) ''db_name_param'' sql_NVarChar (SqlText D) = None
            \<and> drv_batch drv (Suc (step s1)) (useStatement D) = None))
    \<and> bindParameters drv parameters s2 = (None, s3)
    \<longrightarrow> executeStoredProcedure cfg drv procedure parameters db s
         = (case drv_execute drv (step s3) procedure of
              Inr result \<Rightarrow> Some (Inr (shapeProcedureResult result), emit (EvExecute procedure) s3)
            | Inl x \<Rightarrow>
                map_option (\<lambda>(e, s'). (Inl e, s'))
                  (executeStoredProcedure_catch cfg drv procedure db (Foreign x)
                     (emit (EvExecute procedure) s3)))"
proof
  assume a: "((procedure \<noteq> [] \<and> list_all isWordChar procedure)
       \<or> (\<exists>q n. procedure = q @ ''.'' @ n \<and> q \<noteq> [] \<and> list_all isWordChar q
                 \<and> n \<noteq> [] \<and> list_all isWordChar n))
    \<and> (allowedList cfg = [] \<or> D \<in> set (allowedList cfg))
    \<and> getPool cfg drv 0 s = Some (Inr p, s1)
    \<and> (D = database cfg
        \<or> (dbNameFormat_ok D
            \<and> drv_input drv (step s1) ''db_name_param'' sql_NVarChar (SqlText D) = None
            \<and> drv_batch drv (Suc (step s1)) (useStatement D) = None))
    \<and> bindParameters drv parameters s2 = (None, s3)"
  then have ok: "procedureNameFormat_ok procedure" by (simp add: procedureNameFormat_ok_iff)
  from procedureName_not_blank [OF ok] have nb: "procedure \<noteq> []" "trim procedure \<noteq> []" by simp_all
  from a have nd: "\<not> whitelistDenies cfg (orDefault db (database cfg))"
    by (auto simp: D_def whitelistDenies_iff)
  from a have gp: "getPool cfg drv 0 s = Some (Inr p, s1)" by simp
  from a have sw: "switchProcedureContext cfg drv (orDefault db (database cfg)) s1 = (None, s2)"
    unfolding s2_def D_def by (intro switchProcedureContext_passes) blast
  from a have bp: "bindParameters drv parameters s2 = (None, s3)" by simp
  show "executeStoredProcedure cfg drv procedure parameters db s
         = (case drv_execute drv (step s3) procedure of
              Inr result \<Rightarrow> Some (Inr (shapeProcedureResult result), emit (EvExecute procedure) s3)
            | Inl x \<Rightarrow>
                map_option (\<lambda>(e, s'). (Inl e, s'))
                  (executeStoredProcedure_catch cfg drv procedure db (Foreign x)
                     (emit (EvExecute procedure) s3)))"
    using nd gp sw bp ok nb
    by (cases "drv_execute drv (step s3) procedure")
       (auto simp: executeStoredProcedure_def executeStoredProcedure_try_def split: option.splits)
qed



text \<open>\<open>sp_who\<close> and \<open>dbo.xp_fixeddrives\<close> are executed, although both contain a substring
  that \<open>executeQuery\<close> blocks; \<open>sp_who\<close> is executed in the database \<open>Sales\<close> as well,
  after the name is bound and the \<open>USE\<close> batch sent.\<close>

theorem executeStoredProcedure_name_unfiltered_witness:
  "map_option (\<lambda>(r, s'). (r, eventsSince freshService s'))
     (executeStoredProcedure openConfig healthyDriver ''sp_who'' [] None freshService)
     = Some (Inr (StoredProcedureResultSuccess [''Id'', ''Name''] [[SqlNum 5, SqlText ''Ann'']] 1
                    [] (SqlNum 0) [1]),
             [EvConnect 0, EvExecute ''sp_who''])
   \<and> blockedKeyword ''sp_who''
   \<and> map_option (\<lambda>(r, s'). (r, eventsSince freshService s'))
     (executeStoredProcedure openConfig healthyDriver ''dbo.xp_fixeddrives''
        [\<lparr>p_name = ''@Id'', p_type = ''int'', p_value = SqlNum 5\<rparr>] None freshService)
     = Some (Inr (StoredProcedureResultSuccess [''Id'', ''Name''] [[SqlNum 5, SqlText ''Ann'']] 1
                    [] (SqlNum 0) [1]),
             [EvConnect 0, EvInput ''Id'' sql_Int, EvExecute ''dbo.xp_fixeddrives''])
   \<and> blockedKeyword ''dbo.xp_fixeddrives''
   \<and> map_option (\<lambda>(r, s'). (r, eventsSince freshService s'))
     (executeStoredProcedure openConfig healthyDriver ''sp_who'' [] (Some ''Sales'') freshService)
     = Some (Inr (StoredProcedureResultSuccess [''Id'', ''Name''] [[SqlNum 5, SqlText ''Ann'']] 1
                    [] (SqlNum 0) [1]),
             [EvConnect 0, EvInput ''db_name_param'' sql_NVarChar, EvBatch ''USE [Sales]'',
              EvExecute ''sp_who''])"
proof -
  let ?p = "\<lparr>pool_id = 0, connected = True\<rparr>"
  let ?param = "\<lparr>p_name = ''@Id'', p_type = ''int'', p_value = SqlNum 5\<rparr>"
  let ?D = "orDefault None (database openConfig)"
  have D: "?D = database openConfig" by (simp add: orDefault_def open_facts)
  have pre1: "((''sp_who'' \<noteq> [] \<and> list_all isWordChar ''sp_who'')
       \<or> (\<exists>q n. ''sp_who'' = q @ ''.'' @ n \<and> q \<noteq> [] \<and> list_all isWordChar q
                 \<and> n \<noteq> [] \<and> list_all isWordChar n))
    \<and> (allowedList openConfig = [] \<or> ?D \<in> set (allowedList openConfig))
    \<and> getPool openConfig healthyDriver 0 freshService = Some (Inr ?p, connectedService)
    \<and> (?D = database openConfig
        \<or> (dbNameFormat_ok ?D
            \<and> drv_input healthyDriver (step connectedService) ''db_name_param'' sql_NVarChar (SqlText ?D) = None
            \<and> drv_batch healthyDriver (Suc (step connectedService)) (useStatement ?D) = None))
    \<and> bindParameters healthyDriver []
         (if ?D = database openConfig then connectedService
          else emit (EvBatch (useStatement ?D)) (emit (EvInput ''db_name_param'' sql_NVarChar) connectedService))
        = (None, connectedService)"
    using procedure_examples(1) D by (simp add: open_facts healthy_getPool)
  have a: "executeStoredProcedure openConfig healthyDriver ''sp_who'' [] None freshService
     = Some (Inr (StoredProcedureResultSuccess [''Id'', ''Name''] [[SqlNum 5, SqlText ''Ann'']] 1
                    [] (SqlNum 0) [1]), emit (EvExecute ''sp_who'') connectedService)"
    using executeStoredProcedure_name_unfiltered [where cfg = openConfig and drv = healthyDriver
      and procedure = "''sp_who''" and parameters = "[]" and db = None and s = freshService
      and p = ?p and ?s1.0 = connectedService and ?s3.0 = connectedService, rule_format, OF pre1]
    by (simp add: healthy_execute shapeProcedureResult_def)
  let ?s3 = "emit (EvInput ''Id'' sql_Int) connectedService"
  have split: "''dbo.xp_fixeddrives'' = ''dbo'' @ ''.'' @ ''xp_fixeddrives''" by simp
  have bind: "bindParameters healthyDriver [?param] connectedService = (None, ?s3)"
    by (simp add: open_facts boundName_def startsWith_def mapStringToSqlType_def js_string_defs
          sqlDataTypeMap_def Let_def)
  have pre2: "((''dbo.xp_fixeddrives'' \<noteq> [] \<and> list_all isWordChar ''dbo.xp_fixeddrives'')
       \<or> (\<exists>q n. ''dbo.xp_fixeddrives'' = q @ ''.'' @ n \<and> q \<noteq> [] \<and> list_all isWordChar q
                 \<and> n \<noteq> [] \<and> list_all isWordChar n))
    \<and> (allowedList openConfig = [] \<or> ?D \<in> set (allowedList openConfig))
    \<and> getPool openConfig healthyDriver 0 freshService = Some (Inr ?p, connectedService)
    \<and> (?D = database openConfig
        \<or> (dbNameFormat_ok ?D
            \<and> drv_input healthyDriver (step connectedService) ''db_name_param'' sql_NVarChar (SqlText ?D) = None
            \<and> drv_batch healthyDriver (Suc (step connectedService)) (useStatement ?D) = None))
    \<and> bindParameters healthyDriver [?param]
         (if ?D = database openConfig then connectedService
          else emit (EvBatch (useStatement ?D)) (emit (EvInput ''db_name_param'' sql_NVarChar) connectedService))
        = (None, ?s3)"
  proof -
    have "\<exists>q n. ''dbo.xp_fixeddrives'' = q @ ''.'' @ n \<and> q \<noteq> [] \<and> list_all isWordChar q
                 \<and> n \<noteq> [] \<and> list_all isWordChar n"
      using split procedure_examples(2,3) by blast
    then show ?thesis using bind D by (simp add: open_facts healthy_getPool)
  qed
  have b: "executeStoredProcedure openConfig healthyDriver ''dbo.xp_fixeddrives'' [?param] None freshService
     = Some (Inr (StoredProcedureResultSuccess [''Id'', ''Name''] [[SqlNum 5, SqlText ''Ann'']] 1
                    [] (SqlNum 0) [1]), emit (EvExecute ''dbo.xp_fixeddrives'') ?s3)"
    using executeStoredProcedure_name_unfiltered [where cfg = openConfig and drv = healthyDriver
      and procedure = "''dbo.xp_fixeddrives''" and parameters = "[?param]" and db = None and s = freshService
      and p = ?p and ?s1.0 = connectedService and ?s3.0 = ?s3, rule_format, OF pre2]
    by (simp add: healthy_execute shapeProcedureResult_def)
  let ?E = "orDefault (Some ''Sales'') (database openConfig)"
  let ?s4 = "emit (EvBatch ''USE [Sales]'') (emit (EvInput ''db_name_param'' sql_NVarChar) connectedService)"
  have E: "?E = ''Sales''" "?E \<noteq> database openConfig" "dbNameFormat_ok ?E" "useStatement ?E = ''USE [Sales]''"
    by (simp_all add: orDefault_def open_facts dbNameFormat_ok_def isDbNameChar_def isWordChar_def
          useStatement_def)
  have pre3: "((''sp_who'' \<noteq> [] \<and> list_all isWordChar ''sp_who'')
       \<or> (\<exists>q n. ''sp_who'' = q @ ''.'' @ n \<and> q \<noteq> [] \<and> list_all isWordChar q
                 \<and> n \<noteq> [] \<and> list_all isWordChar n))
    \<and> (allowedList openConfig = [] \<or> ?E \<in> set (allowedList openConfig))
    \<and> getPool openConfig healthyDriver 0 freshService = Some (Inr ?p, connectedService)
    \<and> (?E = database openConfig
        \<or> (dbNameFormat_ok ?E
            \<and> drv_input healthyDriver (step connectedService) ''db_name_param'' sql_NVarChar (SqlText ?E) = None
            \<and> drv_batch healthyDriver (Suc (step connectedService)) (useStatement ?E) = None))
    \<and> bindParameters healthyDriver []
         (if ?E = database openConfig then connectedService
          else emit (EvBatch (useStatement ?E)) (emit (EvInput ''db_name_param'' sql_NVarChar) connectedService))
        = (None, ?s4)"
    using procedure_examples(1) E(2,3,4) by (simp add: open_facts healthy_getPool)
  have c: "executeStoredProcedure openConfig healthyDriver ''sp_who'' [] (Some ''Sales'') freshService
     = Some (Inr (StoredProcedureResultSuccess [''Id'', ''Name''] [[SqlNum 5, SqlText ''Ann'']] 1
                    [] (SqlNum 0) [1]), emit (EvExecute ''sp_who'') ?s4)"
    using executeStoredProcedure_name_unfiltered [where cfg = openConfig and drv = healthyDriver
      and procedure = "''sp_who''" and parameters = "[]" and db = "Some ''Sales''" and s = freshService
      and p = ?p and ?s1.0 = connectedService and ?s3.0 = ?s4, rule_format, OF pre3]
    by (simp add: healthy_execute shapeProcedureResult_def)
  have ev: "eventsSince freshService (emit (EvExecute ''sp_who'') connectedService)
              = [EvConnect 0, EvExecute ''sp_who'']"
       "eventsSince freshService (emit (EvExecute ''dbo.xp_fixeddrives'') ?s3)
              = [EvConnect 0, EvInput ''Id'' sql_Int, EvExecute ''dbo.xp_fixeddrives'']"
       "eventsSince freshService (emit (EvExecute ''sp_who'') ?s4)
              = [EvConnect 0, EvInput ''db_name_param'' sql_NVarChar, EvBatch ''USE [Sales]'',
                 EvExecute ''sp_who'']"
    by (simp_all add: eventsSince_def step_def freshService_def connectedService_def emit_def)
  show ?thesis
    using a b c ev procedure_examples(4,5) by simp
qed

subsection \<open>C5: the schema cache and its TTL\<close>

text \<open>
  C5, for every database key \<open>K\<close>. If a \<open>getSchema(K)\<close> call found no valid entry and
  returned \<open>tables\<close>, it stored \<open>(t0, tables)\<close> for \<open>K\<close>, and every later call made while
  that entry is in the cache and \<open>Date.now() - t0 < TTL\<close> passes the whitelist check and
  returns \<open>tables\<close> with the state unchanged: nothing is fetched. If \<open>K\<close> has no entry, or
  one with \<open>Date.now() - t0 \<ge> TTL\<close>, and the call proceeds (the whitelist admits \<open>K\<close>, a
  pool is obtained, the context switch passes), the call sends the metadata query exactly
  once, and when the query succeeds its assembled result replaces the entry for \<open>K\<close>,
  with the time read after the query, and is returned; the other entries are untouched.
  No call sends the metadata query more than once.
\<close>

theorem getSchema_cache_ttl:
  fixes cfg drv K s p s1
  defines "s2 \<equiv> (if K = database cfg then s1 else emit (EvBatch (useStatement K)) s1)"
  shows
  "(getSchema cfg drv K sA = Some (Inr tables, sA') \<and> cachedSchema cfg drv K sA = None
      \<longrightarrow> (\<exists>t0. schemaCache sA' K = Some (t0, tables)
             \<and> (\<forall>sB. schemaCache sB K = Some (t0, tables)
                        \<and> Date_now drv (step sB) - t0 < schemaCacheTTL cfg
                    \<longrightarrow> getSchema cfg drv K sB = Some (Inr tables, sB))))
   \<and> ((allowedList cfg = [] \<or> K \<in> set (allowedList cfg))
       \<and> (schemaCache s K = None
           \<or> (\<exists>t0 d. schemaCache s K = Some (t0, d) \<and> schemaCacheTTL cfg \<le> Date_now drv (step s) - t0))
       \<and> getPool cfg drv 0 s = Some (Inr p, s1)
       \<and> (K = database cfg \<or> (dbNameFormat_ok K \<and> drv_batch drv (step s1) (useStatement K) = None))
      \<longrightarrow> (\<forall>r s'. getSchema cfg drv K s = Some (r, s')
                    \<longrightarrow> count_list (eventsSince s s') EvSchemaQuery = 1)
          \<and> (\<forall>rows. drv_schemaQuery drv (step s2) = Inr rows
                \<longrightarrow> getSchema cfg drv K s
                      = Some (Inr (assembleTables rows),
                              (emit EvSchemaQuery s2)\<lparr>schemaCache :=
                                 (schemaCache s)(K \<mapsto> (Date_now drv (Suc (step s2)), assembleTables rows))\<rparr>)))
   \<and> (getSchema cfg drv K s = Some (r, s') \<longrightarrow> count_list (eventsSince s s') EvSchemaQuery \<le> 1)"
proof (intro conjI impI)
  assume a: "getSchema cfg drv K sA = Some (Inr tables, sA') \<and> cachedSchema cfg drv K sA = None"
  then have nd: "\<not> whitelistDenies cfg K"
    and st: "schemaCache sA' K = Some (Date_now drv (step sA'), tables)"
    using getSchema_success_stored [of cfg drv K sA tables sA'] by simp_all
  have "getSchema cfg drv K sB = Some (Inr tables, sB)"
    if "schemaCache sB K = Some (Date_now drv (step sA'), tables)
          \<and> Date_now drv (step sB) - Date_now drv (step sA') < schemaCacheTTL cfg" for sB
    using that nd getSchema_hit [of cfg K sB "Date_now drv (step sA')" tables drv] by blast
  with st show "\<exists>t0. schemaCache sA' K = Some (t0, tables)
             \<and> (\<forall>sB. schemaCache sB K = Some (t0, tables)
                        \<and> Date_now drv (step sB) - t0 < schemaCacheTTL cfg
                    \<longrightarrow> getSchema cfg drv K sB = Some (Inr tables, sB))"
    by blast
next
  assume a: "(allowedList cfg = [] \<or> K \<in> set (allowedList cfg))
       \<and> (schemaCache s K = None
           \<or> (\<exists>t0 d. schemaCache s K = Some (t0, d) \<and> schemaCacheTTL cfg \<le> Date_now drv (step s) - t0))
       \<and> getPool cfg drv 0 s = Some (Inr p, s1)
       \<and> (K = database cfg \<or> (dbNameFormat_ok K \<and> drv_batch drv (step s1) (useStatement K) = None))"
  then have nd: "\<not> whitelistDenies cfg K" by (auto simp: whitelistDenies_iff)
  from a have miss: "cachedSchema cfg drv K s = None" by (simp add: cachedSchema_None_iff)
  from a have gp: "getPool cfg drv 0 s = Some (Inr p, s1)" by simp
  from a have sw: "switchContext cfg drv ''DatabaseService: Invalid database name format for schema: '' K s1 = (None, s2)"
    unfolding s2_def by (intro switchContext_passes) blast
  show "\<forall>r s'. getSchema cfg drv K s = Some (r, s')
                    \<longrightarrow> count_list (eventsSince s s') EvSchemaQuery = 1"
    using getSchema_miss_fetches_once [OF nd miss gp sw] by blast
  show "\<forall>rows. drv_schemaQuery drv (step s2) = Inr rows
                \<longrightarrow> getSchema cfg drv K s
                      = Some (Inr (assembleTables rows),
                              (emit EvSchemaQuery s2)\<lparr>schemaCache :=
                                 (schemaCache s)(K \<mapsto> (Date_now drv (Suc (step s2)), assembleTables rows))\<rparr>)"
    using getSchema_miss_stores [OF nd miss gp sw] by blast
next
  assume "getSchema cfg drv K s = Some (r, s')"
  then show "count_list (eventsSince s s') EvSchemaQuery \<le> 1"
    by (rule getSchema_fetches_at_most_once)
qed


text \<open>A first call on the new service fetches and stores; a second call on the resulting
  state returns the same tables and leaves the state as it is; a call on an expired entry
  fetches once and replaces the entry.\<close>

theorem getSchema_cache_ttl_witness:
  "getSchema openConfig healthyDriver ''master'' freshService = Some (Inr usersTable, cachedService)
   \<and> getSchema openConfig healthyDriver ''master'' cachedService = Some (Inr usersTable, cachedService)
   \<and> map_option (\<lambda>(r, s'). (r, schemaCache s' ''master'', count_list (eventsSince staleService s') EvSchemaQuery))
        (getSchema openConfig healthyDriver ''master'' staleService)
      = Some (Inr usersTable, Some (2000, usersTable), 1)"
proof -
  let ?p = "\<lparr>pool_id = 0, connected = True\<rparr>"
  note inst = getSchema_cache_ttl [where cfg = openConfig and drv = healthyDriver and K = "''master''"]
  \<comment> \<open>first call: nothing cached\<close>
  have pre1: "(allowedList openConfig = [] \<or> ''master'' \<in> set (allowedList openConfig))
       \<and> (schemaCache freshService ''master'' = None
           \<or> (\<exists>t0 d. schemaCache freshService ''master'' = Some (t0, d)
                  \<and> schemaCacheTTL openConfig \<le> Date_now healthyDriver (step freshService) - t0))
       \<and> getPool openConfig healthyDriver 0 freshService = Some (Inr ?p, connectedService)
       \<and> (''master'' = database openConfig
           \<or> (dbNameFormat_ok ''master'' \<and> drv_batch healthyDriver (step connectedService) (useStatement ''master'') = None))"
    by (simp add: open_facts healthy_getPool fresh_cache)
  from inst [where s = freshService and p = ?p and ?s1.0 = connectedService,
             THEN conjunct2, THEN conjunct1, rule_format, OF pre1, THEN conjunct2, rule_format,
             OF healthy_schema(1) [of "step (if ''master'' = database openConfig then connectedService
                  else emit (EvBatch (useStatement ''master'')) connectedService)"]]
  have first: "getSchema openConfig healthyDriver ''master'' freshService = Some (Inr usersTable, cachedService)"
    by (simp add: open_facts assemble_example healthy_schema cachedService_def connectedService_def
          freshService_def emit_def step_def)
  \<comment> \<open>second call: the entry just stored is fresh\<close>
  have miss1: "cachedSchema openConfig healthyDriver ''master'' freshService = None"
    by (simp add: cachedSchema_def freshService_def)
  from inst [where sA = freshService and tables = usersTable and sA' = cachedService,
             THEN conjunct1, rule_format, OF conjI, OF first miss1]
  obtain t0 where t0: "schemaCache cachedService ''master'' = Some (t0, usersTable)"
    and hit: "\<forall>sB. schemaCache sB ''master'' = Some (t0, usersTable)
                 \<and> Date_now healthyDriver (step sB) - t0 < schemaCacheTTL openConfig
               \<longrightarrow> getSchema openConfig healthyDriver ''master'' sB = Some (Inr usersTable, sB)"
    by blast
  from t0 have "t0 = 2000" by (simp add: cachedService_def)
  with t0 have "schemaCache cachedService ''master'' = Some (t0, usersTable)
                 \<and> Date_now healthyDriver (step cachedService) - t0 < schemaCacheTTL openConfig"
    by (simp add: healthy_schema cachedService_def step_def)
  with hit have second: "getSchema openConfig healthyDriver ''master'' cachedService = Some (Inr usersTable, cachedService)"
    by blast
  \<comment> \<open>a call on an expired entry\<close>
  have pre3: "(allowedList openConfig = [] \<or> ''master'' \<in> set (allowedList openConfig))
       \<and> (schemaCache staleService ''master'' = None
           \<or> (\<exists>t0 d. schemaCache staleService ''master'' = Some (t0, d)
                  \<and> schemaCacheTTL openConfig \<le> Date_now healthyDriver (step staleService) - t0))
       \<and> getPool openConfig healthyDriver 0 staleService = Some (Inr ?p, staleService)
       \<and> (''master'' = database openConfig
           \<or> (dbNameFormat_ok ''master'' \<and> drv_batch healthyDriver (step staleService) (useStatement ''master'') = None))"
    by (simp add: open_facts stale_getPool healthy_schema stale_facts)
  note third = inst [where s = staleService and p = ?p and ?s1.0 = staleService,
             THEN conjunct2, THEN conjunct1, rule_format, OF pre3]
  from third [THEN conjunct2, rule_format,
             OF healthy_schema(1) [of "step (if ''master'' = database openConfig then staleService
                  else emit (EvBatch (useStatement ''master'')) staleService)"]]
  have run3: "getSchema openConfig healthyDriver ''master'' staleService
       = Some (Inr usersTable,
               (emit EvSchemaQuery staleService)\<lparr>schemaCache :=
                  (schemaCache staleService)(''master'' \<mapsto> (2000, usersTable))\<rparr>)"
    by (simp add: open_facts assemble_example healthy_schema stale_facts)
  from third [THEN conjunct1, rule_format, OF run3]
  have cnt: "count_list (eventsSince staleService
               ((emit EvSchemaQuery staleService)\<lparr>schemaCache :=
                  (schemaCache staleService)(''master'' \<mapsto> (2000, usersTable))\<rparr>)) EvSchemaQuery = 1" .
  from first second run3 cnt show ?thesis by simp
qed

subsection \<open>C7: recovery from a connection failure\<close>

text \<open>
  C7, as stated, fails. A query that throws the native error \<open>Connection timeout\<close> meets a
  connection-indicative error: its lower-cased message contains \<open>connect\<close>. In
  \<open>executeQuery\<close> the classification tests \<open>timeout\<close> before \<open>connect\<close>, so the error is
  typed \<open>CONNECTION_TIMEOUT\<close>, and the rebuild is guarded by the type being
  \<open>CONNECTION_ERROR\<close>: the pool is neither closed nor rebuilt (the run consists of the first
  connection and the query, and the first pool is still in place), and the error that
  surfaces is not a \<open>CONNECTION_ERROR\<close>. \<open>getSchema\<close>, whose classification has no
  \<open>timeout\<close> test, types the same error \<open>CONNECTION_ERROR\<close>.
\<close>

theorem self_heal_timeout_counterexample:
  "connectionIndicative connectionTimeoutError
   \<and> schemaErrorType connectionTimeoutError = CONNECTION_ERROR
   \<and> map_option (\<lambda>(r, s'). (map_sum errorType (\<lambda>res. ()) r, eventsSince freshService s', pool s'))
        (executeQuery openConfig (failingQueries connectionTimeoutError healthyDriver) ''SELECT 1'' None
           freshService)
      = Some (Inl CONNECTION_TIMEOUT, [EvConnect 0, EvQuery ''SELECT 1''],
              Some \<lparr>pool_id = 0, connected = True\<rparr>)"
proof -
  let ?drv = "failingQueries connectionTimeoutError healthyDriver"
  have gp: "getPool openConfig ?drv 0 freshService = Some (Inr \<lparr>pool_id = 0, connected = True\<rparr>, connectedService)"
    by (rule first_getPool) (simp_all add: flaky_facts)
  have tr: "executeQuery_try openConfig ?drv ''SELECT 1'' ''master'' connectedService
           = (Inl (Foreign (JsErr connectionTimeoutError)), afterFailure (EvQuery ''SELECT 1''))"
    by (rule select1_try_fails) (simp_all add: flaky_facts open_facts)
  have "executeQuery openConfig ?drv ''SELECT 1'' None freshService
         = Some (Inl (fromError (Foreign (JsErr connectionTimeoutError)) CONNECTION_TIMEOUT
                        (Some [(''query'', DStr (truncated ''SELECT 1''))])),
                 afterFailure (EvQuery ''SELECT 1''))"
    using gp tr
    by (simp add: executeQuery_def whitelistDenies_iff open_facts orDefault_def executeQuery_catch_def
          error_kinds Let_def del: fromError.simps)
  then show ?thesis
    by (simp add: error_kinds wrapped_native eventsSince_def step_def freshService_def
          connectedService_def afterFailure_def emit_def del: fromError.simps)
qed

text \<open>
  C7, amended: let an operation (\<open>executeQuery\<close>, \<open>executeStoredProcedure\<close>, or \<open>getSchema\<close>
  on a cache miss) pass the whitelist, obtain the pool \<open>p\<close>, and then throw, in the state
  \<open>s2\<close>, a native error that the operation itself classifies as \<open>CONNECTION_ERROR\<close>, with
  no pool creation in flight at the call. Then the operation closes the pool and calls
  \<open>getPool\<close> once more, and that call returns: after \<open>closePool\<close> the service holds no
  pool; the first call made after the failure is the close of \<open>p\<close>, and with a password
  configured the next one is a connect; the final state is the one \<open>getPool\<close> returns.
  The operation throws a \<open>CONNECTION_ERROR\<close>. When the rebuild succeeds, it is the
  original error wrapped with the operation's details (same message, the native error as
  \<open>originalError\<close>), and the service holds a connected pool that was connected during the
  rebuild. When the rebuild fails, it is an error whose \<open>originalError\<close> is the rebuild
  error and whose details carry the original message under \<open>originalErrorMsg\<close> and both
  messages under \<open>details\<close>, and the service holds no pool.
\<close>

theorem connection_failure_self_heal:
  fixes cfg drv s p s1 s2 error db
  defines "D \<equiv> orDefault db (database cfg)"
  defines "healed \<equiv> \<lambda>throws surfacedDetails opName.
     \<exists>g s3 e rest. getPool cfg drv 0 (closePool s2) = Some (g, s3)
        \<and> throws e s3
        \<and> pool (closePool s2) = None
        \<and> eventsSince s2 s3 = EvPoolClose (pool_id p) # rest
        \<and> (\<not> passwordMissing cfg \<longrightarrow> (\<exists>rest'. rest = EvConnect (Suc (step s2)) # rest'))
        \<and> errorType e = CONNECTION_ERROR
        \<and> (\<forall>pl. g = Inr pl \<longrightarrow>
               e = fromError (Foreign (JsErr error)) CONNECTION_ERROR (Some surfacedDetails)
               \<and> message e = js_message error \<and> originalError e = Some error
               \<and> pool s3 = Some pl \<and> connected pl \<and> EvConnect (pool_id pl) \<in> set rest)
        \<and> (\<forall>re. g = Inl re \<longrightarrow>
               originalError e = Some (asError re)
               \<and> detail e ''originalErrorMsg'' = Some (DStr (js_message error))
               \<and> detail e ''details''
                   = Some (DStr (''Reconnect attempt failed after initial failure of '' @ opName
                          @ ''. Original error: '' @ js_message error
                          @ ''. Reconnect error: '' @ message re))
               \<and> pool s3 = None)"
  shows
  "(\<not> isConnecting s \<and> (allowedList cfg = [] \<or> D \<in> set (allowedList cfg))
      \<and> getPool cfg drv 0 s = Some (Inr p, s1)
      \<and> executeQuery_try cfg drv T D s1 = (Inl (Foreign (JsErr error)), s2)
      \<and> queryErrorType error = CONNECTION_ERROR
     \<longrightarrow> healed (\<lambda>e s3. executeQuery cfg drv T db s = Some (Inl e, s3))
           [(''query'', DStr (truncated T))] ''executeQuery'')
   \<and> (\<not> isConnecting s \<and> (allowedList cfg = [] \<or> D \<in> set (allowedList cfg))
      \<and> getPool cfg drv 0 s = Some (Inr p, s1)
      \<and> executeStoredProcedure_try cfg drv procedure parameters D s1 = (Inl (Foreign (JsErr error)), s2)
      \<and> procedureErrorType error = CONNECTION_ERROR
     \<longrightarrow> healed (\<lambda>e s3. executeStoredProcedure cfg drv procedure parameters db s = Some (Inl e, s3))
           [(''procedure'', DStr procedure)] ''executeStoredProcedure'')
   \<and> (\<not> isConnecting s \<and> (allowedList cfg = [] \<or> K \<in> set (allowedList cfg))
      \<and> cachedSchema cfg drv K s = None
      \<and> getPool cfg drv 0 s = Some (Inr p, s1)
      \<and> getSchema_try cfg drv K s1 = (Inl (Foreign (JsErr error)), s2)
      \<and> schemaErrorType error = CONNECTION_ERROR
     \<longrightarrow> healed (\<lambda>e s3. getSchema cfg drv K s = Some (Inl e, s3))
           [(''database'', DStr K)] ''getSchema'')"
proof (intro conjI impI)
  assume a: "\<not> isConnecting s \<and> (allowedList cfg = [] \<or> D \<in> set (allowedList cfg))
      \<and> getPool cfg drv 0 s = Some (Inr p, s1)
      \<and> executeQuery_try cfg drv T D s1 = (Inl (Foreign (JsErr error)), s2)
      \<and> queryErrorType error = CONNECTION_ERROR"
  then have nd: "\<not> whitelistDenies cfg (orDefault db (database cfg))"
    by (auto simp: D_def whitelistDenies_iff)
  from a have i: "\<not> isConnecting s" and gp: "getPool cfg drv 0 s = Some (Inr p, s1)"
    and tr: "executeQuery_try cfg drv T (orDefault db (database cfg)) s1 = (Inl (Foreign (JsErr error)), s2)"
    and ty: "queryErrorType error = CONNECTION_ERROR"
    unfolding D_def by blast+
  from executeQuery_heals [OF i nd gp tr ty] obtain g s3 where g: "getPool cfg drv 0 (closePool s2) = Some (g, s3)"
    and r: "executeQuery cfg drv T db s
              = Some (Inl (case g of
                             Inr pl \<Rightarrow> fromError (Foreign (JsErr error)) CONNECTION_ERROR
                                         (Some [(''query'', DStr (truncated T))])
                           | Inl re \<Rightarrow> queryReconnectFailed cfg T db error re), s3)" by blast
  have i2: "\<not> isConnecting s2"
    using getPool_idle [OF gp i] executeQuery_try_isConnecting [OF tr] by simp
  have p2: "pool s2 = Some p" using getPool_pool [OF gp] executeQuery_try_pool [OF tr] by simp
  note rf = rebuild_facts [OF i2 p2 g]
  from rf(2) obtain rest where ev: "eventsSince s2 s3 = EvPoolClose (pool_id p) # rest"
    and pw: "\<not> passwordMissing cfg \<longrightarrow> (\<exists>rest'. rest = EvConnect (Suc (step s2)) # rest')"
    and cn: "\<forall>pl. g = Inr pl \<longrightarrow> EvConnect (pool_id pl) \<in> set rest" by blast
  define e where "e = (case g of
                             Inr pl \<Rightarrow> fromError (Foreign (JsErr error)) CONNECTION_ERROR
                                         (Some [(''query'', DStr (truncated T))])
                           | Inl re \<Rightarrow> queryReconnectFailed cfg T db error re)"
  have run: "executeQuery cfg drv T db s = Some (Inl e, s3)" using r by (simp only: e_def)
  have kind: "errorType e = CONNECTION_ERROR"
    unfolding e_def by (cases g) (simp_all add: wrapped_native reconnectFailed_facts del: fromError.simps)
  have ok: "\<forall>pl. g = Inr pl \<longrightarrow>
               e = fromError (Foreign (JsErr error)) CONNECTION_ERROR (Some [(''query'', DStr (truncated T))])
               \<and> message e = js_message error \<and> originalError e = Some error
               \<and> pool s3 = Some pl \<and> connected pl \<and> EvConnect (pool_id pl) \<in> set rest"
    using rf(3) cn unfolding e_def by (auto simp: wrapped_native simp del: fromError.simps)
  have bad: "\<forall>re. g = Inl re \<longrightarrow>
               originalError e = Some (asError re)
               \<and> detail e ''originalErrorMsg'' = Some (DStr (js_message error))
               \<and> detail e ''details''
                   = Some (DStr (''Reconnect attempt failed after initial failure of '' @ ''executeQuery''
                          @ ''. Original error: '' @ js_message error
                          @ ''. Reconnect error: '' @ message re))
               \<and> pool s3 = None"
    using rf(4) unfolding e_def by (auto simp: reconnectFailed_facts)
  show "healed (\<lambda>e s3. executeQuery cfg drv T db s = Some (Inl e, s3))
           [(''query'', DStr (truncated T))] ''executeQuery''"
    unfolding healed_def
    by (rule exI [of _ g], rule exI [of _ s3], rule exI [of _ e], rule exI [of _ rest], intro conjI)
       (fact g run rf(1) ev pw kind ok bad)+
next
  assume a: "\<not> isConnecting s \<and> (allowedList cfg = [] \<or> D \<in> set (allowedList cfg))
      \<and> getPool cfg drv 0 s = Some (Inr p, s1)
      \<and> executeStoredProcedure_try cfg drv procedure parameters D s1 = (Inl (Foreign (JsErr error)), s2)
      \<and> procedureErrorType error = CONNECTION_ERROR"
  then have nd: "\<not> whitelistDenies cfg (orDefault db (database cfg))"
    by (auto simp: D_def whitelistDenies_iff)
  from a have i: "\<not> isConnecting s" and gp: "getPool cfg drv 0 s = Some (Inr p, s1)"
    and tr: "executeStoredProcedure_try cfg drv procedure parameters (orDefault db (database cfg)) s1
               = (Inl (Foreign (JsErr error)), s2)"
    and ty: "procedureErrorType error = CONNECTION_ERROR"
    unfolding D_def by blast+
  from executeStoredProcedure_heals [OF i nd gp tr ty] obtain g s3 where g: "getPool cfg drv 0 (closePool s2) = Some (g, s3)"
    and r: "executeStoredProcedure cfg drv procedure parameters db s
              = Some (Inl (case g of
                             Inr pl \<Rightarrow> fromError (Foreign (JsErr error)) CONNECTION_ERROR
                                         (Some [(''procedure'', DStr procedure)])
                           | Inl re \<Rightarrow> procedureReconnectFailed cfg procedure db error re), s3)" by blast
  have i2: "\<not> isConnecting s2"
    using getPool_idle [OF gp i] executeStoredProcedure_try_isConnecting [OF tr] by simp
  have p2: "pool s2 = Some p" using getPool_pool [OF gp] executeStoredProcedure_try_pool [OF tr] by simp
  note rf = rebuild_facts [OF i2 p2 g]
  from rf(2) obtain rest where ev: "eventsSince s2 s3 = EvPoolClose (pool_id p) # rest"
    and pw: "\<not> passwordMissing cfg \<longrightarrow> (\<exists>rest'. rest = EvConnect (Suc (step s2)) # rest')"
    and cn: "\<forall>pl. g = Inr pl \<longrightarrow> EvConnect (pool_id pl) \<in> set rest" by blast
  define e where "e = (case g of
                             Inr pl \<Rightarrow> fromError (Foreign (JsErr error)) CONNECTION_ERROR
                                         (Some [(''procedure'', DStr procedure)])
                           | Inl re \<Rightarrow> procedureReconnectFailed cfg procedure db error re)"
  have run: "executeStoredProcedure cfg drv procedure parameters db s = Some (Inl e, s3)"
    using r by (simp only: e_def)
  have kind: "errorType e = CONNECTION_ERROR"
    unfolding e_def by (cases g) (simp_all add: wrapped_native reconnectFailed_facts del: fromError.simps)
  have ok: "\<forall>pl. g = Inr pl \<longrightarrow>
               e = fromError (Foreign (JsErr error)) CONNECTION_ERROR (Some [(''procedure'', DStr procedure)])
               \<and> message e = js_message error \<and> originalError e = Some error
               \<and> pool s3 = Some pl \<and> connected pl \<and> EvConnect (pool_id pl) \<in> set rest"
    using rf(3) cn unfolding e_def by (auto simp: wrapped_native simp del: fromError.simps)
  have bad: "\<forall>re. g = Inl re \<longrightarrow>
               originalError e = Some (asError re)
               \<and> detail e ''originalErrorMsg'' = Some (DStr (js_message error))
               \<and> detail e ''details''
                   = Some (DStr (''Reconnect attempt failed after initial failure of '' @ ''executeStoredProcedure''
                          @ ''. Original error: '' @ js_message error
                          @ ''. Reconnect error: '' @ message re))
               \<and> pool s3 = None"
    using rf(4) unfolding e_def by (auto simp: reconnectFailed_facts)
  show "healed (\<lambda>e s3. executeStoredProcedure cfg drv procedure parameters db s = Some (Inl e, s3))
           [(''procedure'', DStr procedure)] ''executeStoredProcedure''"
    unfolding healed_def
    by (rule exI [of _ g], rule exI [of _ s3], rule exI [of _ e], rule exI [of _ rest], intro conjI)
       (fact g run rf(1) ev pw kind ok bad)+
next
  assume a: "\<not> isConnecting s \<and> (allowedList cfg = [] \<or> K \<in> set (allowedList cfg))
      \<and> cachedSchema cfg drv K s = None
      \<and> getPool cfg drv 0 s = Some (Inr p, s1)
      \<and> getSchema_try cfg drv K s1 = (Inl (Foreign (JsErr error)), s2)
      \<and> schemaErrorType error = CONNECTION_ERROR"
  then have nd: "\<not> whitelistDenies cfg K"
    by (auto simp: whitelistDenies_iff)
  from a have i: "\<not> isConnecting s" and miss: "cachedSchema cfg drv K s = None"
    and gp: "getPool cfg drv 0 s = Some (Inr p, s1)"
    and tr: "getSchema_try cfg drv K s1 = (Inl (Foreign (JsErr error)), s2)"
    and ty: "schemaErrorType error = CONNECTION_ERROR"
    by blast+
  from getSchema_heals [OF i nd miss gp tr ty] obtain g s3 where g: "getPool cfg drv 0 (closePool s2) = Some (g, s3)"
    and r: "getSchema cfg drv K s
              = Some (Inl (case g of
                             Inr pl \<Rightarrow> fromError (Foreign (JsErr error)) CONNECTION_ERROR
                                         (Some [(''database'', DStr K)])
                           | Inl re \<Rightarrow> schemaReconnectFailed K error re), s3)" by blast
  have i2: "\<not> isConnecting s2"
    using getPool_idle [OF gp i] getSchema_try_isConnecting [OF tr] by simp
  have p2: "pool s2 = Some p" using getPool_pool [OF gp] getSchema_try_pool [OF tr] by simp
  note rf = rebuild_facts [OF i2 p2 g]
  from rf(2) obtain rest where ev: "eventsSince s2 s3 = EvPoolClose (pool_id p) # rest"
    and pw: "\<not> passwordMissing cfg \<longrightarrow> (\<exists>rest'. rest = EvConnect (Suc (step s2)) # rest')"
    and cn: "\<forall>pl. g = Inr pl \<longrightarrow> EvConnect (pool_id pl) \<in> set rest" by blast
  define e where "e = (case g of
                             Inr pl \<Rightarrow> fromError (Foreign (JsErr error)) CONNECTION_ERROR
                                         (Some [(''database'', DStr K)])
                           | Inl re \<Rightarrow> schemaReconnectFailed K error re)"
  have run: "getSchema cfg drv K s = Some (Inl e, s3)" using r by (simp only: e_def)
  have kind: "errorType e = CONNECTION_ERROR"
    unfolding e_def by (cases g) (simp_all add: wrapped_native reconnectFailed_facts del: fromError.simps)
  have ok: "\<forall>pl. g = Inr pl \<longrightarrow>
               e = fromError (Foreign (JsErr error)) CONNECTION_ERROR (Some [(''database'', DStr K)])
               \<and> message e = js_message error \<and> originalError e = Some error
               \<and> pool s3 = Some pl \<and> connected pl \<and> EvConnect (pool_id pl) \<in> set rest"
    using rf(3) cn unfolding e_def by (auto simp: wrapped_native simp del: fromError.simps)
  have bad: "\<forall>re. g = Inl re \<longrightarrow>
               originalError e = Some (asError re)
               \<and> detail e ''originalErrorMsg'' = Some (DStr (js_message error))
               \<and> detail e ''details''
                   = Some (DStr (''Reconnect attempt failed after initial failure of '' @ ''getSchema''
                          @ ''. Original error: '' @ js_message error
                          @ ''. Reconnect error: '' @ message re))
               \<and> pool s3 = None"
    using rf(4) unfolding e_def by (auto simp: reconnectFailed_facts)
  show "healed (\<lambda>e s3. getSchema cfg drv K s = Some (Inl e, s3))
           [(''database'', DStr K)] ''getSchema''"
    unfolding healed_def
    by (rule exI [of _ g], rule exI [of _ s3], rule exI [of _ e], rule exI [of _ rest], intro conjI)
       (fact g run rf(1) ev pw kind ok bad)+
qed

text \<open>
  C7, instances. On a fresh service whose driver fails every statement with
  \<open>Connection lost - read ECONNRESET\<close>, each of \<open>SELECT 1\<close>, the procedure \<open>sp_who\<close> and
  the schema of \<open>master\<close> connects, sends its statement, closes the pool and connects
  again; the original error surfaces as a \<open>CONNECTION_ERROR\<close> and the new pool is in
  place. When the driver refuses every connection after the first and one attempt is
  allowed, the combined error surfaces, carrying both messages, and no pool is left.
\<close>

theorem connection_failure_self_heal_witness:
  "map_option (\<lambda>(r, s'). (map_sum (\<lambda>e. (errorType e, message e)) (\<lambda>res. ()) r,
                            eventsSince freshService s', pool s'))
     (executeQuery openConfig (failingQueries connectionLost healthyDriver) ''SELECT 1'' None freshService)
     = Some (Inl (CONNECTION_ERROR, ''Connection lost - read ECONNRESET''),
             [EvConnect 0, EvQuery ''SELECT 1'', EvPoolClose 0, EvConnect 3],
             Some \<lparr>pool_id = 3, connected = True\<rparr>)
   \<and> map_option (\<lambda>(r, s'). (map_sum (\<lambda>e. (errorType e, message e)) (\<lambda>res. ()) r,
                            eventsSince freshService s', pool s'))
     (executeStoredProcedure openConfig (failingQueries connectionLost healthyDriver) ''sp_who'' [] None
        freshService)
     = Some (Inl (CONNECTION_ERROR, ''Connection lost - read ECONNRESET''),
             [EvConnect 0, EvExecute ''sp_who'', EvPoolClose 0, EvConnect 3],
             Some \<lparr>pool_id = 3, connected = True\<rparr>)
   \<and> map_option (\<lambda>(r, s'). (map_sum (\<lambda>e. (errorType e, message e)) (\<lambda>res. ()) r,
                            eventsSince freshService s', pool s'))
     (getSchema openConfig (failingQueries connectionLost healthyDriver) ''master'' freshService)
     = Some (Inl (CONNECTION_ERROR, ''Connection lost - read ECONNRESET''),
             [EvConnect 0, EvSchemaQuery, EvPoolClose 0, EvConnect 3],
             Some \<lparr>pool_id = 3, connected = True\<rparr>)
   \<and> map_option (\<lambda>(r, s'). (map_sum (\<lambda>e. (errorType e, detail e ''originalErrorMsg'', detail e ''details''))
                                      (\<lambda>res. ()) r,
                             eventsSince freshService s', pool s'))
     (executeQuery (openConfig\<lparr>maxRetries := 1\<rparr>)
        (connectOnce (failingQueries connectionLost healthyDriver)) ''SELECT 1'' None freshService)
     = Some (Inl (CONNECTION_ERROR, Some (DStr ''Connection lost - read ECONNRESET''),
                  Some (DStr ''Reconnect attempt failed after initial failure of executeQuery. Original error: Connection lost - read ECONNRESET. Reconnect error: DatabaseService: Failed to connect to database after 1 attempts. Last error: Failed to connect to localhost:1433 - Could not connect (sequence)'')),
             [EvConnect 0, EvQuery ''SELECT 1'', EvPoolClose 0, EvConnect 3, EvPoolClose 3, EvPoolClose 3],
             None)"
proof -
  let ?p = "\<lparr>pool_id = 0, connected = True\<rparr>"
  let ?p3 = "\<lparr>pool_id = 3, connected = True\<rparr>"
  let ?drv = "failingQueries connectionLost healthyDriver"
  let ?drv' = "connectOnce (failingQueries connectionLost healthyDriver)"
  let ?cfg' = "openConfig\<lparr>maxRetries := 1\<rparr>"
  let ?D = "orDefault None (database openConfig)"
  have idle: "\<not> isConnecting freshService" by (simp add: freshService_def)
  have msg: "js_message connectionLost = ''Connection lost - read ECONNRESET''"
    by (simp add: connectionLost_def)
  have D: "?D = ''master''" by (simp add: orDefault_def open_facts)
  have gp: "getPool openConfig ?drv 0 freshService = Some (Inr ?p, connectedService)"
    by (rule first_getPool) (simp_all add: flaky_facts)
  have rebuilt: "getPool openConfig ?drv 0 (closePool (afterFailure ev))
     = Some (Inr ?p3,
             \<lparr>pool = Some ?p3, connectionPromise = Some (Resolved 3),
              isConnecting = False, abortController = Some False, schemaCache = Map.empty,
              connectionRetries = 0,
              trace = [EvConnect 0, ev, EvPoolClose 0, EvConnect 3]\<rparr>)" for ev
    by (rule rebuild_succeeds) (simp_all add: flaky_facts)
  \<comment> \<open>\<open>executeQuery\<close>, the rebuild succeeds\<close>
  have trQ: "executeQuery_try openConfig ?drv ''SELECT 1'' ?D connectedService
           = (Inl (Foreign (JsErr connectionLost)), afterFailure (EvQuery ''SELECT 1''))"
    unfolding D by (rule select1_try_fails) (simp_all add: flaky_facts open_facts)
  have preQ: "\<not> isConnecting freshService
      \<and> (allowedList openConfig = [] \<or> ?D \<in> set (allowedList openConfig))
      \<and> getPool openConfig ?drv 0 freshService = Some (Inr ?p, connectedService)
      \<and> executeQuery_try openConfig ?drv ''SELECT 1'' ?D connectedService
           = (Inl (Foreign (JsErr connectionLost)), afterFailure (EvQuery ''SELECT 1''))
      \<and> queryErrorType connectionLost = CONNECTION_ERROR"
    using idle gp trQ by (simp add: open_facts error_kinds)
  from connection_failure_self_heal [where cfg = openConfig and drv = ?drv and s = freshService
         and p = ?p and ?s1.0 = connectedService and ?s2.0 = "afterFailure (EvQuery ''SELECT 1'')"
         and error = connectionLost and db = None and T = "''SELECT 1''",
         THEN conjunct1, rule_format, OF preQ]
  obtain g s3 e where g: "getPool openConfig ?drv 0 (closePool (afterFailure (EvQuery ''SELECT 1''))) = Some (g, s3)"
    and run: "executeQuery openConfig ?drv ''SELECT 1'' None freshService = Some (Inl e, s3)"
    and ty: "errorType e = CONNECTION_ERROR"
    and ok: "\<forall>pl. g = Inr pl \<longrightarrow>
               e = fromError (Foreign (JsErr connectionLost)) CONNECTION_ERROR
                     (Some [(''query'', DStr (truncated ''SELECT 1''))])
               \<and> message e = js_message connectionLost \<and> originalError e = Some connectionLost
               \<and> pool s3 = Some pl \<and> connected pl"
    by blast
  from g rebuilt [of "EvQuery ''SELECT 1''"] have gv: "g = Inr ?p3"
    and sv: "s3 = \<lparr>pool = Some ?p3, connectionPromise = Some (Resolved 3),
              isConnecting = False, abortController = Some False, schemaCache = Map.empty,
              connectionRetries = 0,
              trace = [EvConnect 0, EvQuery ''SELECT 1'', EvPoolClose 0, EvConnect 3]\<rparr>" by simp_all
  from gv ok have "message e = js_message connectionLost" "pool s3 = Some ?p3" by blast+
  hence m: "message e = ''Connection lost - read ECONNRESET''" and pl: "pool s3 = Some ?p3"
    by (simp_all only: msg)
  from sv have ev: "eventsSince freshService s3 = [EvConnect 0, EvQuery ''SELECT 1'', EvPoolClose 0, EvConnect 3]"
    by (simp add: eventsSince_def step_def freshService_def)
  from run ty m ev pl have a: "map_option (\<lambda>(r, s'). (map_sum (\<lambda>e. (errorType e, message e)) (\<lambda>res. ()) r,
                            eventsSince freshService s', pool s'))
     (executeQuery openConfig ?drv ''SELECT 1'' None freshService)
     = Some (Inl (CONNECTION_ERROR, ''Connection lost - read ECONNRESET''),
             [EvConnect 0, EvQuery ''SELECT 1'', EvPoolClose 0, EvConnect 3], Some ?p3)" by simp
  \<comment> \<open>\<open>executeStoredProcedure\<close>, the rebuild succeeds\<close>
  have trP: "executeStoredProcedure_try openConfig ?drv ''sp_who'' [] ?D connectedService
           = (Inl (Foreign (JsErr connectionLost)), afterFailure (EvExecute ''sp_who''))"
    unfolding D by (rule sp_who_try_fails) (simp_all add: flaky_facts open_facts)
  have preP: "\<not> isConnecting freshService
      \<and> (allowedList openConfig = [] \<or> ?D \<in> set (allowedList openConfig))
      \<and> getPool openConfig ?drv 0 freshService = Some (Inr ?p, connectedService)
      \<and> executeStoredProcedure_try openConfig ?drv ''sp_who'' [] ?D connectedService
           = (Inl (Foreign (JsErr connectionLost)), afterFailure (EvExecute ''sp_who''))
      \<and> procedureErrorType connectionLost = CONNECTION_ERROR"
    using idle gp trP by (simp add: open_facts error_kinds)
  from connection_failure_self_heal [where cfg = openConfig and drv = ?drv and s = freshService
         and p = ?p and ?s1.0 = connectedService and ?s2.0 = "afterFailure (EvExecute ''sp_who'')"
         and error = connectionLost and db = None and procedure = "''sp_who''" and parameters = "[]",
         THEN conjunct2, THEN conjunct1, rule_format, OF preP]
  obtain gP sP eP where g: "getPool openConfig ?drv 0 (closePool (afterFailure (EvExecute ''sp_who''))) = Some (gP, sP)"
    and run: "executeStoredProcedure openConfig ?drv ''sp_who'' [] None freshService = Some (Inl eP, sP)"
    and ty: "errorType eP = CONNECTION_ERROR"
    and ok: "\<forall>pl. gP = Inr pl \<longrightarrow>
               eP = fromError (Foreign (JsErr connectionLost)) CONNECTION_ERROR
                     (Some [(''procedure'', DStr ''sp_who'')])
               \<and> message eP = js_message connectionLost \<and> originalError eP = Some connectionLost
               \<and> pool sP = Some pl \<and> connected pl"
    by blast
  from g rebuilt [of "EvExecute ''sp_who''"] have gv: "gP = Inr ?p3"
    and sv: "sP = \<lparr>pool = Some ?p3, connectionPromise = Some (Resolved 3),
              isConnecting = False, abortController = Some False, schemaCache = Map.empty,
              connectionRetries = 0,
              trace = [EvConnect 0, EvExecute ''sp_who'', EvPoolClose 0, EvConnect 3]\<rparr>" by simp_all
  from gv ok have "message eP = js_message connectionLost" "pool sP = Some ?p3" by blast+
  hence m: "message eP = ''Connection lost - read ECONNRESET''" and pl: "pool sP = Some ?p3"
    by (simp_all only: msg)
  from sv have ev: "eventsSince freshService sP = [EvConnect 0, EvExecute ''sp_who'', EvPoolClose 0, EvConnect 3]"
    by (simp add: eventsSince_def step_def freshService_def)
  from run ty m ev pl have b: "map_option (\<lambda>(r, s'). (map_sum (\<lambda>e. (errorType e, message e)) (\<lambda>res. ()) r,
                            eventsSince freshService s', pool s'))
     (executeStoredProcedure openConfig ?drv ''sp_who'' [] None freshService)
     = Some (Inl (CONNECTION_ERROR, ''Connection lost - read ECONNRESET''),
             [EvConnect 0, EvExecute ''sp_who'', EvPoolClose 0, EvConnect 3], Some ?p3)" by simp
  \<comment> \<open>\<open>getSchema\<close>, the rebuild succeeds\<close>
  have trS: "getSchema_try openConfig ?drv ''master'' connectedService
           = (Inl (Foreign (JsErr connectionLost)), afterFailure EvSchemaQuery)"
    by (rule master_schema_try_fails) (simp_all add: flaky_facts open_facts)
  have miss: "cachedSchema openConfig ?drv ''master'' freshService = None"
    by (simp add: cachedSchema_def fresh_cache)
  have preS: "\<not> isConnecting freshService
      \<and> (allowedList openConfig = [] \<or> ''master'' \<in> set (allowedList openConfig))
      \<and> cachedSchema openConfig ?drv ''master'' freshService = None
      \<and> getPool openConfig ?drv 0 freshService = Some (Inr ?p, connectedService)
      \<and> getSchema_try openConfig ?drv ''master'' connectedService
           = (Inl (Foreign (JsErr connectionLost)), afterFailure EvSchemaQuery)
      \<and> schemaErrorType connectionLost = CONNECTION_ERROR"
    using idle gp trS miss by (simp add: open_facts error_kinds)
  from connection_failure_self_heal [where cfg = openConfig and drv = ?drv and s = freshService
         and p = ?p and ?s1.0 = connectedService and ?s2.0 = "afterFailure EvSchemaQuery"
         and error = connectionLost and K = "''master''",
         THEN conjunct2, THEN conjunct2, rule_format, OF preS]
  obtain gS sS eS where g: "getPool openConfig ?drv 0 (closePool (afterFailure EvSchemaQuery)) = Some (gS, sS)"
    and run: "getSchema openConfig ?drv ''master'' freshService = Some (Inl eS, sS)"
    and ty: "errorType eS = CONNECTION_ERROR"
    and ok: "\<forall>pl. gS = Inr pl \<longrightarrow>
               eS = fromError (Foreign (JsErr connectionLost)) CONNECTION_ERROR
                     (Some [(''database'', DStr ''master'')])
               \<and> message eS = js_message connectionLost \<and> originalError eS = Some connectionLost
               \<and> pool sS = Some pl \<and> connected pl"
    by blast
  from g rebuilt [of EvSchemaQuery] have gv: "gS = Inr ?p3"
    and sv: "sS = \<lparr>pool = Some ?p3, connectionPromise = Some (Resolved 3),
              isConnecting = False, abortController = Some False, schemaCache = Map.empty,
              connectionRetries = 0,
              trace = [EvConnect 0, EvSchemaQuery, EvPoolClose 0, EvConnect 3]\<rparr>" by simp_all
  from gv ok have "message eS = js_message connectionLost" "pool sS = Some ?p3" by blast+
  hence m: "message eS = ''Connection lost - read ECONNRESET''" and pl: "pool sS = Some ?p3"
    by (simp_all only: msg)
  from sv have ev: "eventsSince freshService sS = [EvConnect 0, EvSchemaQuery, EvPoolClose 0, EvConnect 3]"
    by (simp add: eventsSince_def step_def freshService_def)
  from run ty m ev pl have c: "map_option (\<lambda>(r, s'). (map_sum (\<lambda>e. (errorType e, message e)) (\<lambda>res. ()) r,
                            eventsSince freshService s', pool s'))
     (getSchema openConfig ?drv ''master'' freshService)
     = Some (Inl (CONNECTION_ERROR, ''Connection lost - read ECONNRESET''),
             [EvConnect 0, EvSchemaQuery, EvPoolClose 0, EvConnect 3], Some ?p3)" by simp
  \<comment> \<open>\<open>executeQuery\<close>, the rebuild fails\<close>
  let ?D' = "orDefault None (database ?cfg')"
  have D': "?D' = ''master''" by (simp add: orDefault_def flaky_facts)
  have gp2: "getPool ?cfg' ?drv' 0 freshService = Some (Inr ?p, connectedService)"
    by (rule first_getPool) (simp_all add: flaky_facts)
  have tr2: "executeQuery_try ?cfg' ?drv' ''SELECT 1'' ?D' connectedService
           = (Inl (Foreign (JsErr connectionLost)), afterFailure (EvQuery ''SELECT 1''))"
    unfolding D' by (rule select1_try_fails) (simp_all add: flaky_facts)
  have pre2: "\<not> isConnecting freshService
      \<and> (allowedList ?cfg' = [] \<or> ?D' \<in> set (allowedList ?cfg'))
      \<and> getPool ?cfg' ?drv' 0 freshService = Some (Inr ?p, connectedService)
      \<and> executeQuery_try ?cfg' ?drv' ''SELECT 1'' ?D' connectedService
           = (Inl (Foreign (JsErr connectionLost)), afterFailure (EvQuery ''SELECT 1''))
      \<and> queryErrorType connectionLost = CONNECTION_ERROR"
    using idle gp2 tr2 by (simp add: flaky_facts error_kinds)
  from connection_failure_self_heal [where cfg = ?cfg' and drv = ?drv' and s = freshService
         and p = ?p and ?s1.0 = connectedService and ?s2.0 = "afterFailure (EvQuery ''SELECT 1'')"
         and error = connectionLost and db = None and T = "''SELECT 1''",
         THEN conjunct1, rule_format, OF pre2]
  obtain g2 s4 e2 where g2: "getPool ?cfg' ?drv' 0 (closePool (afterFailure (EvQuery ''SELECT 1''))) = Some (g2, s4)"
    and run2: "executeQuery ?cfg' ?drv' ''SELECT 1'' None freshService = Some (Inl e2, s4)"
    and ty2: "errorType e2 = CONNECTION_ERROR"
    and bad: "\<forall>re. g2 = Inl re \<longrightarrow>
               originalError e2 = Some (asError re)
               \<and> detail e2 ''originalErrorMsg'' = Some (DStr (js_message connectionLost))
               \<and> detail e2 ''details''
                   = Some (DStr (''Reconnect attempt failed after initial failure of '' @ ''executeQuery''
                          @ ''. Original error: '' @ js_message connectionLost
                          @ ''. Reconnect error: '' @ message re))
               \<and> pool s4 = None"
    by blast
  have g2': "getPool ?cfg' ?drv' 0 (closePool (afterFailure (EvQuery ''SELECT 1'')))
     = Some (Inl (retriesExhausted ?cfg' (connectFailure ?cfg' (ConnectFailed refused))),
             \<lparr>pool = None, connectionPromise = None,
              isConnecting = False, abortController = None, schemaCache = Map.empty,
              connectionRetries = 0,
              trace = [EvConnect 0, EvQuery ''SELECT 1'', EvPoolClose 0, EvConnect 3,
                       EvPoolClose 3, EvPoolClose 3]\<rparr>)"
    by (rule rebuild_fails) (simp_all add: flaky_facts)
  have rm: "message (retriesExhausted ?cfg' (connectFailure ?cfg' (ConnectFailed refused)))
     = ''DatabaseService: Failed to connect to database after 1 attempts. Last error: Failed to connect to localhost:1433 - Could not connect (sequence)''"
    by (rule rebuild_error_message) simp
  from g2 g2' have "g2 = Inl (retriesExhausted ?cfg' (connectFailure ?cfg' (ConnectFailed refused)))"
    by simp
  with bad have "detail e2 ''originalErrorMsg'' = Some (DStr (js_message connectionLost))"
    "detail e2 ''details''
       = Some (DStr (''Reconnect attempt failed after initial failure of '' @ ''executeQuery''
              @ ''. Original error: '' @ js_message connectionLost
              @ ''. Reconnect error: ''
              @ message (retriesExhausted ?cfg' (connectFailure ?cfg' (ConnectFailed refused)))))"
    "pool s4 = None"
    by blast+
  hence d: "detail e2 ''originalErrorMsg'' = Some (DStr ''Connection lost - read ECONNRESET'')"
    "detail e2 ''details'' = Some (DStr ''Reconnect attempt failed after initial failure of executeQuery. Original error: Connection lost - read ECONNRESET. Reconnect error: DatabaseService: Failed to connect to database after 1 attempts. Last error: Failed to connect to localhost:1433 - Could not connect (sequence)'')"
    "pool s4 = None"
    by (simp_all only: msg rm append.simps)
  from g2 g2' have s4: "eventsSince freshService s4
      = [EvConnect 0, EvQuery ''SELECT 1'', EvPoolClose 0, EvConnect 3, EvPoolClose 3, EvPoolClose 3]"
    by (auto simp: eventsSince_def step_def freshService_def)
  from run2 ty2 d s4 have f: "map_option (\<lambda>(r, s'). (map_sum (\<lambda>e. (errorType e, detail e ''originalErrorMsg'', detail e ''details''))
                                      (\<lambda>res. ()) r,
                             eventsSince freshService s', pool s'))
     (executeQuery ?cfg' ?drv' ''SELECT 1'' None freshService)
     = Some (Inl (CONNECTION_ERROR, Some (DStr ''Connection lost - read ECONNRESET''),
                  Some (DStr ''Reconnect attempt failed after initial failure of executeQuery. Original error: Connection lost - read ECONNRESET. Reconnect error: DatabaseService: Failed to connect to database after 1 attempts. Last error: Failed to connect to localhost:1433 - Could not connect (sequence)'')),
             [EvConnect 0, EvQuery ''SELECT 1'', EvPoolClose 0, EvConnect 3, EvPoolClose 3, EvPoolClose 3],
             None)"
    by simp
  from a b c f show ?thesis by (intro conjI)
qed

end
